(* ===== verification/Prelude.thy ===== *)
theory Prelude
  imports Main "HOL-Library.Monad_Syntax"
begin

text \<open>
  Shared vocabulary of the gift-code development: the named collections the component
  theories fill, and generic facts on lists and options that the registry, the two batch
  engines and the import pipeline all rely on. Nothing here models code of the repository.
\<close>

named_theorems frame_simps
  "an operation leaves a field of the hook state untouched"
named_theorems wf_preserve
  "an operation preserves the well-formedness of the account registry"

subsection \<open>JavaScript truthiness on strings\<close>

text \<open>
  \<open>s || d\<close> on a string evaluates to \<open>d\<close> exactly when \<open>s\<close> is the empty string
  (the only falsy string). The code uses it for optional server messages.
\<close>

definition js_or :: "string \<Rightarrow> 'a \<Rightarrow> (string \<Rightarrow> 'a) \<Rightarrow> 'a" where
  "js_or s d f = (if s = [] then d else f s)"

lemma js_or_simps [simp]:
  "js_or [] d f = d"
  "js_or (c # cs) d f = f (c # cs)"
  by (simp_all add: js_or_def)

subsection \<open>Lists updated element-wise by a key\<close>

text \<open>
  The registry updates an account list with \<open>map\<close> under a key test and removes with
  \<open>filter\<close>. Projections that the update does not touch are preserved.
\<close>

lemma map_proj_update [simp]:
  assumes "\<And>x. f (g x) = f x"
  shows "map f (map (\<lambda>x. if P x then x else g x) xs) = map f xs"
  using assms by (induction xs) auto

lemma distinct_map_filter_proj [simp]:
  "distinct (map f xs) \<Longrightarrow> distinct (map f (filter P xs))"
  by (induction xs) auto

subsection \<open>Counting with filters\<close>

lemma filter_length_le_add:
  assumes "\<And>x. \<not> (P x \<and> Q x)"
  shows "length (filter P xs) + length (filter Q xs) \<le> length xs"
  using assms by (induction xs) auto

lemma length_filter_mono_pred:
  "(\<And>x. P x \<Longrightarrow> Q x) \<Longrightarrow> length (filter P xs) \<le> length (filter Q xs)"
  by (induction xs) auto

end
