(* ===== verification/Model.thy ===== *)
theory Model
  imports Prelude
begin

text \<open>
  The data model of \<^verbatim>\<open>src/src/types/index.ts\<close> and \<^verbatim>\<open>src/src/constants/index.ts\<close>:
  account status, player profile, account, the API's base response, error codes, and the
  user-facing messages. Translated messages (\<^verbatim>\<open>t("messages.key", params)\<close>) are kept
  as a datatype of keys with their parameters: the rendering by the i18n catalogue is out
  of scope, but which message is chosen, with which parameters, is modelled exactly.
\<close>

subsection \<open>Account status (\<^verbatim>\<open>AccountStatus\<close>)\<close>

datatype account_status = Idle | Processing | Success | Error | Validating

subsection \<open>Player profile (\<^verbatim>\<open>PlayerInfo\<close>)\<close>

text \<open>JavaScript numbers of the profile are integral in the service's answers: \<open>int\<close>.\<close>

record player_info =
  fid :: int
  nickname :: string
  kid :: int
  stove_lv :: int
  stove_lv_content :: string
  avatar_image :: string
  total_recharge_amount :: int

subsection \<open>User-facing messages\<close>

text \<open>
  One constructor per translation key the hook and the API modules use, with the
  interpolation parameters; \<open>MText\<close> is a text taken verbatim from the service or from
  an exception (\<^verbatim>\<open>error.message\<close>). The import messages of the account
  manager carry their parameters: a list rendered as text, and the optional
  \<^verbatim>\<open>moreCount\<close> suffix as \<open>Some n\<close> (\<open>None\<close> is the empty suffix).
\<close>

datatype message =
    MText string
  | MAccountExists string
  | MAccountQuerying
  | MQueryFailed
  | MAccountNotExists
  | MAccountAddFailed string message
  | MPlayerInfoQueryingProgress nat nat
  | MValidationFailed
  | MNeedAddAccount
  | MNoValidatedAccounts
  | MAccountNotValidated
  | MRedeemSuccess
  | MRedeemFailed
  | MHttpError int string
  | MUnknownError
  | MPlayerNotFound
  | MHttpStatus int string
  | MGiftAlreadyClaimed
  | MGiftNotExists
  | MGiftQuotaExceeded
  | MGiftExpired
  | MGiftFailed "string option"
  | MGiftNetworkError message
  | MGiftSuccessShort
  | MGiftAlreadyClaimedShort
  | MGiftNotExistsShort
  | MGiftQuotaExceededShort
  | MGiftExpiredShort
  | MImportFileFormatError
  | MImportFileTooLarge string
  | MImportFileEmpty
  | MImportFormatInvalid string "nat option"
  | MImportDuplicate string "nat option"
  | MImportExisting string "nat option"
  | MImportAddFailed string
  | MImportAllFailed
  | MImportSummary nat nat nat
  | MFileReadError string
  | MNoAccountsToExport
  | MExportSuccess nat

subsection \<open>Accounts (\<^verbatim>\<open>Account\<close>)\<close>

text \<open>The field \<^verbatim>\<open>id\<close> is \<open>account_id\<close> here (\<open>id\<close> is the identity function of HOL).\<close>

record account =
  account_id :: string
  accountNumber :: string
  status :: account_status
  lastResult :: "message option"
  playerInfo :: "player_info option"
  isValidated :: bool

datatype alert_type = AlertError | AlertWarning | AlertInfo | AlertSuccess

subsection \<open>API responses (\<^verbatim>\<open>BaseApiResponse\<close>, \<^verbatim>\<open>PlayerInfoResponse\<close>)\<close>

text \<open>\<^verbatim>\<open>err_code: string | number\<close> is a sum of the two JSON kinds.\<close>

datatype err_code = ErrNum int | ErrStr string

record base_api_response =
  code :: int
  msg :: string
  err_code :: err_code

text \<open>\<^verbatim>\<open>data: PlayerInfo | []\<close>: \<open>None\<close> is the empty array the service sends when no player exists.\<close>

record player_info_response = base_api_response +
  data :: "player_info option"

subsection \<open>Error codes (\<^verbatim>\<open>API_ERROR_CODES\<close>)\<close>

definition ACCOUNT_NOT_EXISTS :: int where "ACCOUNT_NOT_EXISTS = 40004"
definition GIFT_CODE_ALREADY_CLAIMED :: int where "GIFT_CODE_ALREADY_CLAIMED = 40008"
definition GIFT_CODE_NOT_EXISTS :: int where "GIFT_CODE_NOT_EXISTS = 40014"
definition GIFT_CODE_QUOTA_EXCEEDED :: int where "GIFT_CODE_QUOTA_EXCEEDED = 40005"
definition GIFT_CODE_EXPIRED :: int where "GIFT_CODE_EXPIRED = 40007"

lemmas api_error_codes [simp] =
  ACCOUNT_NOT_EXISTS_def GIFT_CODE_ALREADY_CLAIMED_def GIFT_CODE_NOT_EXISTS_def
  GIFT_CODE_QUOTA_EXCEEDED_def GIFT_CODE_EXPIRED_def

end
