(* ===== verification/Api.thy ===== *)
theory Api
  imports Model
begin

text \<open>
  The two remote calls at their boundary (\<^verbatim>\<open>src/src/utils/playerApi.ts\<close>,
  \<^verbatim>\<open>src/src/utils/giftCodeApi.ts\<close>): what the HTTP exchange can produce is a
  \<open>transport\<close> value, and \<open>fetchPlayerInfo\<close> and \<open>submitGiftCode\<close> classify it into a
  result or a thrown error exactly as the code's checks do, in the code's order. The
  requests sent are built in \<open>Request\<close>; the \<^verbatim>\<open>fetch\<close> call itself is the environment.
  The hook's own classification of a caught error (repeated in \<^verbatim>\<open>addAccount\<close>,
  \<^verbatim>\<open>validateAccounts\<close> and \<^verbatim>\<open>submitGiftCodeToAccounts\<close>) is here too.
\<close>

subsection \<open>What one HTTP exchange can produce\<close>

text \<open>
  \<open>NetworkFailure m\<close>: \<^verbatim>\<open>fetch\<close> rejects with an \<^verbatim>\<open>Error\<close> of message \<open>m\<close>;
  \<open>HttpNotOk s t\<close>: the response has \<^verbatim>\<open>ok = false\<close>, status \<open>s\<close>, status text \<open>t\<close>;
  \<open>JsonParseFailure m\<close>: \<^verbatim>\<open>response.json()\<close> rejects;
  \<open>JsonBody b\<close>: the parsed body.
\<close>

datatype 'body transport =
    NetworkFailure string
  | HttpNotOk int string
  | JsonParseFailure string
  | JsonBody 'body

subsection \<open>Profile lookup (\<^verbatim>\<open>fetchPlayerInfo\<close>, \<^verbatim>\<open>ApiError\<close>)\<close>

text \<open>
  \<open>ApiError code message errorCode\<close> is the class \<^verbatim>\<open>ApiError\<close>; \<open>OtherError\<close> is any
  other exception that escapes \<^verbatim>\<open>fetchPlayerInfo\<close> (it has no \<^verbatim>\<open>try\<close>).
\<close>

datatype lookup_error =
    ApiError int message err_code
  | OtherError message

fun fetchPlayerInfo :: "player_info_response transport \<Rightarrow> lookup_error + player_info" where
  "fetchPlayerInfo (NetworkFailure m) = Inl (OtherError (MText m))"
| "fetchPlayerInfo (HttpNotOk s t) = Inl (ApiError s (MHttpError s t) (ErrNum s))"
| "fetchPlayerInfo (JsonParseFailure m) = Inl (OtherError (MText m))"
| "fetchPlayerInfo (JsonBody d) =
     (if code d \<noteq> 0 then Inl (ApiError (code d) (js_or (msg d) MUnknownError MText) (err_code d))
      else case data d of
        None \<Rightarrow> Inl (ApiError (code d) (js_or (msg d) MPlayerNotFound MText) (err_code d))
      | Some p \<Rightarrow> Inr p)"

subsection \<open>Redemption (\<^verbatim>\<open>submitGiftCode\<close>, \<^verbatim>\<open>GiftCodeApiError\<close>)\<close>

datatype redeem_error =
    GiftCodeApiError message err_code int
  | PlainError message

text \<open>The \<^verbatim>\<open>switch (data.err_code)\<close>: JavaScript \<^verbatim>\<open>switch\<close> compares with \<^verbatim>\<open>===\<close>.\<close>

fun giftCodeErrorMessage :: "err_code \<Rightarrow> string \<Rightarrow> message" where
  "giftCodeErrorMessage (ErrNum n) m =
     (if n = GIFT_CODE_ALREADY_CLAIMED then MGiftAlreadyClaimed
      else if n = GIFT_CODE_NOT_EXISTS then MGiftNotExists
      else if n = GIFT_CODE_QUOTA_EXCEEDED then MGiftQuotaExceeded
      else if n = GIFT_CODE_EXPIRED then MGiftExpired
      else MGiftFailed (js_or m None Some))"
| "giftCodeErrorMessage (ErrStr s) m = MGiftFailed (js_or m None Some)"

text \<open>
  The outer \<^verbatim>\<open>catch\<close> rethrows a \<^verbatim>\<open>GiftCodeApiError\<close> and wraps anything else into a
  network error whose parameter is the inner error's message.
\<close>

fun submitGiftCode :: "base_api_response transport \<Rightarrow> redeem_error + base_api_response" where
  "submitGiftCode (NetworkFailure m) = Inl (PlainError (MGiftNetworkError (MText m)))"
| "submitGiftCode (HttpNotOk s t) = Inl (PlainError (MGiftNetworkError (MHttpStatus s t)))"
| "submitGiftCode (JsonParseFailure m) = Inl (PlainError (MGiftNetworkError (MText m)))"
| "submitGiftCode (JsonBody d) =
     (if code d \<noteq> 0
      then Inl (GiftCodeApiError (giftCodeErrorMessage (err_code d) (msg d)) (err_code d) (code d))
      else Inr d)"

fun getGiftCodeResultMessage :: "base_api_response \<Rightarrow> message" where
  "getGiftCodeResultMessage r =
     (if code r = 0 then MGiftSuccessShort
      else case err_code r of
        ErrNum n \<Rightarrow>
          (if n = GIFT_CODE_ALREADY_CLAIMED then MGiftAlreadyClaimedShort
           else if n = GIFT_CODE_NOT_EXISTS then MGiftNotExistsShort
           else if n = GIFT_CODE_QUOTA_EXCEEDED then MGiftQuotaExceededShort
           else if n = GIFT_CODE_EXPIRED then MGiftExpiredShort
           else MGiftFailed (js_or (msg r) None Some))
      | ErrStr _ \<Rightarrow> MGiftFailed (js_or (msg r) None Some))"

subsection \<open>The hook's classification of caught errors\<close>

text \<open>
  \<^verbatim>\<open>let errorMessage = t(default); if (error instanceof ApiError) { if (error.errorCode
  === ACCOUNT_NOT_EXISTS) ... else errorMessage = error.message }\<close>: the default is
  \<open>MQueryFailed\<close> in \<^verbatim>\<open>addAccount\<close> and \<open>MValidationFailed\<close> in both engines.
\<close>

fun lookupErrorMessage :: "message \<Rightarrow> lookup_error \<Rightarrow> message" where
  "lookupErrorMessage dflt (ApiError c m e) =
     (if e = ErrNum ACCOUNT_NOT_EXISTS then MAccountNotExists else m)"
| "lookupErrorMessage dflt (OtherError m) = dflt"

text \<open>
  \<^verbatim>\<open>submitGiftCodeToAccounts\<close>' \<^verbatim>\<open>catch\<close>: a \<^verbatim>\<open>GiftCodeApiError\<close> and any other
  \<^verbatim>\<open>Error\<close> both surface their own message.
\<close>

fun redeemErrorMessage :: "redeem_error \<Rightarrow> message" where
  "redeemErrorMessage (GiftCodeApiError m e c) = m"
| "redeemErrorMessage (PlainError m) = m"

text \<open>The short form of a redemption message, as \<^verbatim>\<open>getGiftCodeResultMessage\<close> words it.\<close>

fun short_message :: "message \<Rightarrow> message" where
  "short_message MGiftAlreadyClaimed = MGiftAlreadyClaimedShort"
| "short_message MGiftNotExists = MGiftNotExistsShort"
| "short_message MGiftQuotaExceeded = MGiftQuotaExceededShort"
| "short_message MGiftExpired = MGiftExpiredShort"
| "short_message m = m"

subsection \<open>Properties of the classification\<close>

text \<open>
  C14: A profile lookup yields a profile exactly when the HTTP exchange succeeded, the
  body parsed, its \<^verbatim>\<open>code\<close> is 0 and its \<^verbatim>\<open>data\<close> is an object; every other
  outcome, network and parse failures included, is a thrown error.
\<close>

theorem fetchPlayerInfo_success_iff:
  "fetchPlayerInfo t = Inr p \<longleftrightarrow> (\<exists>d. t = JsonBody d \<and> code d = 0 \<and> data d = Some p)"
  by (cases t) (auto split: option.splits)

text \<open>
  C15: A failed lookup is reported as "account does not exist" exactly when the error
  code compares \<^verbatim>\<open>===\<close> to the number 40004: a JSON body with the numeric
  \<^verbatim>\<open>err_code\<close> 40004, or (the same test applied to an HTTP status) a status of 40004. An
  \<^verbatim>\<open>err_code\<close> sent as the string "40004" gets the generic message.
\<close>

theorem lookupErrorMessage_not_exists:
  assumes "fetchPlayerInfo t = Inl err" and "dflt \<noteq> MAccountNotExists"
  shows "lookupErrorMessage dflt err = MAccountNotExists \<longleftrightarrow>
    (\<exists>d. t = JsonBody d \<and> err_code d = ErrNum ACCOUNT_NOT_EXISTS) \<or>
    (\<exists>txt. t = HttpNotOk ACCOUNT_NOT_EXISTS txt)"
  using assms
  by (cases t) (auto simp add: js_or_def split: if_splits option.splits)

text \<open>
  C16: The two classifications of a redemption response agree: a body with \<^verbatim>\<open>code\<close> 0
  is a success for \<^verbatim>\<open>submitGiftCode\<close> and words as the short success message; any other
  body is a \<^verbatim>\<open>GiftCodeApiError\<close> carrying the body's codes whose message is the long form
  of exactly the short message \<^verbatim>\<open>getGiftCodeResultMessage\<close> gives.
\<close>

theorem giftCode_classifications_agree:
  "(code d = 0 \<longrightarrow> submitGiftCode (JsonBody d) = Inr d \<and> getGiftCodeResultMessage d = MGiftSuccessShort) \<and>
   (code d \<noteq> 0 \<longrightarrow> (\<exists>m. submitGiftCode (JsonBody d) = Inl (GiftCodeApiError m (err_code d) (code d)) \<and>
                       getGiftCodeResultMessage d = short_message m))"
  by (cases "err_code d") auto

end
