(* ===== verification/Registry.thy ===== *)
theory Registry
  imports Model "HOL-Library.Sublist"
begin

text \<open>
  The account registry of \<^verbatim>\<open>useAccountActions\<close> (\<^verbatim>\<open>src/src/hooks/useAccountActions.ts\<close>):
  the hook's state as one record (its \<^verbatim>\<open>useState\<close> cells and the cancellation
  \<^verbatim>\<open>useRef\<close>), the merge-style update primitives \<^verbatim>\<open>updateAccountStatus\<close> and
  \<^verbatim>\<open>updateAccountStatusBatch\<close>, and \<^verbatim>\<open>deleteAccount\<close>. A \<^verbatim>\<open>setAccounts(prev => ...)\<close>
  applies its function to the current list, so each primitive is a function on the state.
  Two ghost fields record what the code does to the outside world: the notifications
  passed to \<^verbatim>\<open>onShowAlert\<close>, and the events the code takes part in: its calls to the
  network and to the timer, and the user's deletions that interleave with them.
\<close>

subsection \<open>The hook state\<close>

datatype event =
    CallLookup string          \<comment> \<open>\<^verbatim>\<open>fetchPlayerInfo(accountNumber)\<close>\<close>
  | CallRedeem string string   \<comment> \<open>\<^verbatim>\<open>submitGiftCode(accountNumber, code)\<close>\<close>
  | CallSleep nat              \<comment> \<open>\<^verbatim>\<open>setTimeout(resolve, delayMs)\<close>\<close>
  | UserDelete string          \<comment> \<open>the user clicks delete while an await is pending\<close>

record world =
  accounts :: "account list"
  cancelledIds :: "string set"
  isProcessing :: bool
  processingRemaining :: "nat option"
  alerts :: "(message \<times> alert_type) list"
  events :: "event list"

definition initial_world :: world where
  "initial_world = \<lparr>accounts = [], cancelledIds = {}, isProcessing = False,
     processingRemaining = None, alerts = [], events = []\<rparr>"

definition showAlert :: "message \<Rightarrow> alert_type \<Rightarrow> world \<Rightarrow> world" where
  "showAlert m ty w = w\<lparr>alerts := alerts w @ [(m, ty)]\<rparr>"

definition log_event :: "event \<Rightarrow> world \<Rightarrow> world" where
  "log_event c w = w\<lparr>events := events w @ [c]\<rparr>"

subsection \<open>Update primitives\<close>

text \<open>
  The merge of one update into one account: the profile is replaced only when one is
  given (\<^verbatim>\<open>undefined\<close> is \<open>None\<close>), \<^verbatim>\<open>lastResult\<close> is always overwritten, and
  \<^verbatim>\<open>isValidated\<close> is \<^verbatim>\<open>wasValidated || (status === "idle" && !!resolvedPlayerInfo)\<close>.
\<close>

definition merge_status :: "account_status \<Rightarrow> message option \<Rightarrow> player_info option \<Rightarrow> account \<Rightarrow> account" where
  "merge_status st lr pinfo acc =
     (let resolved = (if pinfo \<noteq> None then pinfo else playerInfo acc)
      in acc\<lparr>status := st, lastResult := lr, playerInfo := resolved,
             isValidated := (isValidated acc \<or> (st = Idle \<and> resolved \<noteq> None))\<rparr>)"

definition updateAccountStatus ::
  "string \<Rightarrow> account_status \<Rightarrow> message option \<Rightarrow> player_info option \<Rightarrow> world \<Rightarrow> world" where
  "updateAccountStatus aid st lr pinfo w =
     w\<lparr>accounts := map (\<lambda>acc. if account_id acc \<noteq> aid then acc else merge_status st lr pinfo acc)
                       (accounts w)\<rparr>"

record status_update =
  upd_accountId :: string
  upd_status :: account_status
  upd_lastResult :: "message option"
  upd_playerInfo :: "player_info option"

definition updateAccountStatusBatch :: "status_update list \<Rightarrow> world \<Rightarrow> world" where
  "updateAccountStatusBatch us w =
     w\<lparr>accounts := map (\<lambda>acc. case find (\<lambda>u. upd_accountId u = account_id acc) us of
                                 None \<Rightarrow> acc
                               | Some u \<Rightarrow> merge_status (upd_status u) (upd_lastResult u) (upd_playerInfo u) acc)
                       (accounts w)\<rparr>"

text \<open>\<^verbatim>\<open>deleteAccount\<close>: mark the id cancelled, then drop every account with that id.\<close>

definition deleteAccount :: "string \<Rightarrow> world \<Rightarrow> world" where
  "deleteAccount aid w =
     w\<lparr>cancelledIds := insert aid (cancelledIds w),
       accounts := filter (\<lambda>acc. account_id acc \<noteq> aid) (accounts w)\<rparr>"

subsection \<open>Well-formedness of the registry\<close>

text \<open>
  Ids and account numbers are unique among live accounts, and a validated account has a
  profile (the two invariants of the spec's data model, plus uniqueness of the key).
\<close>

definition wf_accounts :: "account list \<Rightarrow> bool" where
  "wf_accounts accs \<longleftrightarrow>
     distinct (map account_id accs) \<and> distinct (map accountNumber accs) \<and>
     list_all (\<lambda>a. isValidated a \<longrightarrow> playerInfo a \<noteq> None) accs"

text \<open>
  How a registry may evolve under the update primitives and deletion: the new list embeds,
  in order, into the old one, each surviving account being a later version of the old
  account at its place: same id and number, still validated once validated, still with a
  profile once it had one, and validated only with a profile.
\<close>

definition acc_evolves :: "account \<Rightarrow> account \<Rightarrow> bool" where
  "acc_evolves b a \<longleftrightarrow>
     account_id b = account_id a \<and> accountNumber b = accountNumber a \<and>
     (isValidated a \<longrightarrow> isValidated b) \<and> (playerInfo a \<noteq> None \<longrightarrow> playerInfo b \<noteq> None) \<and>
     (isValidated b \<longrightarrow> isValidated a \<or> playerInfo b \<noteq> None)"

definition evolves :: "account list \<Rightarrow> account list \<Rightarrow> bool" where
  "evolves xs ys \<longleftrightarrow> list_emb acc_evolves ys xs"

fun deleted_ids :: "event list \<Rightarrow> string list" where
  "deleted_ids [] = []"
| "deleted_ids (UserDelete i # tr) = i # deleted_ids tr"
| "deleted_ids (_ # tr) = deleted_ids tr"

text \<open>
  The same for the whole hook state, across a run of an operation that interleaves with
  the user: the event trace only grows, the registry evolves, and no account deleted during
  the run is live at its end.
\<close>

definition world_evolves :: "world \<Rightarrow> world \<Rightarrow> bool" where
  "world_evolves w w' \<longleftrightarrow>
     take (length (events w)) (events w') = events w \<and> evolves (accounts w) (accounts w') \<and>
     (\<forall>i\<in>set (deleted_ids (drop (length (events w)) (events w'))).
        i \<notin> set (map account_id (accounts w')))"

text \<open>
  The registry primitives the hook exports (\<^verbatim>\<open>updateAccountStatus\<close>,
  \<^verbatim>\<open>updateAccountStatusBatch\<close>, \<^verbatim>\<open>deleteAccount\<close>) as a datatype of calls, so that an
  arbitrary sequence of calls by the components is a list.
\<close>

datatype registry_op =
    OpUpdate string account_status "message option" "player_info option"
  | OpUpdateBatch "status_update list"
  | OpDelete string

fun apply_registry_op :: "registry_op \<Rightarrow> world \<Rightarrow> world" where
  "apply_registry_op (OpUpdate aid st lr p) w = updateAccountStatus aid st lr p w"
| "apply_registry_op (OpUpdateBatch us) w = updateAccountStatusBatch us w"
| "apply_registry_op (OpDelete aid) w = deleteAccount aid w"

subsection \<open>Facts about the primitives\<close>

lemma merge_status_keys [simp]:
  "account_id (merge_status st lr p a) = account_id a"
  "accountNumber (merge_status st lr p a) = accountNumber a"
  "status (merge_status st lr p a) = st"
  "lastResult (merge_status st lr p a) = lr"
  by (simp_all add: merge_status_def Let_def)

lemma merge_status_playerInfo [simp]:
  "playerInfo (merge_status st lr p a) = (if p \<noteq> None then p else playerInfo a)"
  by (simp add: merge_status_def Let_def)

lemma merge_status_isValidated [simp]:
  "isValidated (merge_status st lr p a) \<longleftrightarrow>
     isValidated a \<or> (st = Idle \<and> (p \<noteq> None \<or> playerInfo a \<noteq> None))"
  by (auto simp add: merge_status_def Let_def)

lemma updateAccountStatus_frame [simp, frame_simps]:
  "cancelledIds (updateAccountStatus aid st lr p w) = cancelledIds w"
  "isProcessing (updateAccountStatus aid st lr p w) = isProcessing w"
  "processingRemaining (updateAccountStatus aid st lr p w) = processingRemaining w"
  "alerts (updateAccountStatus aid st lr p w) = alerts w"
  "events (updateAccountStatus aid st lr p w) = events w"
  by (simp_all add: updateAccountStatus_def)

lemma deleteAccount_frame [simp, frame_simps]:
  "isProcessing (deleteAccount aid w) = isProcessing w"
  "processingRemaining (deleteAccount aid w) = processingRemaining w"
  "alerts (deleteAccount aid w) = alerts w"
  "events (deleteAccount aid w) = events w"
  by (simp_all add: deleteAccount_def)

lemma showAlert_frame [simp, frame_simps]:
  "accounts (showAlert m ty w) = accounts w"
  "cancelledIds (showAlert m ty w) = cancelledIds w"
  "isProcessing (showAlert m ty w) = isProcessing w"
  "processingRemaining (showAlert m ty w) = processingRemaining w"
  "events (showAlert m ty w) = events w"
  "alerts (showAlert m ty w) = alerts w @ [(m, ty)]"
  by (simp_all add: showAlert_def)

lemma log_event_frame [simp, frame_simps]:
  "accounts (log_event c w) = accounts w"
  "cancelledIds (log_event c w) = cancelledIds w"
  "isProcessing (log_event c w) = isProcessing w"
  "processingRemaining (log_event c w) = processingRemaining w"
  "alerts (log_event c w) = alerts w"
  "events (log_event c w) = events w @ [c]"
  by (simp_all add: log_event_def)

lemma accounts_deleteAccount [simp]:
  "accounts (deleteAccount aid w) = filter (\<lambda>acc. account_id acc \<noteq> aid) (accounts w)"
  "cancelledIds (deleteAccount aid w) = insert aid (cancelledIds w)"
  by (simp_all add: deleteAccount_def)

lemma keys_updateAccountStatus [simp]:
  "map account_id (accounts (updateAccountStatus aid st lr p w)) = map account_id (accounts w)"
  "map accountNumber (accounts (updateAccountStatus aid st lr p w)) = map accountNumber (accounts w)"
  by (simp_all add: updateAccountStatus_def)

lemma map_update_absent:
  assumes "aid \<notin> set (map account_id accs)"
  shows "map (\<lambda>acc. if account_id acc \<noteq> aid then acc else f acc) accs = accs"
  using assms by (intro map_idI) auto

lemma wf_updateAccountStatus [wf_preserve]:
  "wf_accounts (accounts w) \<Longrightarrow> wf_accounts (accounts (updateAccountStatus aid st lr p w))"
  by (simp add: wf_accounts_def list_all_iff) (auto simp add: updateAccountStatus_def)

lemma wf_deleteAccount [wf_preserve]:
  "wf_accounts (accounts w) \<Longrightarrow> wf_accounts (accounts (deleteAccount aid w))"
  by (auto simp add: wf_accounts_def list_all_iff)

lemma wf_accounts_filter [wf_preserve]:
  "wf_accounts accs \<Longrightarrow> wf_accounts (filter P accs)"
  by (auto simp add: wf_accounts_def list_all_iff)

subsection \<open>Evolution of the registry\<close>

lemma acc_evolves_refl [simp]: "acc_evolves a a"
  by (simp add: acc_evolves_def)

lemma acc_evolves_merge_status [simp]: "acc_evolves (merge_status st lr p a) a"
  by (auto simp add: acc_evolves_def)

lemma evolves_refl [simp]: "evolves xs xs"
  by (simp add: evolves_def list_emb_refl)

lemma evolves_trans [trans]: "evolves xs ys \<Longrightarrow> evolves ys zs \<Longrightarrow> evolves xs zs"
  unfolding evolves_def
  by (rule list_emb_trans [rotated]) (auto simp add: acc_evolves_def)

lemma evolves_filter [simp]: "evolves xs (filter P xs)"
  by (induction xs) (auto simp add: evolves_def)

lemma evolves_map:
  "(\<And>x. x \<in> set xs \<Longrightarrow> acc_evolves (f x) x) \<Longrightarrow> evolves xs (map f xs)"
  by (induction xs) (auto simp add: evolves_def)

lemma evolves_updateAccountStatus [simp]:
  "evolves (accounts w) (accounts (updateAccountStatus aid st lr p w))"
  by (auto simp add: updateAccountStatus_def intro: evolves_map)

lemma list_emb_map_subseq:
  "list_emb P xs ys \<Longrightarrow> (\<And>x y. P x y \<Longrightarrow> f x = f y) \<Longrightarrow> subseq (map f xs) (map f ys)"
  by (induction rule: list_emb.induct) auto

lemma subseq_distinct: "subseq xs ys \<Longrightarrow> distinct ys \<Longrightarrow> distinct xs"
  by (induction rule: list_emb.induct) (auto dest: list_emb_set)

lemma evolves_keys:
  assumes "evolves xs ys"
  shows "subseq (map account_id ys) (map account_id xs)"
    "subseq (map accountNumber ys) (map accountNumber xs)"
  using assms unfolding evolves_def
  by (auto intro: list_emb_map_subseq simp add: acc_evolves_def)

lemma evolves_ids:
  assumes "evolves xs ys"
  shows "set (map account_id ys) \<subseteq> set (map account_id xs)"
proof
  fix i assume "i \<in> set (map account_id ys)"
  with list_emb_set [OF evolves_keys(1) [OF assms]] show "i \<in> set (map account_id xs)"
    by blast
qed

lemma evolves_wf [wf_preserve]:
  assumes "evolves xs ys" and "wf_accounts xs"
  shows "wf_accounts ys"
proof -
  have "distinct (map account_id ys)" "distinct (map accountNumber ys)"
    using assms by (auto simp add: wf_accounts_def dest: evolves_keys intro: subseq_distinct)
  moreover have "list_all (\<lambda>a. isValidated a \<longrightarrow> playerInfo a \<noteq> None) ys"
  proof (unfold list_all_iff, intro ballI impI)
    fix b assume "b \<in> set ys" and v: "isValidated b"
    then obtain a where "a \<in> set xs" "acc_evolves b a"
      using assms(1) by (auto simp add: evolves_def dest: list_emb_set)
    with assms(2) v show "playerInfo b \<noteq> None"
      by (auto simp add: wf_accounts_def list_all_iff acc_evolves_def)
  qed
  ultimately show ?thesis by (simp add: wf_accounts_def)
qed

lemma evolves_updateAccountStatusBatch [simp]:
  "evolves (accounts w) (accounts (updateAccountStatusBatch us w))"
  by (auto simp add: updateAccountStatusBatch_def intro: evolves_map split: option.splits)

lemma evolves_deleteAccount [simp]:
  "evolves (accounts w) (accounts (deleteAccount aid w))"
  by simp

lemma evolves_apply_registry_op [simp]:
  "evolves (accounts w) (accounts (apply_registry_op op w))"
  by (cases op) simp_all

lemma deleted_ids_append [simp]:
  "deleted_ids (xs @ ys) = deleted_ids xs @ deleted_ids ys"
  by (induction xs rule: deleted_ids.induct) auto

lemma world_evolves_iff:
  "world_evolves w w' \<longleftrightarrow>
     (\<exists>tr. events w' = events w @ tr \<and> evolves (accounts w) (accounts w') \<and>
        (\<forall>i\<in>set (deleted_ids tr). i \<notin> set (map account_id (accounts w'))))"
  unfolding world_evolves_def by (metis append_eq_conv_conj append_take_drop_id)

lemma world_evolves_refl [simp]: "world_evolves w w"
  by (auto simp add: world_evolves_iff)

lemma world_evolves_trans [trans]:
  assumes "world_evolves w1 w2" and "world_evolves w2 w3"
  shows "world_evolves w1 w3"
proof -
  obtain tr1 where 1: "events w2 = events w1 @ tr1" "evolves (accounts w1) (accounts w2)"
    "\<forall>i\<in>set (deleted_ids tr1). i \<notin> set (map account_id (accounts w2))"
    using assms(1) by (auto simp add: world_evolves_iff)
  obtain tr2 where 2: "events w3 = events w2 @ tr2" "evolves (accounts w2) (accounts w3)"
    "\<forall>i\<in>set (deleted_ids tr2). i \<notin> set (map account_id (accounts w3))"
    using assms(2) by (auto simp add: world_evolves_iff)
  have "set (map account_id (accounts w3)) \<subseteq> set (map account_id (accounts w2))"
    using 2(2) by (rule evolves_ids)
  with 1(3) 2(3) have "\<forall>i\<in>set (deleted_ids (tr1 @ tr2)). i \<notin> set (map account_id (accounts w3))"
    by (auto simp del: set_map)
  with 1(1,2) 2(1,2) show ?thesis
    unfolding world_evolves_iff
    by (intro exI [of _ "tr1 @ tr2"]) (auto intro: evolves_trans)
qed

lemma world_evolves_updateAccountStatus [intro]:
  "world_evolves w (updateAccountStatus aid st lr p w)"
  by (auto simp add: world_evolves_iff)

lemma world_evolves_showAlert [intro]: "world_evolves w (showAlert m ty w)"
  by (auto simp add: world_evolves_iff)

lemma world_evolves_log_event [intro]:
  "(\<And>i. c \<noteq> UserDelete i) \<Longrightarrow> world_evolves w (log_event c w)"
  by (cases c) (auto simp add: world_evolves_iff)

lemma world_evolves_user_delete [intro]:
  "world_evolves w (deleteAccount i (log_event (UserDelete i) w))"
  by (auto simp add: world_evolves_iff)

subsection \<open>The batch update is the sequence of single updates\<close>

lemma updateAccountStatusBatch_Nil [simp]: "updateAccountStatusBatch [] w = w"
  by (simp add: updateAccountStatusBatch_def)

lemma updateAccountStatusBatch_Cons:
  assumes "upd_accountId u \<notin> set (map upd_accountId us)"
  shows "updateAccountStatusBatch (u # us) w =
    updateAccountStatusBatch us
      (updateAccountStatus (upd_accountId u) (upd_status u) (upd_lastResult u) (upd_playerInfo u) w)"
proof -
  have "find (\<lambda>v. upd_accountId v = upd_accountId u) us = None"
    using assms by (auto simp add: find_None_iff) (metis image_eqI)
  then show ?thesis
    by (auto simp add: updateAccountStatusBatch_def updateAccountStatus_def intro!: map_cong)
qed

lemma evolves_fold_registry_ops:
  "evolves (accounts w) (accounts (fold apply_registry_op ops w))"
proof (induction ops arbitrary: w)
  case Nil
  then show ?case by simp
next
  case (Cons op ops)
  have "evolves (accounts w) (accounts (apply_registry_op op w))" by simp
  also have "evolves \<dots> (accounts (fold apply_registry_op ops (apply_registry_op op w)))"
    by (rule Cons.IH)
  finally show ?case by simp
qed

subsection \<open>Properties of the primitives\<close>

text \<open>
  C3: Any sequence of calls to the registry primitives (single update, batch update,
  delete), in any order, keeps ids and account numbers unique and a validated account
  with a profile, never un-validates an account, never drops a profile, and never creates
  or reorders accounts.
\<close>

theorem registry_ops_preserve:
  assumes "wf_accounts (accounts w)"
  shows "wf_accounts (accounts (fold apply_registry_op ops w)) \<and>
         evolves (accounts w) (accounts (fold apply_registry_op ops w))"
  using assms evolves_fold_registry_ops evolves_wf by blast

text \<open>
  C13: The batch update, whose updates name distinct ids, has the same effect as
  applying the single update for each of them in turn.
\<close>

theorem updateAccountStatusBatch_eq_fold:
  "distinct (map upd_accountId us) \<Longrightarrow>
   updateAccountStatusBatch us w =
     fold (\<lambda>u. updateAccountStatus (upd_accountId u) (upd_status u) (upd_lastResult u) (upd_playerInfo u)) us w"
  by (induction us arbitrary: w) (simp_all add: updateAccountStatusBatch_Cons)

text \<open>
  An update addressed to an id that is not in the registry (an account deleted while
  a request for it was pending) changes nothing: it is a no-op, not an error.
\<close>

theorem updateAccountStatus_absent:
  "aid \<notin> set (map account_id (accounts w)) \<Longrightarrow> updateAccountStatus aid st lr p w = w"
  by (simp add: updateAccountStatus_def map_update_absent)

end
