(* ===== verification/Effects.thy ===== *)
theory Effects
  imports Api Registry
begin

text \<open>
  The suspension points of the hook's async functions. JavaScript runs one handler at a
  time; an \<^verbatim>\<open>await\<close> hands control back, and before it resumes the user may delete
  accounts (\<^verbatim>\<open>deleteAccount\<close> from the list's trash button). The environment is a
  script \<open>env\<close> that, for each kind of await, lists in order what happens while it is
  pending (the ids the user deletes) and what it resumes with (the HTTP exchange of the
  remote call; nothing for a timer). An await whose script is exhausted never resumes:
  the run is then \<open>Suspended\<close>, which is how a hung request (no timeout exists in the code)
  appears in the model, with the state the user sees from then on.
\<close>

datatype 'a outcome =
    Returned 'a
  | Suspended world  \<comment> \<open>stuck at an await that never resumes, in this state\<close>

record env =
  lookup_replies :: "(string list \<times> player_info_response transport) list"
  redeem_replies :: "(string list \<times> base_api_response transport) list"
  timer_replies :: "string list list"

text \<open>The user deletes accounts one after the other; each click is recorded.\<close>

definition user_deletes :: "string list \<Rightarrow> world \<Rightarrow> world" where
  "user_deletes ids w = fold (\<lambda>i w. deleteAccount i (log_event (UserDelete i) w)) ids w"

text \<open>\<^verbatim>\<open>await fetchPlayerInfo(accountNumber)\<close>.\<close>

definition await_fetchPlayerInfo ::
  "string \<Rightarrow> env \<Rightarrow> world \<Rightarrow> ((lookup_error + player_info) \<times> env \<times> world) outcome" where
  "await_fetchPlayerInfo num e w =
     (case lookup_replies e of
        [] \<Rightarrow> Suspended (log_event (CallLookup num) w)
      | (dels, t) # rest \<Rightarrow>
          Returned (fetchPlayerInfo t, e\<lparr>lookup_replies := rest\<rparr>,
                    user_deletes dels (log_event (CallLookup num) w)))"

text \<open>\<^verbatim>\<open>await submitGiftCode(accountNumber, code)\<close>.\<close>

definition await_submitGiftCode ::
  "string \<Rightarrow> string \<Rightarrow> env \<Rightarrow> world \<Rightarrow> ((redeem_error + base_api_response) \<times> env \<times> world) outcome" where
  "await_submitGiftCode num c e w =
     (case redeem_replies e of
        [] \<Rightarrow> Suspended (log_event (CallRedeem num c) w)
      | (dels, t) # rest \<Rightarrow>
          Returned (submitGiftCode t, e\<lparr>redeem_replies := rest\<rparr>,
                    user_deletes dels (log_event (CallRedeem num c) w)))"

text \<open>\<^verbatim>\<open>await new Promise(resolve => setTimeout(resolve, delayMs))\<close>.\<close>

definition await_sleep :: "nat \<Rightarrow> env \<Rightarrow> world \<Rightarrow> (env \<times> world) outcome" where
  "await_sleep d e w =
     (case timer_replies e of
        [] \<Rightarrow> Suspended (log_event (CallSleep d) w)
      | dels # rest \<Rightarrow>
          Returned (e\<lparr>timer_replies := rest\<rparr>, user_deletes dels (log_event (CallSleep d) w)))"

text \<open>The remote calls of a trace, in order.\<close>

fun lookups_of :: "event list \<Rightarrow> string list" where
  "lookups_of [] = []"
| "lookups_of (CallLookup n # tr) = n # lookups_of tr"
| "lookups_of (_ # tr) = lookups_of tr"

fun redeems_of :: "event list \<Rightarrow> (string \<times> string) list" where
  "redeems_of [] = []"
| "redeems_of (CallRedeem n c # tr) = (n, c) # redeems_of tr"
| "redeems_of (_ # tr) = redeems_of tr"

subsection \<open>Deletions\<close>

lemma user_deletes_simps [simp]:
  "user_deletes [] w = w"
  "user_deletes (i # is) w = user_deletes is (deleteAccount i (log_event (UserDelete i) w))"
  by (simp_all add: user_deletes_def)

lemma user_deletes_fields [simp, frame_simps]:
  "accounts (user_deletes is w) = filter (\<lambda>a. account_id a \<notin> set is) (accounts w)"
  "cancelledIds (user_deletes is w) = cancelledIds w \<union> set is"
  "events (user_deletes is w) = events w @ map UserDelete is"
  "isProcessing (user_deletes is w) = isProcessing w"
  "processingRemaining (user_deletes is w) = processingRemaining w"
  "alerts (user_deletes is w) = alerts w"
  by (induction "is" arbitrary: w) (auto intro: filter_cong)

lemma deleted_ids_map_UserDelete [simp]: "deleted_ids (map UserDelete is) = is"
  by (induction "is") auto

lemma calls_of_map_UserDelete [simp]:
  "lookups_of (map UserDelete is) = []" "redeems_of (map UserDelete is) = []"
  by (induction "is") auto

lemma lookups_of_append [simp]: "lookups_of (xs @ ys) = lookups_of xs @ lookups_of ys"
  by (induction xs rule: lookups_of.induct) auto

lemma redeems_of_append [simp]: "redeems_of (xs @ ys) = redeems_of xs @ redeems_of ys"
  by (induction xs rule: redeems_of.induct) auto

lemma world_evolves_user_deletes [intro]: "world_evolves w (user_deletes is w)"
  by (auto simp add: world_evolves_iff)

lemma wf_user_deletes [wf_preserve]:
  "wf_accounts (accounts w) \<Longrightarrow> wf_accounts (accounts (user_deletes is w))"
  by (simp add: wf_accounts_filter)

subsection \<open>The awaits\<close>

lemma await_fetchPlayerInfo_ReturnedE:
  assumes "await_fetchPlayerInfo num e w = Returned (r, e', w')"
  obtains dels t where "lookup_replies e = (dels, t) # lookup_replies e'"
    "r = fetchPlayerInfo t" "redeem_replies e' = redeem_replies e"
    "timer_replies e' = timer_replies e"
    "w' = user_deletes dels (log_event (CallLookup num) w)"
  using assms by (auto simp add: await_fetchPlayerInfo_def split: list.splits)

lemma await_submitGiftCode_ReturnedE:
  assumes "await_submitGiftCode num c e w = Returned (r, e', w')"
  obtains dels t where "redeem_replies e = (dels, t) # redeem_replies e'"
    "r = submitGiftCode t" "lookup_replies e' = lookup_replies e"
    "timer_replies e' = timer_replies e"
    "w' = user_deletes dels (log_event (CallRedeem num c) w)"
  using assms by (auto simp add: await_submitGiftCode_def split: list.splits)

lemma await_sleep_ReturnedE:
  assumes "await_sleep d e w = Returned (e', w')"
  obtains dels where "timer_replies e = dels # timer_replies e'"
    "lookup_replies e' = lookup_replies e" "redeem_replies e' = redeem_replies e"
    "w' = user_deletes dels (log_event (CallSleep d) w)"
  using assms by (auto simp add: await_sleep_def split: list.splits)

lemma await_Returned_iff [simp]:
  "(\<exists>x. await_fetchPlayerInfo num e w = Returned x) \<longleftrightarrow> lookup_replies e \<noteq> []"
  "(\<exists>x. await_submitGiftCode num c e w = Returned x) \<longleftrightarrow> redeem_replies e \<noteq> []"
  "(\<exists>x. await_sleep d e w = Returned x) \<longleftrightarrow> timer_replies e \<noteq> []"
  by (auto simp add: await_fetchPlayerInfo_def await_submitGiftCode_def await_sleep_def
      split: list.splits)

lemma world_evolves_awaits:
  "await_fetchPlayerInfo num e w = Returned (r, e', w') \<Longrightarrow> world_evolves w w'"
  "await_submitGiftCode num c e w = Returned (r', e', w') \<Longrightarrow> world_evolves w w'"
  "await_sleep d e w = Returned (e', w') \<Longrightarrow> world_evolves w w'"
  by (auto elim!: await_fetchPlayerInfo_ReturnedE await_submitGiftCode_ReturnedE await_sleep_ReturnedE
      intro: world_evolves_trans)

lemma await_traces:
  "await_fetchPlayerInfo num e w = Returned (r, e', w') \<Longrightarrow>
     \<exists>dels. events w' = events w @ CallLookup num # map UserDelete dels \<and>
       cancelledIds w' = cancelledIds w \<union> set dels \<and>
       accounts w' = filter (\<lambda>a. account_id a \<notin> set dels) (accounts w)"
  "await_submitGiftCode num c e w = Returned (r', e', w') \<Longrightarrow>
     \<exists>dels. events w' = events w @ CallRedeem num c # map UserDelete dels \<and>
       cancelledIds w' = cancelledIds w \<union> set dels \<and>
       accounts w' = filter (\<lambda>a. account_id a \<notin> set dels) (accounts w)"
  "await_sleep d e w = Returned (e', w') \<Longrightarrow>
     \<exists>dels. events w' = events w @ CallSleep d # map UserDelete dels \<and>
       cancelledIds w' = cancelledIds w \<union> set dels \<and>
       accounts w' = filter (\<lambda>a. account_id a \<notin> set dels) (accounts w)"
  by (auto elim!: await_fetchPlayerInfo_ReturnedE await_submitGiftCode_ReturnedE await_sleep_ReturnedE)

lemmas await_elims =
  await_fetchPlayerInfo_ReturnedE await_submitGiftCode_ReturnedE await_sleep_ReturnedE

end
