(* ===== verification/AddAccount.thy ===== *)
theory AddAccount
  imports Effects
begin

text \<open>
  \<^verbatim>\<open>addAccount\<close> (\<^verbatim>\<open>src/src/hooks/useAccountActions.ts\<close>, lines 97--158): reject a number
  already in the render-time list (warning unless silent), otherwise append a temporary
  account in \<open>Validating\<close>, await the profile lookup, and either promote it to
  \<open>Idle\<close> with the profile or remove it again (error notification unless silent). The
  temporary id is \<^verbatim>\<open>Date.now().toString()\<close>, a parameter here: the clock is the
  environment's.
\<close>

definition new_account :: "string \<Rightarrow> string \<Rightarrow> account" where
  "new_account tempId num =
     \<lparr>account_id = tempId, accountNumber = num, status = Validating,
      lastResult = Some MAccountQuerying, playerInfo = None, isValidated = False\<rparr>"

definition addAccount ::
  "account list \<Rightarrow> string \<Rightarrow> bool \<Rightarrow> string \<Rightarrow> env \<Rightarrow> world \<Rightarrow> (bool \<times> env \<times> world) outcome" where
  "addAccount snapshot num silent tempId e w =
     (if list_ex (\<lambda>acc. accountNumber acc = num) snapshot
      then Returned (False, e, if silent then w else showAlert (MAccountExists num) AlertWarning w)
      else
        case await_fetchPlayerInfo num e (w\<lparr>accounts := accounts w @ [new_account tempId num]\<rparr>) of
          Suspended w' \<Rightarrow> Suspended w'
        | Returned (Inr info, e2, w2) \<Rightarrow>
            Returned (True, e2, updateAccountStatus tempId Idle None (Some info) w2)
        | Returned (Inl err, e2, w2) \<Rightarrow>
            (let w3 = w2\<lparr>accounts := filter (\<lambda>acc. account_id acc \<noteq> tempId) (accounts w2)\<rparr>
             in Returned (False, e2,
                  if silent then w3
                  else showAlert (MAccountAddFailed num (lookupErrorMessage MQueryFailed err)) AlertError w3)))"

lemma new_account_fields [simp]:
  "account_id (new_account i n) = i" "accountNumber (new_account i n) = n"
  "isValidated (new_account i n) = False" "playerInfo (new_account i n) = None"
  "status (new_account i n) = Validating"
  by (simp_all add: new_account_def)

lemma wf_append_new_account:
  assumes "wf_accounts accs" "tempId \<notin> set (map account_id accs)" "num \<notin> set (map accountNumber accs)"
  shows "wf_accounts (accs @ [new_account tempId num])"
  using assms by (simp add: wf_accounts_def)

lemma addAccount_ReturnedE:
  assumes "addAccount snapshot num silent tempId e w = Returned (ok, e', w')"
  obtains (duplicate) "list_ex (\<lambda>acc. accountNumber acc = num) snapshot" "ok = False" "e' = e"
    "w' = (if silent then w else showAlert (MAccountExists num) AlertWarning w)"
  | (looked_up) dels t where "\<not> list_ex (\<lambda>acc. accountNumber acc = num) snapshot"
    "lookup_replies e = (dels, t) # lookup_replies e'"
    "redeem_replies e' = redeem_replies e" "timer_replies e' = timer_replies e"
    "(ok, w') = (let w2 = user_deletes dels (log_event (CallLookup num)
                    (w\<lparr>accounts := accounts w @ [new_account tempId num]\<rparr>)) in
                 case fetchPlayerInfo t of
                   Inr info \<Rightarrow> (True, updateAccountStatus tempId Idle None (Some info) w2)
                 | Inl err \<Rightarrow>
                     (False, let w3 = w2\<lparr>accounts := filter (\<lambda>acc. account_id acc \<noteq> tempId) (accounts w2)\<rparr>
                      in if silent then w3
                         else showAlert (MAccountAddFailed num (lookupErrorMessage MQueryFailed err)) AlertError w3))"
  using assms
  by (auto simp add: addAccount_def Let_def split: if_splits outcome.splits sum.splits
      elim!: await_fetchPlayerInfo_ReturnedE intro: that)

lemma addAccount_wf_fresh:
  assumes "addAccount snapshot num silent tempId e w = Returned (ok, e', w')"
    and "wf_accounts (accounts w)" and "tempId \<notin> set (map account_id (accounts w))"
    and "num \<notin> set (map accountNumber (accounts w))"
  shows "wf_accounts (accounts w')"
  using assms(1)
proof (cases rule: addAccount_ReturnedE)
  case duplicate
  with assms(2) show ?thesis by simp
next
  case (looked_up dels t)
  let ?w1 = "w\<lparr>accounts := accounts w @ [new_account tempId num]\<rparr>"
  let ?w2 = "user_deletes dels (log_event (CallLookup num) ?w1)"
  from assms(2-4) have "wf_accounts (accounts ?w1)" by (simp add: wf_append_new_account)
  then have "wf_accounts (accounts (log_event (CallLookup num) ?w1))" by simp
  then have wf2: "wf_accounts (accounts ?w2)" by (rule wf_user_deletes)
  show ?thesis
  proof (cases "fetchPlayerInfo t")
    case (Inl err)
    from wf2 have "wf_accounts (filter (\<lambda>acc. account_id acc \<noteq> tempId) (accounts ?w2))"
      by (rule wf_accounts_filter)
    moreover from looked_up(5) Inl
    have "accounts w' = filter (\<lambda>acc. account_id acc \<noteq> tempId) (accounts ?w2)"
      by (simp only: Let_def sum.case prod.inject) simp
    ultimately show ?thesis by (simp only:)
  next
    case (Inr info)
    from wf2 have "wf_accounts (accounts (updateAccountStatus tempId Idle None (Some info) ?w2))"
      by (rule wf_updateAccountStatus)
    moreover from looked_up(5) Inr
    have "w' = updateAccountStatus tempId Idle None (Some info) ?w2"
      by (simp only: Let_def sum.case prod.inject)
    ultimately show ?thesis by (simp only:)
  qed
qed

text \<open>
  What an add of a number absent from the snapshot does, whatever the lookup answers:
  one lookup of that number (and the user's deletions meanwhile), at most that number and
  that id added to the registry, and an error notification exactly when it fails and is
  not silent.
\<close>

lemma addAccount_fresh_effects:
  assumes "addAccount snapshot num silent tempId e w = Returned (ok, e', w')"
    and "\<not> list_ex (\<lambda>acc. accountNumber acc = num) snapshot"
  shows "\<exists>dels. events w' = events w @ CallLookup num # map UserDelete dels \<and>
      lookup_replies e \<noteq> [] \<and> lookup_replies e' = tl (lookup_replies e) \<and>
      redeem_replies e' = redeem_replies e \<and> timer_replies e' = timer_replies e \<and>
      set (map accountNumber (accounts w')) \<subseteq> insert num (set (map accountNumber (accounts w))) \<and>
      set (map account_id (accounts w')) \<subseteq> insert tempId (set (map account_id (accounts w))) \<and>
      (\<exists>m. alerts w' = alerts w @ (if ok \<or> silent then [] else [(MAccountAddFailed num m, AlertError)]))"
  using assms(1)
proof (cases rule: addAccount_ReturnedE)
  case duplicate
  with assms(2) show ?thesis by simp
next
  case (looked_up dels t)
  let ?w1 = "w\<lparr>accounts := accounts w @ [new_account tempId num]\<rparr>"
  let ?w2 = "user_deletes dels (log_event (CallLookup num) ?w1)"
  have ev2: "events ?w2 = events w @ CallLookup num # map UserDelete dels"
    and al2: "alerts ?w2 = alerts w"
    and num2: "set (map accountNumber (accounts ?w2)) \<subseteq> insert num (set (map accountNumber (accounts w)))"
    and id2: "set (map account_id (accounts ?w2)) \<subseteq> insert tempId (set (map account_id (accounts w)))"
    by (auto simp add: log_event_def)
  show ?thesis
  proof (cases "fetchPlayerInfo t")
    case (Inl err)
    let ?w3 = "?w2\<lparr>accounts := filter (\<lambda>acc. account_id acc \<noteq> tempId) (accounts ?w2)\<rparr>"
    from looked_up(5) Inl have okw: "ok = False \<and> w' = (if silent then ?w3
         else showAlert (MAccountAddFailed num (lookupErrorMessage MQueryFailed err)) AlertError ?w3)"
      by (simp only: Let_def sum.case prod.inject)
    then have ok: "\<not> ok" by simp
    from okw have w': "w' = (if silent then ?w3
         else showAlert (MAccountAddFailed num (lookupErrorMessage MQueryFailed err)) AlertError ?w3)"
      by simp
    have al: "alerts w' = alerts w @ (if ok \<or> silent then []
            else [(MAccountAddFailed num (lookupErrorMessage MQueryFailed err), AlertError)])"
      using ok al2 by (simp add: w' showAlert_def)
    have ev: "events w' = events w @ CallLookup num # map UserDelete dels"
      using ev2 by (simp add: w')
    have "set (map accountNumber (accounts w')) \<subseteq> set (map accountNumber (accounts ?w2))"
      by (auto simp add: w')
    from this num2 have nums: "set (map accountNumber (accounts w')) \<subseteq>
        insert num (set (map accountNumber (accounts w)))" by (rule order_trans)
    have "set (map account_id (accounts w')) \<subseteq> set (map account_id (accounts ?w2))"
      by (auto simp add: w')
    from this id2 have ids: "set (map account_id (accounts w')) \<subseteq>
        insert tempId (set (map account_id (accounts w)))" by (rule order_trans)
    have "lookup_replies e \<noteq> [] \<and> lookup_replies e' = tl (lookup_replies e)"
      using looked_up(2) by simp
    with al ev nums ids looked_up(3,4) show ?thesis by blast
  next
    case (Inr info)
    from looked_up(5) Inr have okw: "ok = True \<and> w' = updateAccountStatus tempId Idle None (Some info) ?w2"
      by (simp only: Let_def sum.case prod.inject)
    then have ok: "ok" and w': "w' = updateAccountStatus tempId Idle None (Some info) ?w2"
      by simp_all
    have al: "alerts w' = alerts w @ (if ok \<or> silent then [] else [(MAccountAddFailed num MQueryFailed, AlertError)])"
      using al2 ok by (simp add: w')
    have ev: "events w' = events w @ CallLookup num # map UserDelete dels"
      using ev2 by (simp add: w')
    have nums: "set (map accountNumber (accounts w')) \<subseteq> insert num (set (map accountNumber (accounts w)))"
      using num2 by (simp only: w' keys_updateAccountStatus)
    have ids: "set (map account_id (accounts w')) \<subseteq> insert tempId (set (map account_id (accounts w)))"
      using id2 by (simp only: w' keys_updateAccountStatus)
    have "lookup_replies e \<noteq> [] \<and> lookup_replies e' = tl (lookup_replies e)"
      using looked_up(2) by simp
    with al ev nums ids looked_up(3,4) show ?thesis by blast
  qed
qed

subsection \<open>Properties of adding an account\<close>

text \<open>
  C7: Adding an account from the current list (the snapshot is the registry itself), with
  a fresh temporary id, keeps the registry well formed whatever the lookup answers and
  whatever the user deletes meanwhile: in particular account numbers stay unique.
\<close>

theorem addAccount_preserves_wf:
  assumes "addAccount (accounts w) num silent tempId e w = Returned (ok, e', w')"
    and "wf_accounts (accounts w)" and "tempId \<notin> set (map account_id (accounts w))"
  shows "wf_accounts (accounts w')"
proof (cases "list_ex (\<lambda>acc. accountNumber acc = num) (accounts w)")
  case True
  with assms(1) have "w' = (if silent then w else showAlert (MAccountExists num) AlertWarning w)"
    by (simp add: addAccount_def)
  with assms(2) show ?thesis by simp
next
  case False
  then have "num \<notin> set (map accountNumber (accounts w))" by (auto simp add: list_ex_iff)
  with assms show ?thesis by (rule addAccount_wf_fresh)
qed

text \<open>
  C8: A new number whose lookup succeeds, with no deletion meanwhile, ends as one more
  account at the end of the registry: idle, validated, with the profile, no result
  message; the handler returns true after exactly one lookup call.
\<close>

theorem addAccount_success:
  assumes "\<not> list_ex (\<lambda>acc. accountNumber acc = num) snapshot"
    and "tempId \<notin> set (map account_id (accounts w))"
    and "lookup_replies e = ([], t) # rest" and "fetchPlayerInfo t = Inr info"
  shows "addAccount snapshot num silent tempId e w =
    Returned (True, e\<lparr>lookup_replies := rest\<rparr>,
      w\<lparr>accounts := accounts w @ [\<lparr>account_id = tempId, accountNumber = num, status = Idle,
            lastResult = None, playerInfo = Some info, isValidated = True\<rparr>],
        events := events w @ [CallLookup num]\<rparr>)"
  using assms
  by (simp add: addAccount_def await_fetchPlayerInfo_def updateAccountStatus_def
      map_update_absent merge_status_def new_account_def)

text \<open>
  C9: A new number whose lookup fails, with no deletion meanwhile, leaves no trace in the
  registry: the temporary account is removed again, the handler returns false, and
  unless silent one error notification names the number and the classified cause.
\<close>

theorem addAccount_failure:
  assumes "\<not> list_ex (\<lambda>acc. accountNumber acc = num) snapshot"
    and "tempId \<notin> set (map account_id (accounts w))"
    and "lookup_replies e = ([], t) # rest" and "fetchPlayerInfo t = Inl err"
  shows "addAccount snapshot num silent tempId e w =
    Returned (False, e\<lparr>lookup_replies := rest\<rparr>,
      (if silent then w\<lparr>events := events w @ [CallLookup num]\<rparr>
       else showAlert (MAccountAddFailed num (lookupErrorMessage MQueryFailed err)) AlertError
              (w\<lparr>events := events w @ [CallLookup num]\<rparr>)))"
proof -
  have "filter (\<lambda>acc. account_id acc \<noteq> tempId) (accounts w) = accounts w"
    using assms(2) by (auto intro: filter_True)
  with assms show ?thesis
    by (simp add: addAccount_def await_fetchPlayerInfo_def Let_def log_event_def)
qed

text \<open>
  C18: The duplicate check reads the callback's render-time snapshot, not the registry.
  When the number is absent from that snapshot but already in the current registry
  (added after the snapshot was taken, as an import's adds are, whose callback is the one
  of the render where the import started), a successful lookup with no deletion
  meanwhile appends the number a second time, and the registry is no longer well formed.
  With the current list as snapshot (C7) this cannot happen.
\<close>

theorem stale_snapshot_duplicates:
  assumes "\<not> list_ex (\<lambda>acc. accountNumber acc = num) snapshot"
    and "num \<in> set (map accountNumber (accounts w))"
    and "tempId \<notin> set (map account_id (accounts w))"
    and "lookup_replies e = ([], t) # rest" and "fetchPlayerInfo t = Inr info"
  shows "\<exists>e' w'. addAccount snapshot num silent tempId e w = Returned (True, e', w') \<and>
           2 \<le> count_list (map accountNumber (accounts w')) num \<and> \<not> wf_accounts (accounts w')"
proof -
  let ?new = "\<lparr>account_id = tempId, accountNumber = num, status = Idle, lastResult = None,
               playerInfo = Some info, isValidated = True\<rparr>"
  have run: "addAccount snapshot num silent tempId e w =
    Returned (True, e\<lparr>lookup_replies := rest\<rparr>,
      w\<lparr>accounts := accounts w @ [?new], events := events w @ [CallLookup num]\<rparr>)"
    using assms(1,3,4,5)
    by (simp add: addAccount_def await_fetchPlayerInfo_def updateAccountStatus_def
        map_update_absent merge_status_def new_account_def)
  have "1 \<le> count_list (map accountNumber (accounts w)) num"
    using assms(2) count_list_0_iff [of "map accountNumber (accounts w)" num] by linarith
  then have two: "2 \<le> count_list (map accountNumber (accounts w @ [?new])) num" by simp
  have "\<not> distinct (map accountNumber (accounts w @ [?new]))"
    using assms(2) by simp
  with run two show ?thesis by (auto simp add: wf_accounts_def)
qed

end
