(* ===== verification/Validation.thy ===== *)
theory Validation
  imports Effects "HOL-Library.Sublist"
begin

text \<open>
  The batch validation engine \<^verbatim>\<open>validateAccounts\<close>
  (\<^verbatim>\<open>src/src/hooks/useAccountActions.ts\<close>, lines 167--237): a \<^verbatim>\<open>for\<close> loop over the
  given accounts that skips an account whose id is in the cancellation set, shows the
  progress \<^verbatim>\<open>processed/dynamicTotal\<close>, awaits the profile lookup, writes the outcome
  unless the account was deleted meanwhile, sleeps the configured delay only when a later
  account is still live (and otherwise leaves the loop), and clears the cancellation set
  at the end. The loop is structural recursion over the remaining accounts; the only way
  it does not return is an await that never resumes.
\<close>

subsection \<open>The engine\<close>

text \<open>
  One live account's turn (lines 182--217), in three parts: the progress write before the
  lookup, the await, and the write of the outcome, which is skipped when the account was
  deleted while the lookup was pending. \<open>processed\<close> is the already incremented counter.
\<close>

definition validate_progress :: "account list \<Rightarrow> nat \<Rightarrow> account \<Rightarrow> world \<Rightarrow> world" where
  "validate_progress full processed a w =
     (let dynamicTotal = length (filter (\<lambda>b. account_id b \<notin> cancelledIds w) full)
      in updateAccountStatus (account_id a) Validating
           (Some (MPlayerInfoQueryingProgress processed dynamicTotal)) None w)"

definition validate_write :: "account \<Rightarrow> lookup_error + player_info \<Rightarrow> world \<Rightarrow> world" where
  "validate_write a r w =
     (case r of
        Inr info \<Rightarrow>
          if account_id a \<notin> cancelledIds w
          then updateAccountStatus (account_id a) Idle None (Some info) w else w
      | Inl err \<Rightarrow>
          if account_id a \<notin> cancelledIds w
          then updateAccountStatus (account_id a) Error
                 (Some (lookupErrorMessage MValidationFailed err)) None w
          else w)"

definition validate_body :: "account list \<Rightarrow> nat \<Rightarrow> account \<Rightarrow> env \<Rightarrow> world \<Rightarrow> (env \<times> world) outcome" where
  "validate_body full processed a e w =
     (case await_fetchPlayerInfo (accountNumber a) e (validate_progress full processed a w) of
        Suspended w' \<Rightarrow> Suspended w'
      | Returned (r, e2, w2) \<Rightarrow> Returned (e2, validate_write a r w2))"

text \<open>
  The loop (lines 173--230). \<open>full\<close> is \<^verbatim>\<open>accountsToValidate\<close>, the list argument is the
  part not yet visited; \<^verbatim>\<open>i < accountsToValidate.length - 1\<close> is \<open>rest \<noteq> []\<close>.
\<close>

fun validate_loop ::
  "nat \<Rightarrow> account list \<Rightarrow> nat \<Rightarrow> account list \<Rightarrow> env \<Rightarrow> world \<Rightarrow> (env \<times> world) outcome" where
  "validate_loop d full processed [] e w = Returned (e, w)"
| "validate_loop d full processed (a # rest) e w =
     (if account_id a \<in> cancelledIds w then validate_loop d full processed rest e w
      else case validate_body full (Suc processed) a e w of
        Suspended w' \<Rightarrow> Suspended w'
      | Returned (e1, w1) \<Rightarrow>
          if rest = [] then Returned (e1, w1)
          else if list_ex (\<lambda>b. account_id b \<notin> cancelledIds w1) rest
          then (case await_sleep d e1 w1 of
                  Suspended w' \<Rightarrow> Suspended w'
                | Returned (e2, w2) \<Rightarrow> validate_loop d full (Suc processed) rest e2 w2)
          else Returned (e1, w1))"

definition validateAccounts :: "nat \<Rightarrow> account list \<Rightarrow> env \<Rightarrow> world \<Rightarrow> (env \<times> world) outcome" where
  "validateAccounts d xs e w =
     (case validate_loop d xs 0 xs e w of
        Suspended w' \<Rightarrow> Suspended w'
      | Returned (e', w') \<Rightarrow> Returned (e', w'\<lparr>cancelledIds := {}\<rparr>))"

subsection \<open>One turn\<close>

lemma validate_progress_fields [simp]:
  "cancelledIds (validate_progress full k a w) = cancelledIds w"
  "events (validate_progress full k a w) = events w"
  "world_evolves w (validate_progress full k a w)"
  by (auto simp add: validate_progress_def Let_def)

lemma validate_write_fields [simp]:
  "cancelledIds (validate_write a r w) = cancelledIds w"
  "events (validate_write a r w) = events w"
  "world_evolves w (validate_write a r w)"
  by (auto simp add: validate_write_def split: sum.splits)

lemma validate_body_ReturnedE:
  assumes "validate_body full k a e w = Returned (e', w')"
  obtains dels t where "lookup_replies e = (dels, t) # lookup_replies e'"
    "timer_replies e' = timer_replies e" "redeem_replies e' = redeem_replies e"
    "w' = validate_write a (fetchPlayerInfo t)
            (user_deletes dels (log_event (CallLookup (accountNumber a)) (validate_progress full k a w)))"
  using assms by (auto simp add: validate_body_def split: outcome.splits elim!: await_fetchPlayerInfo_ReturnedE)

lemma validate_body_Returned_iff:
  "(\<exists>r. validate_body full k a e w = Returned r) \<longleftrightarrow> lookup_replies e \<noteq> []"
  by (auto simp add: validate_body_def await_fetchPlayerInfo_def split: list.splits)

lemma validate_body_evolves:
  assumes "validate_body full k a e w = Returned (e', w')"
  shows "world_evolves w w'"
proof (rule validate_body_ReturnedE [OF assms])
  fix dels t
  assume w': "w' = validate_write a (fetchPlayerInfo t)
     (user_deletes dels (log_event (CallLookup (accountNumber a)) (validate_progress full k a w)))"
  let ?p = "validate_progress full k a w"
  have "world_evolves w ?p" by simp
  also have "world_evolves ?p (log_event (CallLookup (accountNumber a)) ?p)" by blast
  also have "world_evolves \<dots> (user_deletes dels \<dots>)" by blast
  also have "world_evolves \<dots> w'" unfolding w' by simp
  finally show ?thesis .
qed

lemma validate_body_trace:
  assumes "validate_body full k a e w = Returned (e', w')"
  shows "\<exists>dels. events w' = events w @ CallLookup (accountNumber a) # map UserDelete dels \<and>
           cancelledIds w' = cancelledIds w \<union> set dels"
  using assms by (rule validate_body_ReturnedE) auto

subsection \<open>The loop\<close>

text \<open>The four ways one iteration can go: skip, last account, early exit, or sleep and go on.\<close>

lemma validate_loop_ConsE:
  assumes "validate_loop d full k (a # rest) e w = Returned (e', w')"
  obtains (skip) "account_id a \<in> cancelledIds w" "validate_loop d full k rest e w = Returned (e', w')"
  | (last) "account_id a \<notin> cancelledIds w" "validate_body full (Suc k) a e w = Returned (e', w')"
      "rest = []"
  | (break) "account_id a \<notin> cancelledIds w" "validate_body full (Suc k) a e w = Returned (e', w')"
      "rest \<noteq> []" "\<not> list_ex (\<lambda>b. account_id b \<notin> cancelledIds w') rest"
  | (continue) e1 w1 e2 w2 where "account_id a \<notin> cancelledIds w"
      "validate_body full (Suc k) a e w = Returned (e1, w1)" "rest \<noteq> []"
      "list_ex (\<lambda>b. account_id b \<notin> cancelledIds w1) rest" "await_sleep d e1 w1 = Returned (e2, w2)"
      "validate_loop d full (Suc k) rest e2 w2 = Returned (e', w')"
  using assms by (auto split: if_splits outcome.splits)

lemma validate_loop_evolves:
  "validate_loop d full k xs e w = Returned (e', w') \<Longrightarrow> world_evolves w w'"
proof (induction xs arbitrary: k e w)
  case Nil
  then show ?case by simp
next
  case (Cons a rest)
  from Cons.prems show ?case
  proof (cases rule: validate_loop_ConsE)
    case skip
    from skip(2) show ?thesis by (rule Cons.IH)
  next
    case last
    then show ?thesis by (blast dest: validate_body_evolves)
  next
    case break
    then show ?thesis by (blast dest: validate_body_evolves)
  next
    case (continue e1 w1 e2 w2)
    have "world_evolves w w1" using continue(2) by (rule validate_body_evolves)
    also have "world_evolves w1 w2" using continue(5) by (rule world_evolves_awaits)
    also have "world_evolves w2 w'" using continue(6) by (rule Cons.IH)
    finally show ?thesis .
  qed
qed

lemma validate_loop_returns:
  assumes "length xs \<le> length (lookup_replies e)" and "length xs \<le> Suc (length (timer_replies e))"
  shows "\<exists>r. validate_loop d full k xs e w = Returned r"
  using assms
proof (induction xs arbitrary: k e w)
  case Nil
  then show ?case by simp
next
  case (Cons a rest)
  show ?case
  proof (cases "account_id a \<in> cancelledIds w")
    case True
    with Cons.IH [of e k w] Cons.prems show ?thesis by simp
  next
    case live: False
    from Cons.prems(1) have "lookup_replies e \<noteq> []" by auto
    then obtain e1 w1 where b: "validate_body full (Suc k) a e w = Returned (e1, w1)"
      by (metis validate_body_Returned_iff surj_pair)
    then obtain dels t where l: "lookup_replies e = (dels, t) # lookup_replies e1"
      "timer_replies e1 = timer_replies e"
      by (rule validate_body_ReturnedE)
    show ?thesis
    proof (cases "rest \<noteq> [] \<and> list_ex (\<lambda>b. account_id b \<notin> cancelledIds w1) rest")
      case False
      with live b show ?thesis by auto
    next
      case True
      with Cons.prems(2) l have "timer_replies e1 \<noteq> []" by (cases rest) auto
      then obtain e2 w2 where sl: "await_sleep d e1 w1 = Returned (e2, w2)"
        by (metis await_Returned_iff(3) surj_pair)
      then obtain dels2 where t2: "timer_replies e1 = dels2 # timer_replies e2"
        and l2: "lookup_replies e2 = lookup_replies e1"
        by (rule await_sleep_ReturnedE)
      from t2 l have "length (timer_replies e) = Suc (length (timer_replies e2))" by simp
      with Cons.prems l l2 have "\<exists>r. validate_loop d full (Suc k) rest e2 w2 = Returned r"
        by (intro Cons.IH) auto
      with live b True sl show ?thesis by auto
    qed
  qed
qed

lemma validate_loop_trace:
  assumes "validate_loop d full k xs e w = Returned (e', w')"
  shows "\<exists>tr. events w' = events w @ tr \<and> cancelledIds w' = cancelledIds w \<union> set (deleted_ids tr) \<and>
           subseq (lookups_of tr) (map accountNumber xs) \<and>
           (\<forall>a\<in>set xs. account_id a \<notin> cancelledIds w' \<longrightarrow> accountNumber a \<in> set (lookups_of tr))"
  using assms
proof (induction xs arbitrary: k e w)
  case Nil
  then show ?case by simp
next
  case (Cons a rest)
  from Cons.prems show ?case
  proof (cases rule: validate_loop_ConsE)
    case skip
    from Cons.IH [OF skip(2)] obtain tr where
      "events w' = events w @ tr" "cancelledIds w' = cancelledIds w \<union> set (deleted_ids tr)"
      "subseq (lookups_of tr) (map accountNumber rest)"
      "\<forall>a\<in>set rest. account_id a \<notin> cancelledIds w' \<longrightarrow> accountNumber a \<in> set (lookups_of tr)"
      by blast
    with skip(1) show ?thesis by (intro exI [of _ tr]) (auto intro: list_emb_Cons)
  next
    case last
    then show ?thesis by (auto dest!: validate_body_trace)
  next
    case break
    then show ?thesis by (auto simp add: list_ex_iff dest!: validate_body_trace)
  next
    case (continue e1 w1 e2 w2)
    obtain dels1 where 1: "events w1 = events w @ CallLookup (accountNumber a) # map UserDelete dels1"
      "cancelledIds w1 = cancelledIds w \<union> set dels1"
      using validate_body_trace [OF continue(2)] by blast
    obtain dels2 where 2: "events w2 = events w1 @ CallSleep d # map UserDelete dels2"
      "cancelledIds w2 = cancelledIds w1 \<union> set dels2"
      using await_traces(3) [OF continue(5)] by blast
    from Cons.IH [OF continue(6)] obtain tr where 3: "events w' = events w2 @ tr"
      "cancelledIds w' = cancelledIds w2 \<union> set (deleted_ids tr)"
      "subseq (lookups_of tr) (map accountNumber rest)"
      "\<forall>a\<in>set rest. account_id a \<notin> cancelledIds w' \<longrightarrow> accountNumber a \<in> set (lookups_of tr)"
      by blast
    show ?thesis
      using 1 2 3
      by (intro exI [of _ "CallLookup (accountNumber a) # map UserDelete dels1 @
                            CallSleep d # map UserDelete dels2 @ tr"]) auto
  qed
qed

lemma validateAccounts_ReturnedE:
  assumes "validateAccounts d xs e w = Returned (e', w')"
  obtains w0 where "validate_loop d xs 0 xs e w = Returned (e', w0)" "w' = w0\<lparr>cancelledIds := {}\<rparr>"
  using assms by (auto simp add: validateAccounts_def split: outcome.splits intro: that)

subsection \<open>Properties of a batch\<close>

text \<open>
  C2: When a validation batch completes, the cancellation set is empty again, and the
  batch has not brought back any account deleted before or during it, has created none,
  has un-validated none, and has kept the registry's order; the events only grow.
\<close>

theorem validateAccounts_batch_end:
  assumes "validateAccounts d xs e w = Returned (e', w')"
  shows "cancelledIds w' = {} \<and> world_evolves w w'"
  using assms
proof (cases rule: validateAccounts_ReturnedE)
  case (1 w0)
  from validate_loop_evolves [OF 1(1)] 1(2) show ?thesis by (simp add: world_evolves_def)
qed

text \<open>
  C10: A batch returns (it is never stuck) as soon as the environment answers one profile
  lookup per account of the list and one delay fewer.
\<close>

theorem validateAccounts_returns:
  assumes "length xs \<le> length (lookup_replies e)" and "length xs \<le> Suc (length (timer_replies e))"
  shows "\<exists>r. validateAccounts d xs e w = Returned r"
proof -
  obtain r where "validate_loop d xs 0 xs e w = Returned r"
    using validate_loop_returns [OF assms] by blast
  then show ?thesis by (cases r) (simp add: validateAccounts_def)
qed

text \<open>
  C12: A completed batch looks up the accounts in list order, at most once per list
  position, and looks up every account that was neither cancelled before the batch nor
  deleted during it; a deleted account is skipped when its turn comes.
\<close>

theorem validateAccounts_lookups:
  assumes "validateAccounts d xs e w = Returned (e', w')"
  shows "\<exists>tr. events w' = events w @ tr \<and> subseq (lookups_of tr) (map accountNumber xs) \<and>
           (\<forall>a\<in>set xs. account_id a \<notin> cancelledIds w \<union> set (deleted_ids tr) \<longrightarrow>
              accountNumber a \<in> set (lookups_of tr))"
  using assms
proof (cases rule: validateAccounts_ReturnedE)
  case (1 w0)
  from validate_loop_trace [OF 1(1)] 1(2) show ?thesis by auto
qed

end
