(* ===== verification/Redemption.thy ===== *)
theory Redemption
  imports Effects "HOL-Library.Sublist"
begin

text \<open>
  The batch redemption engine \<^verbatim>\<open>submitGiftCodeToAccounts\<close>
  (\<^verbatim>\<open>src/src/hooks/useAccountActions.ts\<close>, lines 240--344). Its guards reject an empty
  registry and a registry with no validated account; otherwise it resets the previous
  round's results, snapshots the validated accounts of the render-time list, sets the
  remaining counter, and for each snapshot account in order refreshes the profile, attempts
  the redemption, decrements the counter and sleeps before the next account. The engine
  never consults the cancellation set.
\<close>

subsection \<open>The engine\<close>

text \<open>The reset before a round (lines 257--264): results of the last round go back to idle.\<close>

definition reset_statuses :: "account list \<Rightarrow> account list" where
  "reset_statuses accs =
     map (\<lambda>acc. if status acc = Success \<or> status acc = Error
                then acc\<lparr>status := Idle, lastResult := None\<rparr> else acc) accs"

text \<open>\<^verbatim>\<open>setProcessingRemaining(prev => prev !== null ? Math.max(prev - 1, 0) : 0)\<close>.\<close>

definition decrement_remaining :: "world \<Rightarrow> world" where
  "decrement_remaining w =
     w\<lparr>processingRemaining := Some (case processingRemaining w of None \<Rightarrow> 0 | Some n \<Rightarrow> n - 1)\<rparr>"

text \<open>
  The redemption attempt after a successful refresh (lines 307--328). The guard
  \<^verbatim>\<open>!account.isValidated || !refreshedInfo\<close> reads the snapshot's flag; the refreshed
  profile is an object and so never falsy.
\<close>

definition redeem_attempt :: "string \<Rightarrow> account \<Rightarrow> env \<Rightarrow> world \<Rightarrow> (env \<times> world) outcome" where
  "redeem_attempt c a e w =
     (if \<not> isValidated a
      then Returned (e, updateAccountStatus (account_id a) Error (Some MAccountNotValidated) None w)
      else case await_submitGiftCode (accountNumber a) c e w of
        Suspended w' \<Rightarrow> Suspended w'
      | Returned (Inr _, e2, w2) \<Rightarrow>
          Returned (e2, updateAccountStatus (account_id a) Success (Some MRedeemSuccess) None w2)
      | Returned (Inl err, e2, w2) \<Rightarrow>
          Returned (e2, updateAccountStatus (account_id a) Error (Some (redeemErrorMessage err)) None w2))"

text \<open>
  One account's turn (lines 270--333) up to the decrement: both the lookup-failure branch
  and the redemption branch end by decrementing the counter.
\<close>

definition submit_body :: "string \<Rightarrow> account \<Rightarrow> env \<Rightarrow> world \<Rightarrow> (env \<times> world) outcome" where
  "submit_body c a e w =
     (case await_fetchPlayerInfo (accountNumber a) e
             (updateAccountStatus (account_id a) Processing (Some MAccountQuerying) None w) of
        Suspended w' \<Rightarrow> Suspended w'
      | Returned (Inl err, e2, w2) \<Rightarrow>
          Returned (e2, decrement_remaining
            (updateAccountStatus (account_id a) Error (Some (lookupErrorMessage MValidationFailed err)) None w2))
      | Returned (Inr info, e2, w2) \<Rightarrow>
          (case redeem_attempt c a e2 (updateAccountStatus (account_id a) Processing None (Some info) w2) of
             Suspended w' \<Rightarrow> Suspended w'
           | Returned (e3, w3) \<Rightarrow> Returned (e3, decrement_remaining w3)))"

text \<open>The loop (lines 269--338): sleep between accounts, not after the last.\<close>

fun submit_loop :: "string \<Rightarrow> nat \<Rightarrow> account list \<Rightarrow> env \<Rightarrow> world \<Rightarrow> (env \<times> world) outcome" where
  "submit_loop c d [] e w = Returned (e, w)"
| "submit_loop c d (a # rest) e w =
     (case submit_body c a e w of
        Suspended w' \<Rightarrow> Suspended w'
      | Returned (e1, w1) \<Rightarrow>
          if rest \<noteq> []
          then (case await_sleep d e1 w1 of
                  Suspended w' \<Rightarrow> Suspended w'
                | Returned (e2, w2) \<Rightarrow> submit_loop c d rest e2 w2)
          else Returned (e1, w1))"

text \<open>The start of a round (lines 256--267): reset, then raise the processing flag and the counter.\<close>

definition start_round :: "account list \<Rightarrow> world \<Rightarrow> world" where
  "start_round validated w =
     w\<lparr>accounts := reset_statuses (accounts w), isProcessing := True,
       processingRemaining := Some (length validated)\<rparr>"

text \<open>
  The handler. \<open>snapshot\<close> is the \<^verbatim>\<open>accounts\<close> of the render that created the callback;
  the reset, like every other write, applies to the current list. The final
  \<^verbatim>\<open>setTimeout(() => setProcessingRemaining(0), 0)\<close> runs on the next tick, before any
  other write to the counter: it is applied at the end.
\<close>

definition submitGiftCodeToAccounts ::
  "account list \<Rightarrow> string \<Rightarrow> nat \<Rightarrow> env \<Rightarrow> world \<Rightarrow> (env \<times> world) outcome" where
  "submitGiftCodeToAccounts snapshot c d e w =
     (if snapshot = [] then Returned (e, showAlert MNeedAddAccount AlertWarning w)
      else let validated = filter isValidated snapshot in
        if validated = [] then Returned (e, showAlert MNoValidatedAccounts AlertWarning w)
        else
          case submit_loop c d validated e (start_round validated w) of
            Suspended w' \<Rightarrow> Suspended w'
          | Returned (e', w') \<Rightarrow> Returned (e', w'\<lparr>isProcessing := False, processingRemaining := Some 0\<rparr>))"

subsection \<open>One turn\<close>

lemma decrement_remaining_fields [simp]:
  "accounts (decrement_remaining w) = accounts w"
  "events (decrement_remaining w) = events w"
  "cancelledIds (decrement_remaining w) = cancelledIds w"
  "isProcessing (decrement_remaining w) = isProcessing w"
  "processingRemaining (decrement_remaining w) =
     Some (case processingRemaining w of None \<Rightarrow> 0 | Some n \<Rightarrow> n - 1)"
  by (simp_all add: decrement_remaining_def)

lemma world_evolves_decrement [intro]: "world_evolves w (decrement_remaining w)"
  by (simp add: world_evolves_def)

text \<open>What one attempt does to the trace and the counter.\<close>

lemma redeem_attempt_ReturnedE:
  assumes "redeem_attempt c a e w = Returned (e', w')"
  obtains (unvalidated) "\<not> isValidated a" "e' = e"
    "w' = updateAccountStatus (account_id a) Error (Some MAccountNotValidated) None w"
  | (redeemed) dels t st m where "isValidated a" "redeem_replies e = (dels, t) # redeem_replies e'"
    "lookup_replies e' = lookup_replies e" "timer_replies e' = timer_replies e"
    "w' = updateAccountStatus (account_id a) st (Some m) None
            (user_deletes dels (log_event (CallRedeem (accountNumber a) c) w))"
proof (cases "isValidated a")
  case False
  with assms show ?thesis by (intro unvalidated) (simp_all add: redeem_attempt_def)
next
  case True
  with assms obtain r w2 where aw: "await_submitGiftCode (accountNumber a) c e w = Returned (r, e', w2)"
    and w': "w' = (case r of Inr _ \<Rightarrow> updateAccountStatus (account_id a) Success (Some MRedeemSuccess) None w2
                 | Inl err \<Rightarrow> updateAccountStatus (account_id a) Error (Some (redeemErrorMessage err)) None w2)"
    by (auto simp add: redeem_attempt_def split: outcome.splits sum.splits)
  from aw obtain dels t where "redeem_replies e = (dels, t) # redeem_replies e'"
    "lookup_replies e' = lookup_replies e" "timer_replies e' = timer_replies e"
    "w2 = user_deletes dels (log_event (CallRedeem (accountNumber a) c) w)"
    by (rule await_submitGiftCode_ReturnedE)
  with True w' show ?thesis
    by (cases r) (erule redeemed; simp)+
qed

lemma redeem_attempt_facts:
  assumes "redeem_attempt c a e w = Returned (e', w')"
  shows "world_evolves w w'" "processingRemaining w' = processingRemaining w"
    "isProcessing w' = isProcessing w"
    "\<exists>tr. events w' = events w @ tr \<and> lookups_of tr = [] \<and>
          redeems_of tr = (if isValidated a then [(accountNumber a, c)] else [])"
  using assms by (cases rule: redeem_attempt_ReturnedE; force intro: world_evolves_trans)+

lemma submit_body_ReturnedE:
  assumes "submit_body c a e w = Returned (e', w')"
  obtains (lookup_failed) dels t err where
    "lookup_replies e = (dels, t) # lookup_replies e'" "fetchPlayerInfo t = Inl err"
    "redeem_replies e' = redeem_replies e" "timer_replies e' = timer_replies e"
    "w' = decrement_remaining (updateAccountStatus (account_id a) Error
            (Some (lookupErrorMessage MValidationFailed err)) None
            (user_deletes dels (log_event (CallLookup (accountNumber a))
               (updateAccountStatus (account_id a) Processing (Some MAccountQuerying) None w))))"
  | (refreshed) dels t info e2 w3 where
    "lookup_replies e = (dels, t) # lookup_replies e2" "fetchPlayerInfo t = Inr info"
    "redeem_replies e2 = redeem_replies e" "timer_replies e2 = timer_replies e"
    "redeem_attempt c a e2 (updateAccountStatus (account_id a) Processing None (Some info)
       (user_deletes dels (log_event (CallLookup (accountNumber a))
          (updateAccountStatus (account_id a) Processing (Some MAccountQuerying) None w))))
     = Returned (e', w3)"
    "w' = decrement_remaining w3"
proof -
  let ?w1 = "updateAccountStatus (account_id a) Processing (Some MAccountQuerying) None w"
  obtain r e2 w2 where aw: "await_fetchPlayerInfo (accountNumber a) e ?w1 = Returned (r, e2, w2)"
    and rest: "(case r of
        Inl err \<Rightarrow> Returned (e2, decrement_remaining (updateAccountStatus (account_id a) Error
                     (Some (lookupErrorMessage MValidationFailed err)) None w2))
      | Inr info \<Rightarrow> (case redeem_attempt c a e2 (updateAccountStatus (account_id a) Processing None (Some info) w2) of
             Suspended w' \<Rightarrow> Suspended w'
           | Returned (e3, w3) \<Rightarrow> Returned (e3, decrement_remaining w3))) = Returned (e', w')"
    using assms by (auto simp add: submit_body_def split: outcome.splits)
  from aw obtain dels t where l: "lookup_replies e = (dels, t) # lookup_replies e2"
    "r = fetchPlayerInfo t" "redeem_replies e2 = redeem_replies e" "timer_replies e2 = timer_replies e"
    "w2 = user_deletes dels (log_event (CallLookup (accountNumber a)) ?w1)"
    by (rule await_fetchPlayerInfo_ReturnedE)
  show ?thesis
  proof (cases r)
    case (Inl err)
    with rest have "e' = e2" "w' = decrement_remaining (updateAccountStatus (account_id a) Error
                     (Some (lookupErrorMessage MValidationFailed err)) None w2)"
      by simp_all
    with l Inl show ?thesis by (intro lookup_failed [of dels t err]) simp_all
  next
    case (Inr info)
    with rest obtain w3 where
      ra: "redeem_attempt c a e2 (updateAccountStatus (account_id a) Processing None (Some info) w2) = Returned (e', w3)"
      and w': "w' = decrement_remaining w3"
      by (auto split: outcome.splits)
    have f: "fetchPlayerInfo t = Inr info" using l(2) Inr by simp
    from l(1) f l(3) l(4) ra [unfolded l(5)] w' show ?thesis by (rule refreshed)
  qed
qed

lemma submit_body_evolves:
  assumes "submit_body c a e w = Returned (e', w')"
  shows "world_evolves w w'"
  using assms
proof (cases rule: submit_body_ReturnedE)
  case (lookup_failed dels t err)
  let ?w1 = "updateAccountStatus (account_id a) Processing (Some MAccountQuerying) None w"
  let ?w2 = "user_deletes dels (log_event (CallLookup (accountNumber a)) ?w1)"
  have "world_evolves w ?w1" by blast
  also have "world_evolves ?w1 ?w2" by (blast intro: world_evolves_trans)
  also have "world_evolves ?w2 w'" unfolding lookup_failed(5) by (blast intro: world_evolves_trans)
  finally show ?thesis .
next
  case (refreshed dels t info e2 w3)
  let ?w1 = "updateAccountStatus (account_id a) Processing (Some MAccountQuerying) None w"
  let ?w2 = "user_deletes dels (log_event (CallLookup (accountNumber a)) ?w1)"
  have "world_evolves w ?w1" by blast
  also have "world_evolves ?w1 ?w2" by (blast intro: world_evolves_trans)
  also have "world_evolves ?w2 (updateAccountStatus (account_id a) Processing None (Some info) ?w2)" by blast
  also have "world_evolves \<dots> w3" by (rule redeem_attempt_facts(1) [OF refreshed(5)])
  also have "world_evolves w3 w'" unfolding refreshed(6) by blast
  finally show ?thesis .
qed

lemma submit_body_counters:
  assumes "submit_body c a e w = Returned (e', w')"
  shows "isProcessing w' = isProcessing w \<and>
    processingRemaining w' = Some (case processingRemaining w of None \<Rightarrow> 0 | Some n \<Rightarrow> n - 1)"
  using assms
proof (cases rule: submit_body_ReturnedE)
  case (lookup_failed dels t err)
  then show ?thesis by simp
next
  case (refreshed dels t info e2 w3)
  with redeem_attempt_facts(2,3) [OF refreshed(5)] show ?thesis by simp
qed

lemma submit_body_calls:
  assumes "submit_body c a e w = Returned (e', w')"
  shows "\<exists>tr. events w' = events w @ tr \<and> lookups_of tr = [accountNumber a] \<and>
           subseq (redeems_of tr) [(accountNumber a, c)]"
  using assms
proof (cases rule: submit_body_ReturnedE)
  case (lookup_failed dels t err)
  then show ?thesis by simp
next
  case (refreshed dels t info e2 w3)
  with redeem_attempt_facts(4) [OF refreshed(5)] show ?thesis by auto
qed

subsection \<open>The loop\<close>

lemma submit_loop_ConsE:
  assumes "submit_loop c d (a # rest) e w = Returned (e', w')"
  obtains (last) "rest = []" "submit_body c a e w = Returned (e', w')"
  | (continue) e1 w1 e2 w2 where "rest \<noteq> []" "submit_body c a e w = Returned (e1, w1)"
      "await_sleep d e1 w1 = Returned (e2, w2)" "submit_loop c d rest e2 w2 = Returned (e', w')"
  using assms by (auto split: if_splits outcome.splits)

lemma submit_loop_evolves:
  "submit_loop c d xs e w = Returned (e', w') \<Longrightarrow> world_evolves w w'"
proof (induction xs arbitrary: e w)
  case Nil
  then show ?case by simp
next
  case (Cons a rest)
  from Cons.prems show ?case
  proof (cases rule: submit_loop_ConsE)
    case last
    then show ?thesis by (blast dest: submit_body_evolves)
  next
    case (continue e1 w1 e2 w2)
    have "world_evolves w w1" using continue(2) by (rule submit_body_evolves)
    also have "world_evolves w1 w2" using continue(3) by (rule world_evolves_awaits)
    also have "world_evolves w2 w'" using continue(4) by (rule Cons.IH)
    finally show ?thesis .
  qed
qed

lemma submit_loop_counters:
  assumes "submit_loop c d xs e w = Returned (e', w')" and "processingRemaining w = Some n"
  shows "isProcessing w' = isProcessing w \<and> processingRemaining w' = Some (n - length xs)"
  using assms
proof (induction xs arbitrary: e w n)
  case Nil
  then show ?case by simp
next
  case (Cons a rest)
  from Cons.prems(1) show ?case
  proof (cases rule: submit_loop_ConsE)
    case last
    with submit_body_counters [OF last(2)] Cons.prems(2) show ?thesis by simp
  next
    case (continue e1 w1 e2 w2)
    from submit_body_counters [OF continue(2)] Cons.prems(2)
    have "isProcessing w1 = isProcessing w" "processingRemaining w1 = Some (n - 1)" by simp_all
    moreover from continue(3) have "isProcessing w2 = isProcessing w1"
      "processingRemaining w2 = processingRemaining w1"
      by (auto elim: await_sleep_ReturnedE)
    ultimately show ?thesis using Cons.IH [OF continue(4), of "n - 1"] by simp
  qed
qed

lemma submit_loop_calls:
  assumes "submit_loop c d xs e w = Returned (e', w')"
  shows "\<exists>tr. events w' = events w @ tr \<and> lookups_of tr = map accountNumber xs \<and>
           subseq (redeems_of tr) (map (\<lambda>a. (accountNumber a, c)) xs)"
  using assms
proof (induction xs arbitrary: e w)
  case Nil
  then show ?case by simp
next
  case (Cons a rest)
  from Cons.prems show ?case
  proof (cases rule: submit_loop_ConsE)
    case last
    with submit_body_calls [OF last(2)] show ?thesis by auto
  next
    case (continue e1 w1 e2 w2)
    obtain tr1 where 1: "events w1 = events w @ tr1" "lookups_of tr1 = [accountNumber a]"
      "subseq (redeems_of tr1) [(accountNumber a, c)]"
      using submit_body_calls [OF continue(2)] by blast
    obtain dels where 2: "events w2 = events w1 @ CallSleep d # map UserDelete dels"
      using await_traces(3) [OF continue(3)] by blast
    obtain tr3 where 3: "events w' = events w2 @ tr3" "lookups_of tr3 = map accountNumber rest"
      "subseq (redeems_of tr3) (map (\<lambda>a. (accountNumber a, c)) rest)"
      using Cons.IH [OF continue(4)] by blast
    have "subseq (redeems_of tr1 @ redeems_of tr3) ([(accountNumber a, c)] @ map (\<lambda>a. (accountNumber a, c)) rest)"
      using 1(3) 3(3) by (rule list_emb_append_mono)
    with 1 2 3 show ?thesis
      by (intro exI [of _ "tr1 @ CallSleep d # map UserDelete dels @ tr3"]) simp
  qed
qed

lemma submit_body_Returned:
  assumes "lookup_replies e \<noteq> []" and "redeem_replies e \<noteq> []"
  shows "\<exists>e' w'. submit_body c a e w = Returned (e', w') \<and>
    length (lookup_replies e') = length (lookup_replies e) - 1 \<and>
    length (redeem_replies e) - 1 \<le> length (redeem_replies e') \<and>
    timer_replies e' = timer_replies e"
  using assms
  by (auto simp add: submit_body_def redeem_attempt_def await_fetchPlayerInfo_def
      await_submitGiftCode_def neq_Nil_conv split: sum.splits)

lemma submit_loop_returns:
  assumes "length xs \<le> length (lookup_replies e)" and "length xs \<le> length (redeem_replies e)"
    and "length xs \<le> Suc (length (timer_replies e))"
  shows "\<exists>r. submit_loop c d xs e w = Returned r"
  using assms
proof (induction xs arbitrary: e w)
  case Nil
  then show ?case by simp
next
  case (Cons a rest)
  from Cons.prems have "lookup_replies e \<noteq> []" "redeem_replies e \<noteq> []" by auto
  then obtain e1 w1 where b: "submit_body c a e w = Returned (e1, w1)"
    and l1: "length (lookup_replies e1) = length (lookup_replies e) - 1"
    and r1: "length (redeem_replies e) - 1 \<le> length (redeem_replies e1)"
    and t1: "timer_replies e1 = timer_replies e"
    using submit_body_Returned by blast
  show ?case
  proof (cases "rest = []")
    case True
    with b show ?thesis by simp
  next
    case False
    with Cons.prems(3) t1 have "timer_replies e1 \<noteq> []" by (cases rest) auto
    then obtain e2 w2 where sl: "await_sleep d e1 w1 = Returned (e2, w2)"
      by (metis await_Returned_iff(3) surj_pair)
    then obtain dels where t2: "timer_replies e1 = dels # timer_replies e2"
      and "lookup_replies e2 = lookup_replies e1" "redeem_replies e2 = redeem_replies e1"
      by (rule await_sleep_ReturnedE)
    moreover from t2 t1 have "length (timer_replies e) = Suc (length (timer_replies e2))" by simp
    ultimately have "\<exists>r. submit_loop c d rest e2 w2 = Returned r"
      using Cons.prems l1 r1 by (intro Cons.IH) auto
    with b False sl show ?thesis by auto
  qed
qed

lemma reset_statuses_evolves [simp]: "evolves xs (reset_statuses xs)"
  by (auto simp add: reset_statuses_def acc_evolves_def intro: evolves_map)

lemma start_round_fields [simp]:
  "events (start_round v w) = events w"
  "processingRemaining (start_round v w) = Some (length v)"
  "isProcessing (start_round v w)"
  "world_evolves w (start_round v w)"
  by (simp_all add: start_round_def world_evolves_def)

lemma submitGiftCodeToAccounts_ReturnedE:
  assumes "submitGiftCodeToAccounts snapshot c d e w = Returned (e', w')"
  obtains (rejected) "filter isValidated snapshot = []" "e' = e"
    "w' = showAlert (if snapshot = [] then MNeedAddAccount else MNoValidatedAccounts) AlertWarning w"
  | (round) w'' where "filter isValidated snapshot \<noteq> []"
    "submit_loop c d (filter isValidated snapshot) e (start_round (filter isValidated snapshot) w)
       = Returned (e', w'')"
    "w' = w''\<lparr>isProcessing := False, processingRemaining := Some 0\<rparr>"
  using assms
  by (cases "snapshot = []") (auto simp add: submitGiftCodeToAccounts_def Let_def
      split: if_splits outcome.splits intro: that)

subsection \<open>Properties of a round\<close>

text \<open>
  C1: In a round that runs to its end, the remaining counter starts at the number of
  validated snapshot accounts and is decremented exactly once per account, whichever
  branch (refresh failure, redemption success, redemption failure) the account takes: the
  loop of a round, run over any accounts from any counter value \<open>n\<close>, leaves
  \<open>n\<close> minus the number of accounts; so the round's counter is exactly 0 when its loop
  ends, before the final reset to 0, and the round ends with the processing flag down.
\<close>

theorem submitGiftCodeToAccounts_counter:
  assumes "submitGiftCodeToAccounts snapshot c d e w = Returned (e', w')"
    and "filter isValidated snapshot \<noteq> []"
  shows "(\<exists>w''. submit_loop c d (filter isValidated snapshot) e
                 (start_round (filter isValidated snapshot) w) = Returned (e', w'') \<and>
               processingRemaining w'' = Some 0 \<and> isProcessing w'' \<and>
               w' = w''\<lparr>isProcessing := False, processingRemaining := Some 0\<rparr>) \<and>
         (\<forall>xs n e0 w0 e1 w1. submit_loop c d xs e0 w0 = Returned (e1, w1) \<longrightarrow>
            processingRemaining w0 = Some n \<longrightarrow> processingRemaining w1 = Some (n - length xs))"
proof
  show "\<forall>xs n e0 w0 e1 w1. submit_loop c d xs e0 w0 = Returned (e1, w1) \<longrightarrow>
            processingRemaining w0 = Some n \<longrightarrow> processingRemaining w1 = Some (n - length xs)"
    using submit_loop_counters by blast
  show "\<exists>w''. submit_loop c d (filter isValidated snapshot) e
                 (start_round (filter isValidated snapshot) w) = Returned (e', w'') \<and>
               processingRemaining w'' = Some 0 \<and> isProcessing w'' \<and>
               w' = w''\<lparr>isProcessing := False, processingRemaining := Some 0\<rparr>"
    using assms(1)
  proof (cases rule: submitGiftCodeToAccounts_ReturnedE)
    case rejected
    with assms(2) show ?thesis by simp
  next
    case (round w'')
    from submit_loop_counters [OF round(2)] round show ?thesis by auto
  qed
qed

text \<open>
  C4: A round refreshes the profile of every validated account of the render-time
  snapshot exactly once, in snapshot order, whether or not the user deletes it meanwhile,
  and attempts the redemption at most once per such account, in the same order; a
  rejected round makes no call at all.
\<close>

theorem submitGiftCodeToAccounts_calls:
  assumes "submitGiftCodeToAccounts snapshot c d e w = Returned (e', w')"
  shows "\<exists>tr. events w' = events w @ tr \<and>
           lookups_of tr = map accountNumber (filter isValidated snapshot) \<and>
           subseq (redeems_of tr) (map (\<lambda>a. (accountNumber a, c)) (filter isValidated snapshot))"
  using assms
proof (cases rule: submitGiftCodeToAccounts_ReturnedE)
  case rejected
  then show ?thesis by simp
next
  case (round w'')
  from submit_loop_calls [OF round(2)] round(3) show ?thesis by simp
qed

text \<open>
  C5: With no validated account in the snapshot (in particular with an empty registry)
  the round is rejected before any state change: one warning, no call, the registry, the
  counter and the processing flag untouched.
\<close>

theorem submitGiftCodeToAccounts_rejects:
  "filter isValidated snapshot = [] \<Longrightarrow>
   submitGiftCodeToAccounts snapshot c d e w =
     Returned (e, showAlert (if snapshot = [] then MNeedAddAccount else MNoValidatedAccounts) AlertWarning w)"
  by (simp add: submitGiftCodeToAccounts_def)

text \<open>
  C6: The reset at the start of a round touches only finished accounts: one in
  \<open>Success\<close> or \<open>Error\<close> becomes \<open>Idle\<close> without result text, one in any other status
  (idle, or still processing or validating) keeps its status and its result text; every
  account keeps its place, id, number, profile and validation; so no finished account
  is left, and the reset is idempotent.
\<close>

theorem reset_statuses_clean:
  "length (reset_statuses xs) = length xs \<and>
   (\<forall>i < length xs.
      status (reset_statuses xs ! i) = (if status (xs ! i) \<in> {Success, Error} then Idle else status (xs ! i)) \<and>
      lastResult (reset_statuses xs ! i) =
        (if status (xs ! i) \<in> {Success, Error} then None else lastResult (xs ! i))) \<and>
   list_all (\<lambda>a. status a \<noteq> Success \<and> status a \<noteq> Error) (reset_statuses xs) \<and>
   reset_statuses (reset_statuses xs) = reset_statuses xs \<and>
   map (\<lambda>a. (account_id a, accountNumber a, playerInfo a, isValidated a)) (reset_statuses xs) =
   map (\<lambda>a. (account_id a, accountNumber a, playerInfo a, isValidated a)) xs"
  by (induction xs) (auto simp add: reset_statuses_def nth_Cons split: nat.split)

text \<open>
  C11: A round returns (it is never stuck) as soon as the environment answers every
  profile lookup, every redemption and every delay it asks for: one of each per validated
  snapshot account, one delay fewer.
\<close>

theorem submitGiftCodeToAccounts_returns:
  assumes "length (filter isValidated snapshot) \<le> length (lookup_replies e)"
    and "length (filter isValidated snapshot) \<le> length (redeem_replies e)"
    and "length (filter isValidated snapshot) \<le> Suc (length (timer_replies e))"
  shows "\<exists>r. submitGiftCodeToAccounts snapshot c d e w = Returned r"
proof -
  obtain r where "submit_loop c d (filter isValidated snapshot) e
      (start_round (filter isValidated snapshot) w) = Returned r"
    using submit_loop_returns [OF assms] by blast
  then show ?thesis
    by (cases r) (auto simp add: submitGiftCodeToAccounts_def Let_def)
qed

text \<open>
  C17: A round never brings back a deleted account, never creates one, never
  un-validates one, and keeps the registry well formed; the events only grow.
\<close>

theorem submitGiftCodeToAccounts_evolves:
  assumes "submitGiftCodeToAccounts snapshot c d e w = Returned (e', w')"
  shows "world_evolves w w'"
  using assms
proof (cases rule: submitGiftCodeToAccounts_ReturnedE)
  case rejected
  then show ?thesis by blast
next
  case (round w'')
  have "world_evolves w (start_round (filter isValidated snapshot) w)" by simp
  also have "world_evolves \<dots> w''" using round(2) by (rule submit_loop_evolves)
  also have "world_evolves w'' w'" using round(3) by (simp add: world_evolves_def)
  finally show ?thesis .
qed

end
