(* ===== verification/ApiSign.thy ===== *)
theory ApiSign
  imports Prelude "HOL-Library.Char_ord" "HOL-Library.List_Lexorder"
begin

text \<open>
  The request signer of \<^verbatim>\<open>src/src/utils/apiSign.ts\<close>: the parameters' keys sorted,
  \<^verbatim>\<open>key=value\<close> pairs joined by \<^verbatim>\<open>&\<close>, the salt appended, and the MD5 digest of the
  result in hexadecimal. A parameter object is an association list with distinct keys in
  insertion order, its values the JavaScript kinds the signer distinguishes. MD5
  (\<^verbatim>\<open>crypto-js\<close>) is a library the code only calls: it is the parameter \<open>md5\<close>, any
  function from text to text. \<^verbatim>\<open>Array.prototype.sort\<close> without a comparator compares
  UTF-16 code units, which on the ASCII keys used here is the lexicographic order of
  \<open>List_Lexorder\<close>; a number is an integer (the code signs \<^verbatim>\<open>Date.now()\<close> and text),
  and an object is carried with its \<^verbatim>\<open>JSON.stringify\<close> text.
\<close>

datatype sign_value =
    VStr string
  | VNum int
  | VBool bool
  | VObj string  \<comment> \<open>an object, by its JSON text\<close>
  | VNull
  | VUndefined

type_synonym sign_params = "(string \<times> sign_value) list"

subsection \<open>Text of a value (template literal conversion)\<close>

function digits :: "nat \<Rightarrow> string" where
  "digits n = (if n < 10 then [char_of (48 + n)] else digits (n div 10) @ [char_of (48 + n mod 10)])"
  by auto
termination by (relation "measure id") auto

definition js_int_string :: "int \<Rightarrow> string" where
  "js_int_string i = (if i < 0 then ''-'' @ digits (nat (- i)) else digits (nat i))"

fun value_text :: "sign_value \<Rightarrow> string" where
  "value_text (VStr s) = s"
| "value_text (VNum i) = js_int_string i"
| "value_text (VBool b) = (if b then ''true'' else ''false'')"
| "value_text (VObj json) = json"
| "value_text VNull = ''null''"
| "value_text VUndefined = ''undefined''"

subsection \<open>The signer (\<^verbatim>\<open>generateSign\<close>, \<^verbatim>\<open>createSignedParams\<close>, \<^verbatim>\<open>verifySign\<close>)\<close>

definition DEFAULT_SALT :: string where "DEFAULT_SALT = ''mN4!pQs6JrYwV9''"

fun join_amp :: "string list \<Rightarrow> string" where
  "join_amp [] = []"
| "join_amp [x] = x"
| "join_amp (x # y # zs) = x @ ''&'' @ join_amp (y # zs)"

definition sign_query :: "sign_params \<Rightarrow> string" where
  "sign_query params =
     join_amp (map (\<lambda>key. key @ ''='' @ value_text (the (map_of params key))) (sort (map fst params)))"

definition generateSign :: "(string \<Rightarrow> string) \<Rightarrow> sign_params \<Rightarrow> string option \<Rightarrow> string" where
  "generateSign md5 params salt = md5 (sign_query params @ (case salt of None \<Rightarrow> DEFAULT_SALT | Some s \<Rightarrow> s))"

text \<open>\<^verbatim>\<open>{...params, sign}\<close>: an existing key keeps its place and takes the new value.\<close>

definition js_obj_set :: "string \<Rightarrow> sign_value \<Rightarrow> sign_params \<Rightarrow> sign_params" where
  "js_obj_set k v params =
     (if k \<in> set (map fst params) then map (\<lambda>(k', v'). if k' = k then (k', v) else (k', v')) params
      else params @ [(k, v)])"

definition createSignedParams :: "(string \<Rightarrow> string) \<Rightarrow> sign_params \<Rightarrow> string option \<Rightarrow> sign_params" where
  "createSignedParams md5 params salt = js_obj_set ''sign'' (VStr (generateSign md5 params salt)) params"

text \<open>\<^verbatim>\<open>const { sign, ...paramsWithoutSign } = params; return sign === expectedSign\<close>.\<close>

definition verifySign :: "(string \<Rightarrow> string) \<Rightarrow> sign_params \<Rightarrow> string option \<Rightarrow> bool" where
  "verifySign md5 params salt =
     (let paramsWithoutSign = filter (\<lambda>(k, v). k \<noteq> ''sign'') params;
          expectedSign = generateSign md5 paramsWithoutSign salt
      in map_of params ''sign'' = Some (VStr expectedSign))"

subsection \<open>Lemmas\<close>

lemma sign_query_perm:
  assumes "distinct (map fst ps)" and "set ps = set qs" and "distinct (map fst qs)"
  shows "sign_query ps = sign_query qs"
proof -
  have "map_of ps = map_of qs"
    using assms by (simp add: map_of_inject_set)
  moreover have "sort (map fst ps) = sort (map fst qs)"
  proof (rule sorted_distinct_set_unique)
    show "set (sort (map fst ps)) = set (sort (map fst qs))" using assms(2) by simp
  qed (use assms(1,3) in simp_all)
  ultimately show ?thesis by (simp add: sign_query_def)
qed

lemma filter_no_sign:
  "''sign'' \<notin> set (map fst ps) \<Longrightarrow> filter (\<lambda>(k, v). k \<noteq> ''sign'') ps = ps"
  by (induction ps) auto

subsection \<open>Properties of the signer\<close>

text \<open>
  C19: Signing is a round trip: parameters signed by \<^verbatim>\<open>createSignedParams\<close> pass
  \<^verbatim>\<open>verifySign\<close> with the same salt, for every digest function, provided the parameters
  do not already carry a \<^verbatim>\<open>sign\<close> key; and the signature does not depend on the order
  in which the keys were inserted.
\<close>

theorem sign_roundtrip:
  assumes "''sign'' \<notin> set (map fst params)" and "distinct (map fst params)"
  shows "verifySign md5 (createSignedParams md5 params salt) salt \<and>
         (\<forall>qs. distinct (map fst qs) \<longrightarrow> set qs = set params \<longrightarrow>
                generateSign md5 qs salt = generateSign md5 params salt)"
proof
  show "verifySign md5 (createSignedParams md5 params salt) salt"
  proof -
    have "map_of params ''sign'' = None" using assms(1) by (simp add: map_of_eq_None_iff)
    with assms(1) show ?thesis
      by (simp add: verifySign_def createSignedParams_def js_obj_set_def filter_no_sign map_add_def)
  qed
  show "\<forall>qs. distinct (map fst qs) \<longrightarrow> set qs = set params \<longrightarrow>
                generateSign md5 qs salt = generateSign md5 params salt"
  proof (intro allI impI)
    fix qs assume "distinct (map fst qs)" and "set qs = set params"
    then have "sign_query qs = sign_query params" using assms(2) by (rule sign_query_perm)
    then show "generateSign md5 qs salt = generateSign md5 params salt" by (simp add: generateSign_def)
  qed
qed

end
