(* ===== verification/NumberText.thy ===== *)
theory NumberText
  imports Complex_Main ApiSign
begin

text \<open>
  Numbers written as text by the JavaScript built-ins the code calls:
  \<^verbatim>\<open>toFixed\<close> (\<^verbatim>\<open>src/src/utils/statsUtils.ts\<close> and
  \<^verbatim>\<open>src/src/utils/fileUtils.ts\<close>) and \<^verbatim>\<open>parseFloat\<close> of its result written back
  by string concatenation (\<^verbatim>\<open>fileUtils.ts\<close>). Decimal digits are \<open>digits\<close> of
  \<open>ApiSign\<close>, the text of a number in a template literal.
\<close>

text \<open>
  \<^verbatim>\<open>Number.prototype.toFixed(f)\<close> on a number below \<open>10\<^sup>2\<^sup>1\<close>: the integer \<open>n\<close> with
  \<open>n / 10\<^sup>f\<close> nearest to the value, the larger one on a tie, written with \<open>f\<close>
  decimals (a minus sign for a negative value). Numbers are exact reals here, so a
  decimal tie that the binary value of a JavaScript number misses is rounded up.
\<close>

definition fixed_digits :: "nat \<Rightarrow> nat \<Rightarrow> string" where
  "fixed_digits n f =
     (let m = digits n; m' = replicate (Suc f - length m) (CHR ''0'') @ m; k = length m' in
      if f = 0 then m' else take (k - f) m' @ ''.'' @ drop (k - f) m')"

definition js_toFixed :: "real \<Rightarrow> nat \<Rightarrow> string" where
  "js_toFixed x f =
     (if x < 0 then ''-'' @ fixed_digits (nat (floor (- x * 10 ^ f + 1 / 2))) f
      else fixed_digits (nat (floor (x * 10 ^ f + 1 / 2))) f)"

text \<open>
  \<^verbatim>\<open>parseFloat(s) + ""\<close> for a text \<open>s\<close> that \<^verbatim>\<open>toFixed\<close> wrote: \<^verbatim>\<open>parseFloat\<close> reads
  the decimal back, and the conversion to a string writes the shortest decimal of the
  same number, which is the fraction without its trailing zeros, and no point when none
  of it is left.
\<close>

definition js_fixed_number_text :: "string \<Rightarrow> string" where
  "js_fixed_number_text s =
     (if CHR ''.'' \<in> set s then
        (let t = rev (dropWhile (\<lambda>c. c = CHR ''0'') (rev s)) in
         if t \<noteq> [] \<and> last t = CHR ''.'' then butlast t else t)
      else s)"

subsection \<open>Lemmas\<close>

text \<open>The two branches of \<open>digits\<close> as conditional rewrites, which evaluate numerals.\<close>

lemma digits_small: "n < 10 \<Longrightarrow> digits n = [char_of (48 + n)]"
  by (subst digits.simps) simp

lemma digits_big: "\<not> n < 10 \<Longrightarrow> digits n = digits (n div 10) @ [char_of (48 + n mod 10)]"
  by (subst digits.simps) simp

lemma digits_nonempty: "digits n \<noteq> []"
  by (subst digits.simps) (simp del: digits.simps)

end
