(* ===== verification/FileUtils.thy ===== *)
theory FileUtils
  imports Model NumberText "HOL-Library.Sublist"
begin

text \<open>
  The text-file helpers of \<^verbatim>\<open>src/src/utils/fileUtils.ts\<close> that the account manager's
  import and export use: splitting and trimming lines, the account-number format, the
  de-duplicating classification of an imported list, the text an export writes, and the
  file-type test, the size text of a rejected file, and the outcome of reading a file.
  Strings are byte lists: \<^verbatim>\<open>trim\<close> strips the ASCII white space
  (space, tab, line feed, vertical tab, form feed, carriage return); the non-ASCII white
  space JavaScript also strips is outside the model. The download itself
  (\<^verbatim>\<open>Blob\<close>, object URL, link click) is the browser's; of
  \<^verbatim>\<open>readTextFile\<close>'s \<^verbatim>\<open>FileReader\<close> the model keeps which of its two events fires.
\<close>

subsection \<open>String primitives of JavaScript\<close>

definition js_whitespace :: "char \<Rightarrow> bool" where
  "js_whitespace c = (of_char c \<in> set [9, 10, 11, 12, 13, 32 :: nat])"

definition js_trim :: "string \<Rightarrow> string" where
  "js_trim s = rev (dropWhile js_whitespace (rev (dropWhile js_whitespace s)))"

text \<open>\<^verbatim>\<open>s.split(c)\<close> for a one-character separator: the empty string splits into one empty piece.\<close>

fun js_split :: "char \<Rightarrow> string \<Rightarrow> string list" where
  "js_split c [] = [[]]"
| "js_split c (x # xs) =
     (if x = c then [] # js_split c xs
      else let ps = js_split c xs in (x # hd ps) # tl ps)"

text \<open>\<^verbatim>\<open>xs.join(sep)\<close>.\<close>

fun js_join :: "string \<Rightarrow> string list \<Rightarrow> string" where
  "js_join sep [] = []"
| "js_join sep [x] = x"
| "js_join sep (x # y # zs) = x @ sep @ js_join sep (y # zs)"

definition newline :: char where "newline = CHR 0x0A"

text \<open>\<^verbatim>\<open>toLowerCase\<close> on ASCII letters.\<close>

definition js_lower :: "string \<Rightarrow> string" where
  "js_lower s = map (\<lambda>c. if (65 :: nat) \<le> of_char c \<and> of_char c \<le> (90 :: nat)
                        then char_of (of_char c + (32 :: nat)) else c) s"

subsection \<open>Reading a file (\<^verbatim>\<open>readTextFile\<close>)\<close>

text \<open>
  The \<^verbatim>\<open>FileReader\<close> fires \<^verbatim>\<open>onload\<close> with the file's text or \<^verbatim>\<open>onerror\<close>; the
  promise resolves with the text or rejects with an \<^verbatim>\<open>Error\<close> whose message is the
  UTF-8 text of "file read failed" (\<open>Inl\<close> carries that message).
\<close>

datatype file_read = ReaderLoad string | ReaderError

definition readTextFile_error :: string where
  "readTextFile_error = [CHR 0xE6, CHR 0xAA, CHR 0x94, CHR 0xE6, CHR 0xA1, CHR 0x88, CHR 0xE8, CHR 0xAE, CHR 0x80,
                         CHR 0xE5, CHR 0x8F, CHR 0x96, CHR 0xE5, CHR 0xA4, CHR 0xB1, CHR 0xE6, CHR 0x95, CHR 0x97]"

fun readTextFile :: "file_read \<Rightarrow> string + string" where
  "readTextFile (ReaderLoad content) = Inr content"
| "readTextFile ReaderError = Inl readTextFile_error"

subsection \<open>Parsing an imported text (\<^verbatim>\<open>parseAccountsFromText\<close>)\<close>

definition parseAccountsFromText :: "string \<Rightarrow> string list" where
  "parseAccountsFromText text =
     filter (\<lambda>line. length line > 0 \<and> \<not> prefix ''#'' line) (map js_trim (js_split newline text))"

subsection \<open>The account-number format (\<^verbatim>\<open>validateAccountFormat\<close>)\<close>

text \<open>\<^verbatim>\<open>/^[a-zA-Z0-9_\-@.]+$/\<close>: one or more characters of the class, nothing else.\<close>

definition account_char :: "char \<Rightarrow> bool" where
  "account_char c =
     (let n = of_char c :: nat in
        (48 \<le> n \<and> n \<le> 57) \<or> (65 \<le> n \<and> n \<le> 90) \<or> (97 \<le> n \<and> n \<le> 122) \<or>
        n \<in> set [95, 45, 64, 46])"

definition validateAccountFormat :: "string \<Rightarrow> bool" where
  "validateAccountFormat account =
     ((account \<noteq> [] \<and> list_all account_char account) \<and> 3 \<le> length account \<and> length account \<le> 50)"

subsection \<open>Classifying an imported list (\<^verbatim>\<open>validateAccountList\<close>)\<close>

record account_list_check =
  valid :: "string list"
  invalid :: "string list"
  duplicates :: "string list"

text \<open>One turn of the \<^verbatim>\<open>forEach\<close>: the state is \<open>(valid, invalid, seen, duplicates)\<close>.\<close>

definition validate_list_step ::
  "string \<Rightarrow> string list \<times> string list \<times> string set \<times> string list \<Rightarrow>
   string list \<times> string list \<times> string set \<times> string list" where
  "validate_list_step account st =
     (let (v, i, seen, d) = st in
        if account \<in> seen then (v, i, seen, d @ [account])
        else if validateAccountFormat account then (v @ [account], i, insert account seen, d)
        else (v, i @ [account], insert account seen, d))"

definition validateAccountList :: "string list \<Rightarrow> account_list_check" where
  "validateAccountList accounts =
     (let (v, i, seen, d) = fold validate_list_step accounts ([], [], {}, [])
      in \<lparr>valid = v, invalid = i, duplicates = d\<rparr>)"

subsection \<open>Exporting (\<^verbatim>\<open>exportAccountsToFile\<close>)\<close>

text \<open>
  The content written to the file. The status marks are the UTF-8 bytes of U+2713 and
  U+2717; a missing or empty nickname is \<^verbatim>\<open>Unknown\<close>.
\<close>

definition check_mark :: string where "check_mark = map char_of [226, 156, 147 :: nat]"
definition cross_mark :: string where "cross_mark = map char_of [226, 156, 151 :: nat]"

definition export_line :: "account \<Rightarrow> string" where
  "export_line account =
     accountNumber account @ '' ['' @ (if isValidated account then check_mark else cross_mark) @
     ''] '' @ (case playerInfo account of None \<Rightarrow> ''Unknown''
               | Some p \<Rightarrow> js_or (nickname p) ''Unknown'' (\<lambda>s. s))"

definition exportAccountsToFile :: "account list \<Rightarrow> bool \<Rightarrow> string" where
  "exportAccountsToFile accounts includeStatus =
     (if includeStatus then js_join [newline] (map export_line accounts)
      else js_join [newline] (map accountNumber accounts))"

subsection \<open>The size of a file as text (\<^verbatim>\<open>formatFileSize\<close>)\<close>

text \<open>
  \<^verbatim>\<open>i = Math.floor(Math.log(bytes) / Math.log(1024))\<close> is the exponent of the largest
  power of 1024 not above \<open>bytes\<close>, computed here by repeated division; the theorem
  \<open>formatFileSize_log\<close> below shows it is the floor of that quotient of logarithms. The
  number is \<^verbatim>\<open>parseFloat((bytes / 1024 ** i).toFixed(2))\<close> and the unit is
  \<^verbatim>\<open>sizes[i]\<close>, which is \<^verbatim>\<open>undefined\<close> beyond the four units.
\<close>

definition fileSizeUnits :: "string list" where
  "fileSizeUnits = [''Bytes'', ''KB'', ''MB'', ''GB'']"

function size_index :: "nat \<Rightarrow> nat" where
  "size_index n = (if n < 1024 then 0 else Suc (size_index (n div 1024)))"
  by auto
termination by (relation "measure id") auto

declare size_index.simps [simp del]

definition formatFileSize :: "nat \<Rightarrow> string" where
  "formatFileSize bytes =
     (if bytes = 0 then ''0 Bytes''
      else let i = size_index bytes in
        js_fixed_number_text (js_toFixed (real bytes / 1024 ^ i) 2) @ '' '' @
        (if i < length fileSizeUnits then fileSizeUnits ! i else ''undefined''))"

subsection \<open>The file-type test (\<^verbatim>\<open>isTextFile\<close>)\<close>

text \<open>The fields of the browser's \<^verbatim>\<open>File\<close> the import reads.\<close>

record browser_file =
  file_name :: string
  file_type :: string
  file_size :: nat

definition isTextFile :: "browser_file \<Rightarrow> bool" where
  "isTextFile f =
     (file_type f \<in> set [''text/plain'', ''text/csv'', ''application/csv'', ''text/tab-separated-values''] \<or>
      list_ex (\<lambda>ext. suffix ext (js_lower (file_name f))) [''.txt'', ''.csv'', ''.tsv''])"

subsection \<open>Lemmas on the string primitives\<close>

lemma dropWhile_all_not: "\<forall>c\<in>set s. \<not> P c \<Longrightarrow> dropWhile P s = s"
  by (induction s) auto

lemma js_trim_id: "\<not> list_ex js_whitespace s \<Longrightarrow> js_trim s = s"
  by (simp add: js_trim_def list_ex_iff dropWhile_all_not)

lemma js_split_nonempty [simp]: "js_split c s \<noteq> []"
  by (induction s) (auto simp add: Let_def)

lemma js_split_append:
  "c \<notin> set x \<Longrightarrow> js_split c (x @ ys) = (x @ hd (js_split c ys)) # tl (js_split c ys)"
  by (induction x) (auto simp add: Let_def)

lemma js_split_join:
  "(\<forall>x\<in>set xs. c \<notin> set x) \<Longrightarrow> xs \<noteq> [] \<Longrightarrow> js_split c (js_join [c] xs) = xs"
proof (induction "[c]" xs rule: js_join.induct)
  case (2 x)
  then show ?case using js_split_append [of c x "[]"] by simp
next
  case (3 x y zs)
  then show ?case using js_split_append [of c x "c # js_join [c] (y # zs)"] by simp
qed simp

lemma newline_whitespace [simp]: "js_whitespace newline"
  by (simp add: js_whitespace_def newline_def)

lemma validateAccountFormat_plain:
  assumes "validateAccountFormat n"
  shows "n \<noteq> [] \<and> \<not> list_ex js_whitespace n \<and> \<not> prefix ''#'' n"
proof -
  have chars: "\<forall>c\<in>set n. account_char c" and ne: "n \<noteq> []"
    using assms by (auto simp add: validateAccountFormat_def list_all_iff)
  have "\<And>c. account_char c \<Longrightarrow> \<not> js_whitespace c"
    by (auto simp add: account_char_def js_whitespace_def)
  then have "\<not> list_ex js_whitespace n" using chars by (auto simp add: list_ex_iff)
  moreover have "\<not> account_char (CHR ''#'')" by (simp add: account_char_def)
  then have "\<not> prefix ''#'' n" using chars by (auto simp add: prefix_def)
  ultimately show ?thesis using ne by simp
qed

subsection \<open>The classification of an imported list\<close>

lemma remdups_snoc: "remdups (zs @ [x]) = remdups (filter (\<lambda>y. y \<noteq> x) zs) @ [x]"
  by (induction zs) auto

lemma first_occurrences_Cons:
  assumes "x \<notin> S"
  shows "rev (remdups (rev (filter (\<lambda>a. a \<notin> S) (x # xs)))) =
         x # rev (remdups (rev (filter (\<lambda>a. a \<notin> insert x S) xs)))"
proof -
  have "filter (\<lambda>y. y \<noteq> x) (rev (filter (\<lambda>a. a \<notin> S) xs)) =
        rev (filter (\<lambda>a. a \<notin> insert x S) xs)"
    by (simp add: rev_filter [symmetric] conj_commute)
  with assms show ?thesis by (simp add: remdups_snoc)
qed

lemma validate_list_step_simps:
  "x \<in> S \<Longrightarrow> validate_list_step x (v, i, S, d) = (v, i, S, d @ [x])"
  "x \<notin> S \<Longrightarrow> validate_list_step x (v, i, S, d) =
     (if validateAccountFormat x then (v @ [x], i, insert x S, d) else (v, i @ [x], insert x S, d))"
  by (simp_all add: validate_list_step_def)

lemma fold_validate_list:
  "\<exists>D. fold validate_list_step xs (v, i, S, d) =
     (v @ filter validateAccountFormat (rev (remdups (rev (filter (\<lambda>a. a \<notin> S) xs)))),
      i @ filter (\<lambda>a. \<not> validateAccountFormat a) (rev (remdups (rev (filter (\<lambda>a. a \<notin> S) xs)))),
      S \<union> set xs, d @ D) \<and>
     length D + length (remdups (filter (\<lambda>a. a \<notin> S) xs)) = length xs"
proof (induction xs arbitrary: v i S d)
  case (Cons x xs)
  show ?case
  proof (cases "x \<in> S")
    case True
    obtain D where "fold validate_list_step xs (v, i, S, d @ [x]) =
        (v @ filter validateAccountFormat (rev (remdups (rev (filter (\<lambda>a. a \<notin> S) xs)))),
         i @ filter (\<lambda>a. \<not> validateAccountFormat a) (rev (remdups (rev (filter (\<lambda>a. a \<notin> S) xs)))),
         S \<union> set xs, (d @ [x]) @ D) \<and>
        length D + length (remdups (filter (\<lambda>a. a \<notin> S) xs)) = length xs"
      using Cons.IH by blast
    with True show ?thesis
      by (intro exI [of _ "x # D"]) (auto simp add: validate_list_step_simps insert_absorb)
  next
    case False
    obtain D where D: "fold validate_list_step xs
        (if validateAccountFormat x then (v @ [x], i, insert x S, d) else (v, i @ [x], insert x S, d)) =
        ((if validateAccountFormat x then v @ [x] else v) @
           filter validateAccountFormat (rev (remdups (rev (filter (\<lambda>a. a \<notin> insert x S) xs)))),
         (if validateAccountFormat x then i else i @ [x]) @
           filter (\<lambda>a. \<not> validateAccountFormat a) (rev (remdups (rev (filter (\<lambda>a. a \<notin> insert x S) xs)))),
         insert x S \<union> set xs, d @ D) \<and>
        length D + length (remdups (filter (\<lambda>a. a \<notin> insert x S) xs)) = length xs"
      using Cons.IH [of "if validateAccountFormat x then v @ [x] else v"
          "if validateAccountFormat x then i else i @ [x]" "insert x S" d] by (cases "validateAccountFormat x") auto
    have len: "length (remdups (filter (\<lambda>a. a \<notin> S) (x # xs))) =
               Suc (length (remdups (filter (\<lambda>a. a \<notin> insert x S) xs)))"
      using arg_cong [OF first_occurrences_Cons [OF False, of xs], of length]
      by (simp only: length_rev length_remdups_card_conv set_rev list.size)
    show ?thesis
      using D False first_occurrences_Cons [OF False, of xs] len
      by (intro exI [of _ D]) (auto simp add: validate_list_step_simps)
  qed
qed simp

lemma validateAccountList_valid:
  "valid (validateAccountList xs) = filter validateAccountFormat (rev (remdups (rev xs)))"
  using fold_validate_list [of xs "[]" "[]" "{}" "[]"] by (auto simp add: validateAccountList_def)

lemma validateAccountList_valid_distinct: "distinct (valid (validateAccountList xs))"
  by (simp add: validateAccountList_valid)

lemma validateAccountList_valid_set: "set (valid (validateAccountList xs)) \<subseteq> set xs"
  by (auto simp add: validateAccountList_valid)

subsection \<open>Properties of the import and export helpers\<close>

text \<open>
  C22: Importing the text an export writes (without status) gives back the exported
  account numbers, in order, for any numbers that are non-empty, contain no white space
  and do not start with \<^verbatim>\<open>#\<close>; every number of the import format is such a number.
\<close>

theorem parse_export_roundtrip:
  assumes "\<forall>n\<in>set (map accountNumber accs). n \<noteq> [] \<and> \<not> list_ex js_whitespace n \<and> \<not> prefix ''#'' n"
  shows "parseAccountsFromText (exportAccountsToFile accs False) = map accountNumber accs"
proof (cases "accs = []")
  case True
  then show ?thesis by (simp add: exportAccountsToFile_def parseAccountsFromText_def js_trim_def)
next
  case False
  have "\<forall>x\<in>set (map accountNumber accs). newline \<notin> set x"
    using assms newline_whitespace unfolding list_ex_iff by fastforce
  then have "js_split newline (js_join [newline] (map accountNumber accs)) = map accountNumber accs"
    using False by (simp add: js_split_join)
  moreover have "map (js_trim \<circ> accountNumber) accs = map accountNumber accs"
    using assms by (auto intro!: js_trim_id)
  moreover have "filter (\<lambda>line. length line > 0 \<and> \<not> prefix ''#'' line) (map accountNumber accs) =
                 map accountNumber accs"
    using assms by (auto simp add: filter_id_conv)
  ultimately show ?thesis
    unfolding exportAccountsToFile_def parseAccountsFromText_def by (simp only: if_False map_map)
qed

text \<open>
  C23: \<^verbatim>\<open>validateAccountList\<close> keeps the first occurrence of every number, in order,
  split by the format test into valid and invalid, and reports every later occurrence as a
  duplicate: nothing is lost and nothing is reported twice.
\<close>

theorem validateAccountList_spec:
  "valid (validateAccountList xs) = filter validateAccountFormat (rev (remdups (rev xs))) \<and>
   invalid (validateAccountList xs) = filter (\<lambda>a. \<not> validateAccountFormat a) (rev (remdups (rev xs))) \<and>
   length (duplicates (validateAccountList xs)) + length (remdups xs) = length xs"
  using fold_validate_list [of xs "[]" "[]" "{}" "[]"]
  by (auto simp add: validateAccountList_def)

subsection \<open>The size text of a file\<close>

lemma size_index_small: "n < 1024 \<Longrightarrow> size_index n = 0"
  by (subst size_index.simps) simp

lemma size_index_big: "\<not> n < 1024 \<Longrightarrow> size_index n = Suc (size_index (n div 1024))"
  by (subst size_index.simps) simp

lemma size_index_bounds:
  "0 < n \<Longrightarrow> 1024 ^ size_index n \<le> n \<and> n < 1024 ^ Suc (size_index n)"
proof (induction n rule: size_index.induct)
  case (1 n)
  show ?case
  proof (cases "n < 1024")
    case True
    with "1.prems" show ?thesis by (simp add: size_index_small)
  next
    case False
    then have "0 < n div 1024" by simp
    with "1.IH" False have "1024 ^ size_index (n div 1024) \<le> n div 1024"
      and "n div 1024 < 1024 ^ Suc (size_index (n div 1024))" by auto
    then have "1024 ^ Suc (size_index (n div 1024)) \<le> n"
      and "n < 1024 ^ Suc (Suc (size_index (n div 1024)))"
      by (simp_all add: less_eq_div_iff_mult_less_eq div_less_iff_less_mult mult.commute)
    with False show ?thesis by (simp add: size_index_big)
  qed
qed

lemmas formatFileSize_eval = formatFileSize_def size_index_small size_index_big js_toFixed_def
  fixed_digits_def js_fixed_number_text_def fileSizeUnits_def floor_eq_iff char_of_def bit_iff_odd
  digits_small digits_big

text \<open>
  C34: The size text of a file is the code's formula: for a positive size the unit index
  computed by repeated division is \<^verbatim>\<open>Math.floor(Math.log(bytes) / Math.log(1024))\<close>
  (on exact reals), so the number shown is the size in the largest unit not above it:
  \<open>1024\<^sup>i \<le> bytes < 1024\<^sup>i\<^sup>+\<^sup>1\<close>.
\<close>

theorem formatFileSize_log:
  assumes "0 < bytes"
  shows "formatFileSize bytes =
           (let i = nat \<lfloor>ln (real bytes) / ln 1024\<rfloor> in
            js_fixed_number_text (js_toFixed (real bytes / 1024 ^ i) 2) @ '' '' @
            (if i < length fileSizeUnits then fileSizeUnits ! i else ''undefined'')) \<and>
         size_index bytes = nat \<lfloor>ln (real bytes) / ln 1024\<rfloor> \<and>
         1024 ^ size_index bytes \<le> bytes \<and> bytes < 1024 ^ Suc (size_index bytes)"
proof -
  have b: "1024 ^ size_index bytes \<le> bytes" "bytes < 1024 ^ (size_index bytes + 1)"
    using size_index_bounds [OF assms] by simp_all
  have "nat \<lfloor>ln (real bytes) / ln 1024\<rfloor> = size_index bytes"
    using floor_log_nat_eq_if [OF b] by (simp add: log_def)
  with assms b show ?thesis by (simp add: formatFileSize_def Let_def)
qed

text \<open>
  Sizes at the unit boundaries: a size just under a mebibyte rounds up to "1024 KB", one
  just over it reads "1 MB" like the limit it exceeds, and from a tebibyte on the unit
  is \<^verbatim>\<open>undefined\<close>.
\<close>

theorem formatFileSize_boundaries:
  "formatFileSize 1536 = ''1.5 KB'' \<and> formatFileSize 1048575 = ''1024 KB'' \<and>
   formatFileSize 1048577 = ''1 MB'' \<and> formatFileSize 1099511627776 = ''1 undefined''"
  by (simp add: formatFileSize_eval del: digits.simps size_index.simps)

end
