(* ===== verification/AccountManager.thy ===== *)
theory AccountManager
  imports AddAccount FileUtils
begin

text \<open>
  The account manager panel (\<^verbatim>\<open>src/src/components/AccountManager.tsx\<close>): adding one
  number typed by the user, exporting the list, and importing a text file of numbers,
  which classifies the file's lines and then adds the new numbers one by one, throttled,
  through the callback \<^verbatim>\<open>onAddAccount\<close> that \<^verbatim>\<open>src/src/App.tsx\<close> passes. The panel's
  own React state is the record \<open>manager_ui\<close>; the hook's state is the \<open>world\<close> of the
  registry, threaded through the awaits as in the hook's handlers. The file input, the
  scrolling effects and the rendering are not modelled; reading the file
  (\<^verbatim>\<open>readTextFile\<close>) is its result, text or error message.
\<close>

subsection \<open>The callback App passes (\<^verbatim>\<open>App.handleAddAccount\<close>)\<close>

text \<open>
  \<^verbatim>\<open>const handleAddAccount = async (accountNumber: string) => await
  addAccount(accountNumber)\<close>: the options object the panel passes as second argument
  is not forwarded, so the hook's \<^verbatim>\<open>silent\<close> is always false.
\<close>

definition App_handleAddAccount ::
  "account list \<Rightarrow> string \<Rightarrow> bool \<Rightarrow> string \<Rightarrow> env \<Rightarrow> world \<Rightarrow> (bool \<times> env \<times> world) outcome" where
  "App_handleAddAccount snapshot num silent_option tempId e w =
     addAccount snapshot num False tempId e w"

subsection \<open>The panel's state\<close>

record manager_ui =
  newAccount :: string
  isAdding :: bool
  isImporting :: bool
  importErrors :: "message list"
  importTotal :: nat
  importRemaining :: nat

subsection \<open>Adding a typed number (\<^verbatim>\<open>handleAddAccount\<close>, \<^verbatim>\<open>handleKeyPress\<close>)\<close>

definition is_digit :: "char \<Rightarrow> bool" where
  "is_digit c = ((48 :: nat) \<le> of_char c \<and> of_char c \<le> (57 :: nat))"

text \<open>
  \<^verbatim>\<open>newAccount.trim() && /^\d+$/.test(newAccount.trim())\<close>: a non-empty run of ASCII
  digits. The returned promise is not awaited: the add runs on while the input is cleared.
\<close>

definition handleAddAccount ::
  "account list \<Rightarrow> string \<Rightarrow> env \<Rightarrow> manager_ui \<Rightarrow> world \<Rightarrow>
   manager_ui \<times> (bool \<times> env \<times> world) outcome option" where
  "handleAddAccount snapshot tempId e ui w =
     (let n = js_trim (newAccount ui) in
      if n \<noteq> [] \<and> list_all is_digit n
      then (ui\<lparr>newAccount := [], isAdding := False\<rparr>, Some (App_handleAddAccount snapshot n False tempId e w))
      else (ui, None))"

datatype key = KeyEnter | KeyEscape | KeyOther string

definition handleKeyPress ::
  "key \<Rightarrow> account list \<Rightarrow> string \<Rightarrow> env \<Rightarrow> manager_ui \<Rightarrow> world \<Rightarrow>
   manager_ui \<times> (bool \<times> env \<times> world) outcome option" where
  "handleKeyPress k snapshot tempId e ui w =
     (case k of
        KeyEnter \<Rightarrow> handleAddAccount snapshot tempId e ui w
      | KeyEscape \<Rightarrow> (ui\<lparr>newAccount := [], isAdding := False\<rparr>, None)
      | KeyOther _ \<Rightarrow> (ui, None))"

subsection \<open>Exporting (\<^verbatim>\<open>handleExportAccounts\<close>)\<close>

text \<open>The file's content, when one is written, and the notification.\<close>

definition handleExportAccounts :: "account list \<Rightarrow> world \<Rightarrow> string option \<times> world" where
  "handleExportAccounts accs w =
     (if accs = [] then (None, showAlert MNoAccountsToExport AlertWarning w)
      else (Some (exportAccountsToFile accs False),
            showAlert (MExportSuccess (length accs)) AlertSuccess w))"

subsection \<open>Importing a file (\<^verbatim>\<open>handleFileChange\<close>)\<close>

text \<open>
  The classification of the file's numbers (lines 124--177): the new numbers, those of
  the import format absent from the render-time list, and the error lines, each with at
  most five (invalid) or three (duplicate, existing) numbers and the count when more.
\<close>

definition more_count :: "nat \<Rightarrow> string list \<Rightarrow> nat option" where
  "more_count k xs = (if length xs > k then Some (length xs) else None)"

definition import_classify :: "account list \<Rightarrow> string list \<Rightarrow> string list \<times> message list" where
  "import_classify existing accountNumbers =
     (let r = validateAccountList accountNumbers;
          existingAccounts = filter (\<lambda>a. list_ex (\<lambda>x. accountNumber x = a) existing) (valid r);
          newAccounts = filter (\<lambda>a. \<not> list_ex (\<lambda>x. accountNumber x = a) existing) (valid r);
          errors =
            (if invalid r \<noteq> [] then [MImportFormatInvalid (js_join '', '' (take 5 (invalid r)))
                                      (more_count 5 (invalid r))] else []) @
            (if duplicates r \<noteq> [] then [MImportDuplicate (js_join '', '' (take 3 (duplicates r)))
                                         (more_count 3 (duplicates r))] else []) @
            (if existingAccounts \<noteq> [] then [MImportExisting (js_join '', '' (take 3 existingAccounts))
                                            (more_count 3 existingAccounts)] else [])
      in (newAccounts, errors))"

text \<open>
  The loop adding the new numbers (lines 179--203). \<open>n\<close> is \<^verbatim>\<open>newAccounts.length\<close>,
  \<open>i\<close> the index of the head of the list, \<open>tid i\<close> the temporary id
  (\<^verbatim>\<open>Date.now()\<close>) of the \<open>i\<close>-th add. The delay precedes every add but the first;
  \<^verbatim>\<open>onAddAccount\<close> resolves and never rejects (the hook's \<^verbatim>\<open>addAccount\<close> catches
  everything), so the \<^verbatim>\<open>catch\<close> branch has no counterpart.
\<close>

fun import_loop ::
  "account list \<Rightarrow> nat \<Rightarrow> (nat \<Rightarrow> string) \<Rightarrow> nat \<Rightarrow> nat \<Rightarrow> string list \<Rightarrow> nat \<times> nat \<Rightarrow>
   env \<Rightarrow> manager_ui \<Rightarrow> world \<Rightarrow> ((nat \<times> nat) \<times> env \<times> manager_ui \<times> world) outcome" where
  "import_loop snapshot d tid n i [] counts e ui w = Returned (counts, e, ui, w)"
| "import_loop snapshot d tid n i (a # rest) (successAdded, failedAdded) e ui w =
     (let ui1 = (if i = 0 then ui\<lparr>importTotal := n, importRemaining := n\<rparr> else ui) in
      case (if 0 < i then await_sleep d e w else Returned (e, w)) of
        Suspended w' \<Rightarrow> Suspended w'
      | Returned (e1, w1) \<Rightarrow>
          (case App_handleAddAccount snapshot a True (tid i) e1 w1 of
             Suspended w' \<Rightarrow> Suspended w'
           | Returned (ok, e2, w2) \<Rightarrow>
               import_loop snapshot d tid n (Suc i) rest
                 (if ok then (Suc successAdded, failedAdded) else (successAdded, Suc failedAdded))
                 e2 (ui1\<lparr>importRemaining := importRemaining ui1 - 1\<rparr>) w2))"

text \<open>The report after the loop (lines 205--224).\<close>

definition import_finish ::
  "string list \<Rightarrow> message list \<Rightarrow> nat \<times> nat \<Rightarrow> manager_ui \<Rightarrow> world \<Rightarrow> manager_ui \<times> world" where
  "import_finish newAccounts errors counts ui w =
     (let (successAdded, failedAdded) = counts; totalTried = length newAccounts in
      (ui\<lparr>importErrors := errors\<rparr>,
       if totalTried = 0
       then (if errors \<noteq> [] then showAlert MImportAllFailed AlertError w else w)
       else showAlert (MImportSummary totalTried successAdded failedAdded)
              (if failedAdded > 0 then AlertWarning else AlertSuccess) w))"

text \<open>The \<^verbatim>\<open>finally\<close> (lines 232--235).\<close>

definition import_reset :: "manager_ui \<Rightarrow> manager_ui" where
  "import_reset ui = ui\<lparr>isImporting := False, importTotal := 0, importRemaining := 0\<rparr>"

text \<open>
  The handler. \<open>snapshot\<close> is the \<^verbatim>\<open>accounts\<close> prop of the render that created it, and
  \<^verbatim>\<open>onAddAccount\<close> is that render's callback: every add of the import checks duplicates
  against that same list.
\<close>

definition handleFileChange ::
  "browser_file option \<Rightarrow> string + string \<Rightarrow> account list \<Rightarrow> nat \<Rightarrow> (nat \<Rightarrow> string) \<Rightarrow>
   env \<Rightarrow> manager_ui \<Rightarrow> world \<Rightarrow> (env \<times> manager_ui \<times> world) outcome" where
  "handleFileChange fileOpt readResult snapshot d tid e ui w =
     (case fileOpt of
        None \<Rightarrow> Returned (e, ui, w)
      | Some f \<Rightarrow>
          if \<not> isTextFile f then Returned (e, ui, showAlert MImportFileFormatError AlertError w)
          else if file_size f > 1024 * 1024
          then Returned (e, ui, showAlert (MImportFileTooLarge (formatFileSize (file_size f))) AlertError w)
          else
            let ui0 = ui\<lparr>isImporting := True, importErrors := [], importTotal := 0, importRemaining := 0\<rparr> in
            case readResult of
              Inl m \<Rightarrow> Returned (e, import_reset ui0, showAlert (MFileReadError m) AlertError w)
            | Inr text \<Rightarrow>
                let accountNumbers = parseAccountsFromText text in
                if accountNumbers = []
                then Returned (e, import_reset (ui0\<lparr>isImporting := False\<rparr>),
                               showAlert MImportFileEmpty AlertWarning w)
                else
                  let (newAccounts, errors) = import_classify snapshot accountNumbers in
                  case import_loop snapshot d tid (length newAccounts) 0 newAccounts (0, 0) e ui0 w of
                    Suspended w' \<Rightarrow> Suspended w'
                  | Returned (counts, e', ui1, w1) \<Rightarrow>
                      let (ui2, w2) = import_finish newAccounts errors counts ui1 w1
                      in Returned (e', import_reset ui2, w2))"

subsection \<open>The import loop, one turn at a time\<close>

lemma import_pause_ReturnedE:
  assumes "(if 0 < i then await_sleep d e w else Returned (e, w)) = Returned (e1, w1)"
  obtains dels where "events w1 = events w @ (if 0 < i then [CallSleep d] else []) @ map UserDelete dels"
    "accounts w1 = filter (\<lambda>a. account_id a \<notin> set dels) (accounts w)"
    "alerts w1 = alerts w" "lookup_replies e1 = lookup_replies e"
    "redeem_replies e1 = redeem_replies e"
proof (cases "0 < i")
  case True
  with assms have "await_sleep d e w = Returned (e1, w1)" by simp
  then obtain dels where "timer_replies e = dels # timer_replies e1"
    "lookup_replies e1 = lookup_replies e" "redeem_replies e1 = redeem_replies e"
    "w1 = user_deletes dels (log_event (CallSleep d) w)"
    by (rule await_sleep_ReturnedE)
  with True show ?thesis by (intro that [of dels]) (simp_all add: log_event_def)
next
  case False
  with assms show ?thesis by (intro that [of "[]"]) auto
qed

lemma import_loop_ConsE:
  assumes "import_loop snapshot d tid n i (a # rest) (s0, f0) e ui w = Returned r"
  obtains e1 w1 ok e2 w2 where
    "(if 0 < i then await_sleep d e w else Returned (e, w)) = Returned (e1, w1)"
    "App_handleAddAccount snapshot a True (tid i) e1 w1 = Returned (ok, e2, w2)"
    "import_loop snapshot d tid n (Suc i) rest (if ok then (Suc s0, f0) else (s0, Suc f0)) e2
       ((if i = 0 then ui\<lparr>importTotal := n, importRemaining := n\<rparr> else ui)
          \<lparr>importRemaining := importRemaining (if i = 0 then ui\<lparr>importTotal := n, importRemaining := n\<rparr> else ui) - 1\<rparr>)
       w2 = Returned r"
proof -
  obtain p where p: "(if 0 < i then await_sleep d e w else Returned (e, w)) = p" by simp
  show ?thesis
  proof (cases p)
    case (Suspended x)
    with assms p show ?thesis by (simp add: Let_def)
  next
    case (Returned ew)
    note pr = this
    obtain e1 w1 where ew: "ew = (e1, w1)" by (cases ew)
    obtain q where q: "App_handleAddAccount snapshot a True (tid i) e1 w1 = q" by simp
    show ?thesis
    proof (cases q)
      case (Suspended x)
      with assms p pr ew q show ?thesis by (simp add: Let_def)
    next
      case (Returned oew)
      note qr = this
      obtain ok e2 w2 where oew: "oew = (ok, e2, w2)" by (cases oew)
      from assms p pr ew q qr oew
      have "import_loop snapshot d tid n (Suc i) rest (if ok then (Suc s0, f0) else (s0, Suc f0)) e2
         ((if i = 0 then ui\<lparr>importTotal := n, importRemaining := n\<rparr> else ui)
            \<lparr>importRemaining := importRemaining (if i = 0 then ui\<lparr>importTotal := n, importRemaining := n\<rparr> else ui) - 1\<rparr>)
         w2 = Returned r"
        by (simp add: Let_def)
      with p pr ew q qr oew show ?thesis by (intro that) simp_all
    qed
  qed
qed

lemma import_loop_effects:
  assumes "import_loop snapshot d tid n i xs (s0, f0) e ui w = Returned ((s, f), e', ui', w')"
    and "\<forall>a\<in>set xs. \<not> list_ex (\<lambda>x. accountNumber x = a) snapshot"
  shows "\<exists>fails tr. alerts w' = alerts w @ map (\<lambda>(a, m). (MAccountAddFailed a m, AlertError)) fails \<and>
           s + f = s0 + f0 + length xs \<and> f = f0 + length fails \<and> subseq (map fst fails) xs \<and>
           events w' = events w @ tr \<and> lookups_of tr = xs \<and> redeems_of tr = [] \<and>
           isImporting ui' = isImporting ui \<and> importErrors ui' = importErrors ui"
  using assms
proof (induction xs arbitrary: i s0 f0 e ui w)
  case Nil
  then show ?case by (intro exI [of _ "[]"]) simp
next
  case (Cons a rest)
  from Cons.prems(1) obtain e1 w1 ok e2 w2 where
    pause: "(if 0 < i then await_sleep d e w else Returned (e, w)) = Returned (e1, w1)" and
    add: "App_handleAddAccount snapshot a True (tid i) e1 w1 = Returned (ok, e2, w2)" and
    loop: "import_loop snapshot d tid n (Suc i) rest (if ok then (Suc s0, f0) else (s0, Suc f0)) e2
       ((if i = 0 then ui\<lparr>importTotal := n, importRemaining := n\<rparr> else ui)
          \<lparr>importRemaining := importRemaining (if i = 0 then ui\<lparr>importTotal := n, importRemaining := n\<rparr> else ui) - 1\<rparr>)
       w2 = Returned ((s, f), e', ui', w')"
    by (rule import_loop_ConsE)
  from pause obtain dels where ev1: "events w1 = events w @ (if 0 < i then [CallSleep d] else []) @ map UserDelete dels"
    and al1: "alerts w1 = alerts w"
    by (rule import_pause_ReturnedE)
  have fresh: "\<not> list_ex (\<lambda>x. accountNumber x = a) snapshot" using Cons.prems(2) by simp
  from addAccount_fresh_effects [OF add [unfolded App_handleAddAccount_def] fresh]
  obtain dels' m where ev2: "events w2 = events w1 @ CallLookup a # map UserDelete dels'"
    and al2: "alerts w2 = alerts w1 @ (if ok then [] else [(MAccountAddFailed a m, AlertError)])"
    by auto
  define s1 where "s1 = (if ok then Suc s0 else s0)"
  define f1 where "f1 = (if ok then f0 else Suc f0)"
  define ui1 where "ui1 = (if i = 0 then ui\<lparr>importTotal := n, importRemaining := n\<rparr> else ui)"
  have "import_loop snapshot d tid n (Suc i) rest (s1, f1) e2 (ui1\<lparr>importRemaining := importRemaining ui1 - 1\<rparr>) w2
        = Returned ((s, f), e', ui', w')"
    using loop by (cases ok; cases "i = 0") (simp_all add: s1_def f1_def ui1_def)
  moreover have u1: "isImporting ui1 = isImporting ui" "importErrors ui1 = importErrors ui"
    by (simp_all add: ui1_def)
  ultimately obtain fails tr where
    al: "alerts w' = alerts w2 @ map (\<lambda>(a, m). (MAccountAddFailed a m, AlertError)) fails" and
    cnt: "s + f = s1 + f1 + length rest" and cntf: "f = f1 + length fails" and
    sub: "subseq (map fst fails) rest" and
    ev: "events w' = events w2 @ tr" and lk: "lookups_of tr = rest" and rd: "redeems_of tr = []" and
    uiI: "isImporting ui' = isImporting ui" and uiE: "importErrors ui' = importErrors ui"
    using Cons.IH Cons.prems(2) by fastforce
  let ?fails = "(if ok then fails else (a, m) # fails)"
  let ?tr = "(if 0 < i then [CallSleep d] else []) @ map UserDelete dels @ CallLookup a # map UserDelete dels' @ tr"
  have "alerts w' = alerts w @ map (\<lambda>(a, m). (MAccountAddFailed a m, AlertError)) ?fails"
    using al al2 al1 by simp
  moreover have "s + f = s0 + f0 + length (a # rest)" "f = f0 + length ?fails"
    using cnt cntf by (cases ok; simp add: s1_def f1_def)+
  moreover have "subseq (map fst ?fails) (a # rest)"
    using sub by (cases ok) auto
  moreover have "events w' = events w @ ?tr" using ev ev2 ev1 by simp
  moreover have "lookups_of ?tr = a # rest" "redeems_of ?tr = []"
    using lk rd by simp_all
  ultimately show ?case using uiI uiE by blast
qed

lemma import_loop_wf:
  assumes "import_loop snapshot d tid n i xs c0 e ui w = Returned (c, e', ui', w')"
    and "wf_accounts (accounts w)" and "distinct xs"
    and "\<forall>a\<in>set xs. a \<notin> set (map accountNumber (accounts w)) \<and>
                    \<not> list_ex (\<lambda>x. accountNumber x = a) snapshot"
    and "inj tid" and "\<forall>j\<ge>i. tid j \<notin> set (map account_id (accounts w))"
  shows "wf_accounts (accounts w')"
  using assms
proof (induction xs arbitrary: i c0 e ui w)
  case Nil
  then show ?case by simp
next
  case (Cons a rest)
  obtain s0 f0 where c0: "c0 = (s0, f0)" by (cases c0)
  from Cons.prems(1) [unfolded c0] obtain e1 w1 ok e2 w2 where
    pause: "(if 0 < i then await_sleep d e w else Returned (e, w)) = Returned (e1, w1)" and
    add: "App_handleAddAccount snapshot a True (tid i) e1 w1 = Returned (ok, e2, w2)" and
    loop: "import_loop snapshot d tid n (Suc i) rest (if ok then (Suc s0, f0) else (s0, Suc f0)) e2
       ((if i = 0 then ui\<lparr>importTotal := n, importRemaining := n\<rparr> else ui)
          \<lparr>importRemaining := importRemaining (if i = 0 then ui\<lparr>importTotal := n, importRemaining := n\<rparr> else ui) - 1\<rparr>)
       w2 = Returned (c, e', ui', w')"
    by (rule import_loop_ConsE)
  from pause obtain dels where acc1: "accounts w1 = filter (\<lambda>a. account_id a \<notin> set dels) (accounts w)"
    by (rule import_pause_ReturnedE)
  have wf1: "wf_accounts (accounts w1)" using Cons.prems(2) by (simp add: acc1 wf_accounts_filter)
  have num1: "set (map accountNumber (accounts w1)) \<subseteq> set (map accountNumber (accounts w))"
    and id1: "set (map account_id (accounts w1)) \<subseteq> set (map account_id (accounts w))"
    by (auto simp add: acc1)
  have add': "addAccount snapshot a False (tid i) e1 w1 = Returned (ok, e2, w2)"
    using add by (simp add: App_handleAddAccount_def)
  have a_fresh: "a \<notin> set (map accountNumber (accounts w1))"
    and a_new: "\<not> list_ex (\<lambda>x. accountNumber x = a) snapshot"
    using Cons.prems(4) num1 by auto
  have "tid i \<notin> set (map account_id (accounts w))" using Cons.prems(6) by simp
  then have t_fresh: "tid i \<notin> set (map account_id (accounts w1))" using id1 by blast
  have wf2: "wf_accounts (accounts w2)"
    using addAccount_wf_fresh [OF add' wf1 t_fresh a_fresh] .
  from addAccount_fresh_effects [OF add' a_new]
  have num2: "set (map accountNumber (accounts w2)) \<subseteq> insert a (set (map accountNumber (accounts w1)))"
    and id2: "set (map account_id (accounts w2)) \<subseteq> insert (tid i) (set (map account_id (accounts w1)))"
    by blast+
  have rest_fresh: "\<forall>b\<in>set rest. b \<notin> set (map accountNumber (accounts w2)) \<and>
                    \<not> list_ex (\<lambda>x. accountNumber x = b) snapshot"
  proof
    fix b assume b: "b \<in> set rest"
    then have "b \<noteq> a" "b \<notin> set (map accountNumber (accounts w))"
      and new: "\<not> list_ex (\<lambda>x. accountNumber x = b) snapshot"
      using Cons.prems(3,4) by auto
    then have "b \<notin> set (map accountNumber (accounts w2))" using num1 num2 by blast
    with new show "b \<notin> set (map accountNumber (accounts w2)) \<and>
                    \<not> list_ex (\<lambda>x. accountNumber x = b) snapshot" by simp
  qed
  have tid_fresh: "\<forall>j\<ge>Suc i. tid j \<notin> set (map account_id (accounts w2))"
  proof (intro allI impI)
    fix j assume "Suc i \<le> j"
    then have "tid j \<noteq> tid i" and "tid j \<notin> set (map account_id (accounts w))"
      using Cons.prems(5,6) by (auto dest: injD)
    then show "tid j \<notin> set (map account_id (accounts w2))" using id1 id2 by blast
  qed
  from Cons.IH [OF loop wf2 _ rest_fresh Cons.prems(5) tid_fresh] Cons.prems(3)
  show ?case by simp
qed

subsection \<open>The import handler\<close>

lemma import_classify_new:
  "set (fst (import_classify s xs)) \<subseteq> set xs \<and> distinct (fst (import_classify s xs)) \<and>
   (\<forall>a\<in>set (fst (import_classify s xs)). \<not> list_ex (\<lambda>x. accountNumber x = a) s)"
  using validateAccountList_valid_set [of xs] validateAccountList_valid_distinct [of xs]
  by (auto simp add: import_classify_def Let_def)

lemma import_classify_Nil [simp]: "import_classify s [] = ([], [])"
  by (simp add: import_classify_def validateAccountList_def)

lemma handleFileChange_imported:
  assumes "handleFileChange (Some f) (Inr text) snapshot d tid e ui w = Returned (e', ui', w')"
    and "isTextFile f" and "file_size f \<le> 1024 * 1024" and "parseAccountsFromText text \<noteq> []"
  obtains counts ui1 w1 where
    "import_loop snapshot d tid (length (fst (import_classify snapshot (parseAccountsFromText text)))) 0
       (fst (import_classify snapshot (parseAccountsFromText text))) (0, 0) e
       (ui\<lparr>isImporting := True, importErrors := [], importTotal := 0, importRemaining := 0\<rparr>) w
       = Returned (counts, e', ui1, w1)"
    "ui' = import_reset (fst (import_finish (fst (import_classify snapshot (parseAccountsFromText text)))
             (snd (import_classify snapshot (parseAccountsFromText text))) counts ui1 w1))"
    "w' = snd (import_finish (fst (import_classify snapshot (parseAccountsFromText text)))
             (snd (import_classify snapshot (parseAccountsFromText text))) counts ui1 w1)"
proof -
  obtain newAccs errs where ic: "import_classify snapshot (parseAccountsFromText text) = (newAccs, errs)"
    by (cases "import_classify snapshot (parseAccountsFromText text)")
  obtain p where p: "import_loop snapshot d tid (length newAccs) 0 newAccs (0, 0) e
       (ui\<lparr>isImporting := True, importErrors := [], importTotal := 0, importRemaining := 0\<rparr>) w = p"
    by simp
  show ?thesis
  proof (cases p)
    case (Suspended x)
    with assms ic p show ?thesis by (simp add: handleFileChange_def Let_def)
  next
    case (Returned r)
    note pr = this
    obtain counts e2 ui1 w1 where r: "r = (counts, e2, ui1, w1)" by (cases r)
    obtain ui2 w2 where fin: "import_finish newAccs errs counts ui1 w1 = (ui2, w2)"
      by (cases "import_finish newAccs errs counts ui1 w1")
    from assms ic p pr r fin have eq: "e' = e2" "ui' = import_reset ui2" "w' = w2"
      by (simp_all add: handleFileChange_def Let_def)
    show ?thesis
    proof (rule that [of counts ui1 w1])
      show "import_loop snapshot d tid (length (fst (import_classify snapshot (parseAccountsFromText text)))) 0
         (fst (import_classify snapshot (parseAccountsFromText text))) (0, 0) e
         (ui\<lparr>isImporting := True, importErrors := [], importTotal := 0, importRemaining := 0\<rparr>) w
         = Returned (counts, e', ui1, w1)"
        using p pr r ic eq by simp
      show "ui' = import_reset (fst (import_finish (fst (import_classify snapshot (parseAccountsFromText text)))
               (snd (import_classify snapshot (parseAccountsFromText text))) counts ui1 w1))"
        using eq ic fin by simp
      show "w' = snd (import_finish (fst (import_classify snapshot (parseAccountsFromText text)))
               (snd (import_classify snapshot (parseAccountsFromText text))) counts ui1 w1)"
        using eq ic fin by simp
    qed
  qed
qed

lemma handleFileChange_ReturnedE:
  assumes "handleFileChange fileOpt rd snapshot d tid e ui w = Returned (e', ui', w')"
  obtains (plain) "accounts w' = accounts w" "events w' = events w"
  | (imported) f content counts ui1 w1 where "fileOpt = Some f" "isTextFile f" "file_size f \<le> 1024 * 1024"
    "rd = Inr content" "parseAccountsFromText content \<noteq> []"
    "import_loop snapshot d tid (length (fst (import_classify snapshot (parseAccountsFromText content)))) 0
       (fst (import_classify snapshot (parseAccountsFromText content))) (0, 0) e
       (ui\<lparr>isImporting := True, importErrors := [], importTotal := 0, importRemaining := 0\<rparr>) w
       = Returned (counts, e', ui1, w1)"
    "w' = snd (import_finish (fst (import_classify snapshot (parseAccountsFromText content)))
             (snd (import_classify snapshot (parseAccountsFromText content))) counts ui1 w1)"
proof (cases fileOpt)
  case None
  with assms show ?thesis by (intro plain) (simp_all add: handleFileChange_def)
next
  case (Some f)
  show ?thesis
  proof (cases "isTextFile f \<and> file_size f \<le> 1024 * 1024")
    case False
    with assms Some show ?thesis by (intro plain) (auto simp add: handleFileChange_def split: if_splits)
  next
    case True
    show ?thesis
    proof (cases rd)
      case (Inl m)
      with assms Some True show ?thesis by (intro plain) (auto simp add: handleFileChange_def)
    next
      case (Inr content)
      show ?thesis
      proof (cases "parseAccountsFromText content = []")
        case True
        with assms Some \<open>isTextFile f \<and> file_size f \<le> 1024 * 1024\<close> Inr show ?thesis
          by (intro plain) (auto simp add: handleFileChange_def)
      next
        case False
        from assms [unfolded Some Inr] True False show ?thesis
          by (elim handleFileChange_imported) (auto intro: imported [OF Some _ _ Inr])
      qed
    qed
  qed
qed

lemma import_finish_fields [simp]:
  "accounts (snd (import_finish xs errs c ui w)) = accounts w"
  "events (snd (import_finish xs errs c ui w)) = events w"
  "importErrors (fst (import_finish xs errs c ui w)) = errs"
  by (auto simp add: import_finish_def split: prod.splits)

lemma import_reset_fields [simp]:
  "isImporting (import_reset ui) = False" "importTotal (import_reset ui) = 0"
  "importRemaining (import_reset ui) = 0" "importErrors (import_reset ui) = importErrors ui"
  by (simp_all add: import_reset_def)

lemma import_finish_alerts:
  "0 < length newAccounts \<Longrightarrow>
   alerts (snd (import_finish newAccounts errs (sc, fc) ui w)) =
     alerts w @ [(MImportSummary (length newAccounts) sc fc, if 0 < fc then AlertWarning else AlertSuccess)]"
  by (simp add: import_finish_def showAlert_def)

subsection \<open>Properties of the panel\<close>

text \<open>
  C24: An import that reaches its loop and has new numbers ends with the summary
  notification, whose total is the number of new numbers and whose success and failure
  counts add up to it; before it come one error notification per failed add, in file
  order. Although the panel asks for silent adds, App's callback drops the option, so
  these per-account notifications are shown. The panel returns to rest with the
  classification's error lines.
\<close>

theorem handleFileChange_summary:
  assumes "handleFileChange (Some f) (Inr text) snapshot d tid e ui w = Returned (e', ui', w')"
    and "isTextFile f" and "file_size f \<le> 1024 * 1024"
    and "fst (import_classify snapshot (parseAccountsFromText text)) \<noteq> []"
  shows "\<exists>fails s. alerts w' = alerts w @ map (\<lambda>(a, m). (MAccountAddFailed a m, AlertError)) fails @
              [(MImportSummary (s + length fails) s (length fails),
                if fails = [] then AlertSuccess else AlertWarning)] \<and>
           s + length fails = length (fst (import_classify snapshot (parseAccountsFromText text))) \<and>
           subseq (map fst fails) (fst (import_classify snapshot (parseAccountsFromText text))) \<and>
           importErrors ui' = snd (import_classify snapshot (parseAccountsFromText text)) \<and>
           \<not> isImporting ui' \<and> importTotal ui' = 0 \<and> importRemaining ui' = 0"
proof -
  let ?new = "fst (import_classify snapshot (parseAccountsFromText text))"
  let ?errs = "snd (import_classify snapshot (parseAccountsFromText text))"
  have "parseAccountsFromText text \<noteq> []"
    using assms(4) import_classify_new [of snapshot "parseAccountsFromText text"] by auto
  with assms(1-3) obtain counts ui1 w1 where
    loop: "import_loop snapshot d tid (length ?new) 0 ?new (0, 0) e
       (ui\<lparr>isImporting := True, importErrors := [], importTotal := 0, importRemaining := 0\<rparr>) w
       = Returned (counts, e', ui1, w1)" and
    ui': "ui' = import_reset (fst (import_finish ?new ?errs counts ui1 w1))" and
    w': "w' = snd (import_finish ?new ?errs counts ui1 w1)"
    by (rule handleFileChange_imported)
  obtain sc fc where counts: "counts = (sc, fc)" by (cases counts)
  from import_loop_effects [OF loop [unfolded counts]] import_classify_new
  obtain fails where al1: "alerts w1 = alerts w @ map (\<lambda>(a, m). (MAccountAddFailed a m, AlertError)) fails"
    and cnt: "sc + fc = length ?new" and fc: "fc = length fails" and sub: "subseq (map fst fails) ?new"
    by auto
  have "alerts w' = alerts w @ map (\<lambda>(a, m). (MAccountAddFailed a m, AlertError)) fails @
          [(MImportSummary (sc + length fails) sc (length fails), if fails = [] then AlertSuccess else AlertWarning)]"
    using assms(4) al1 cnt fc by (simp add: w' counts import_finish_alerts)
  moreover have "importErrors ui' = ?errs" "\<not> isImporting ui'" "importTotal ui' = 0" "importRemaining ui' = 0"
    by (simp_all add: ui')
  ultimately show ?thesis using cnt fc sub by blast
qed

text \<open>
  C25: An import of a text file looks up exactly its new numbers, once each, in file
  order, and redeems nothing: invalid, repeated and already registered numbers cause no
  request.
\<close>

theorem handleFileChange_lookups:
  assumes "handleFileChange (Some f) (Inr text) snapshot d tid e ui w = Returned (e', ui', w')"
    and "isTextFile f" and "file_size f \<le> 1024 * 1024"
  shows "\<exists>tr. events w' = events w @ tr \<and>
           lookups_of tr = fst (import_classify snapshot (parseAccountsFromText text)) \<and>
           redeems_of tr = []"
proof (cases "parseAccountsFromText text = []")
  case True
  with assms have "events w' = events w"
    by (auto simp add: handleFileChange_def)
  with True show ?thesis by (intro exI [of _ "[]"]) simp
next
  case False
  let ?new = "fst (import_classify snapshot (parseAccountsFromText text))"
  from assms False obtain counts ui1 w1 where
    loop: "import_loop snapshot d tid (length ?new) 0 ?new (0, 0) e
       (ui\<lparr>isImporting := True, importErrors := [], importTotal := 0, importRemaining := 0\<rparr>) w
       = Returned (counts, e', ui1, w1)" and
    w': "w' = snd (import_finish ?new (snd (import_classify snapshot (parseAccountsFromText text))) counts ui1 w1)"
    by (rule handleFileChange_imported)
  obtain sc fc where counts: "counts = (sc, fc)" by (cases counts)
  from import_loop_effects [OF loop [unfolded counts]] import_classify_new
  obtain tr where "events w1 = events w @ tr" "lookups_of tr = ?new" "redeems_of tr = []"
    by blast
  then show ?thesis by (simp add: w')
qed

text \<open>
  Importing a file into the current list keeps the registry well formed, whatever
  the file holds, the lookups answer and the user deletes meanwhile, provided the
  temporary ids of the adds are pairwise distinct and fresh: numbers stay unique although
  every add checks duplicates against the list as it was when the import started.
\<close>

theorem handleFileChange_preserves_wf:
  assumes "handleFileChange fileOpt rd (accounts w) d tid e ui w = Returned (e', ui', w')"
    and "wf_accounts (accounts w)" and "inj tid" and "\<forall>j. tid j \<notin> set (map account_id (accounts w))"
  shows "wf_accounts (accounts w')"
  using assms(1)
proof (cases rule: handleFileChange_ReturnedE)
  case plain
  with assms(2) show ?thesis by simp
next
  case (imported f content counts ui1 w1)
  let ?new = "fst (import_classify (accounts w) (parseAccountsFromText content))"
  have "distinct ?new"
    and "\<forall>a\<in>set ?new. a \<notin> set (map accountNumber (accounts w)) \<and>
                       \<not> list_ex (\<lambda>x. accountNumber x = a) (accounts w)"
    using import_classify_new [of "accounts w" "parseAccountsFromText content"]
    by (auto simp add: list_ex_iff)
  with imported(6) assms(2-4) have "wf_accounts (accounts w1)"
    by (elim import_loop_wf) auto
  with imported(7) show ?thesis by simp
qed

text \<open>
  A number typed into the panel reaches the hook only when, trimmed, it is a
  non-empty run of digits; it is then added under its trimmed form, never silently, and
  the input is cleared. Such a number has no white space and no leading \<^verbatim>\<open>#\<close>, so an
  export and a re-import give it back.
\<close>

theorem handleAddAccount_digits:
  assumes "handleAddAccount snapshot tempId e ui w = (ui', Some r)"
  shows "\<exists>n. n = js_trim (newAccount ui) \<and> list_all is_digit n \<and>
           r = addAccount snapshot n False tempId e w \<and> newAccount ui' = [] \<and> \<not> isAdding ui' \<and>
           n \<noteq> [] \<and> \<not> list_ex js_whitespace n \<and> \<not> prefix ''#'' n"
proof -
  let ?n = "js_trim (newAccount ui)"
  have guard: "?n \<noteq> [] \<and> list_all is_digit ?n"
    using assms by (auto simp add: handleAddAccount_def Let_def split: if_splits)
  then have "r = addAccount snapshot ?n False tempId e w \<and> newAccount ui' = [] \<and> \<not> isAdding ui'"
    using assms by (auto simp add: handleAddAccount_def App_handleAddAccount_def)
  moreover have "\<And>c. is_digit c \<Longrightarrow> \<not> js_whitespace c \<and> c \<noteq> CHR ''#''"
    by (auto simp add: is_digit_def js_whitespace_def)
  then have "\<not> list_ex js_whitespace ?n \<and> \<not> prefix ''#'' ?n"
    using guard by (cases ?n) (auto simp add: list_all_iff list_ex_iff)
  ultimately show ?thesis using guard by blast
qed

end
