(* ===== verification/Stats.thy ===== *)
theory Stats
  imports Complex_Main Registry
begin

text \<open>
  The read-only views of the registry: \<^verbatim>\<open>src/src/utils/statsUtils.ts\<close> (counts, rates,
  grouping, the progress percentage, the time estimate and the predicates on the list)
  and the numbers the statistics panel \<^verbatim>\<open>src/src/components/StatusStats.tsx\<close> derives
  from them and from the hook's \<^verbatim>\<open>processingRemaining\<close>. JavaScript numbers are
  taken as exact reals (the counts are naturals); \<^verbatim>\<open>Math.round\<close> is
  \<open>\<lfloor>x + 1/2\<rfloor>\<close> and \<^verbatim>\<open>Math.ceil\<close> is the ceiling. The formatting of numbers into text
  (\<^verbatim>\<open>toFixed\<close>) is not modelled.
\<close>

subsection \<open>Counts and rates (\<^verbatim>\<open>calculateAccountStats\<close>)\<close>

record account_stats =
  total :: nat
  validated :: nat
  processing :: nat
  success :: nat
  error :: nat
  validationRate :: real
  successRate :: real
  remaining :: nat

definition calculateAccountStats :: "account list \<Rightarrow> account_stats" where
  "calculateAccountStats accs =
     (let n_total = length accs;
          n_validated = length (filter isValidated accs);
          n_processing = length (filter (\<lambda>acc. status acc = Processing) accs);
          n_success = length (filter (\<lambda>acc. status acc = Success) accs);
          n_error = length (filter (\<lambda>acc. status acc = Error) accs);
          n_remaining = length (filter (\<lambda>acc. isValidated acc \<and>
                          status acc \<notin> set [Success, Error, Processing]) accs)
      in \<lparr>total = n_total, validated = n_validated, processing = n_processing,
          success = n_success, error = n_error,
          validationRate = (if n_total > 0 then real n_validated / real n_total * 100 else 0),
          successRate = (if n_validated > 0 then real n_success / real n_validated * 100 else 0),
          remaining = n_remaining\<rparr>)"

subsection \<open>Grouping (\<^verbatim>\<open>groupAccountsByStatus\<close>)\<close>

text \<open>
  \<^verbatim>\<open>Record<AccountStatus, Account[]>\<close> is a function from the five statuses; the
  \<^verbatim>\<open>forEach\<close> pushes each account onto the list of its status.
\<close>

definition groupAccountsByStatus :: "account list \<Rightarrow> account_status \<Rightarrow> account list" where
  "groupAccountsByStatus accs =
     fold (\<lambda>acc groups. groups(status acc := groups (status acc) @ [acc])) accs (\<lambda>_. [])"

subsection \<open>Progress and time estimate\<close>

definition js_round :: "real \<Rightarrow> int" where
  "js_round x = \<lfloor>x + 1 / 2\<rfloor>"

definition calculateProgress :: "nat \<Rightarrow> nat \<Rightarrow> int" where
  "calculateProgress completed tot =
     (if tot = 0 then 0 else js_round (real completed / real tot * 100))"

text \<open>
  The three templates of \<^verbatim>\<open>estimateProcessingTime\<close>: "about s seconds", "about m
  minutes", "about m minutes s seconds".
\<close>

datatype time_estimate =
    AboutSeconds nat
  | AboutMinutes nat
  | AboutMinutesSeconds nat nat

definition estimateProcessingTime :: "nat \<Rightarrow> nat \<Rightarrow> time_estimate" where
  "estimateProcessingTime remainingAccounts averageTimePerAccount =
     (let totalMs = remainingAccounts * averageTimePerAccount;
          totalSeconds = nat \<lceil>real totalMs / 1000\<rceil>
      in if totalSeconds < 60 then AboutSeconds totalSeconds
         else let minutes = totalSeconds div 60; seconds = totalSeconds mod 60
              in if seconds = 0 then AboutMinutes minutes
                 else AboutMinutesSeconds minutes seconds)"

text \<open>The number of seconds a text of the estimate reads as.\<close>

fun estimate_seconds :: "time_estimate \<Rightarrow> nat" where
  "estimate_seconds (AboutSeconds s) = s"
| "estimate_seconds (AboutMinutes m) = 60 * m"
| "estimate_seconds (AboutMinutesSeconds m s) = 60 * m + s"

fun estimate_wellformed :: "time_estimate \<Rightarrow> bool" where
  "estimate_wellformed (AboutSeconds s) = (s < 60)"
| "estimate_wellformed (AboutMinutes m) = (0 < m)"
| "estimate_wellformed (AboutMinutesSeconds m s) = (0 < m \<and> 0 < s \<and> s < 60)"

subsection \<open>Predicates on the list\<close>

definition hasActiveOperations :: "account list \<Rightarrow> bool" where
  "hasActiveOperations accs = list_ex (\<lambda>acc. status acc = Processing \<or> status acc = Validating) accs"

definition getEligibleAccountsCount :: "account list \<Rightarrow> nat" where
  "getEligibleAccountsCount accs = length (filter isValidated accs)"

definition getUnvalidatedAccounts :: "account list \<Rightarrow> account list" where
  "getUnvalidatedAccounts accs = filter (\<lambda>acc. \<not> isValidated acc \<and> status acc \<noteq> Error) accs"

definition areAllAccountsProcessed :: "account list \<Rightarrow> bool" where
  "areAllAccountsProcessed accs =
     list_all (\<lambda>acc. status acc = Success \<or> status acc = Error \<or> status acc = Idle) accs"

subsection \<open>The statistics panel (\<^verbatim>\<open>StatusStats\<close>)\<close>

text \<open>
  \<^verbatim>\<open>typeof processingRemaining === "number" && processingRemaining >= 0\<close> holds
  exactly for the hook's counter when it is set (\<open>Some n\<close>); \<^verbatim>\<open>null\<close> is \<open>None\<close>.
\<close>

record stats_display =
  processingDisplay :: nat
  processedCount :: nat
  totalToProcess :: nat
  processedProgress :: int
  showProgressBar :: bool

definition status_display :: "account list \<Rightarrow> nat option \<Rightarrow> stats_display" where
  "status_display accs remainingProp =
     (let stats = calculateAccountStats accs;
          processed = success stats + error stats;
          toProcess = (case remainingProp of Some n \<Rightarrow> n + processed | None \<Rightarrow> total stats)
      in \<lparr>processingDisplay = (case remainingProp of Some n \<Rightarrow> n | None \<Rightarrow> processing stats),
          processedCount = processed, totalToProcess = toProcess,
          processedProgress = calculateProgress processed toProcess,
          showProgressBar = (processing stats > 0 \<or> success stats > 0 \<or> error stats > 0)\<rparr>)"

subsection \<open>Arithmetic of the percentages\<close>

lemma js_round_nat_div:
  assumes "0 < t"
  shows "js_round (real c / real t * 100) = int ((200 * c + t) div (2 * t))"
proof -
  have "real c / real t * 100 + 1 / 2 = real (200 * c + t) / real (2 * t)"
    using assms by (simp add: field_simps)
  then have "js_round (real c / real t * 100) = \<lfloor>real (200 * c + t) / real (2 * t)\<rfloor>"
    by (simp add: js_round_def)
  also have "\<dots> = int ((200 * c + t) div (2 * t))"
    by (metis floor_divide_of_nat_eq of_int_of_nat_eq)
  finally show ?thesis .
qed

lemma ceiling_div_1000: "nat \<lceil>real x / 1000\<rceil> = (x + 999) div 1000"
proof -
  have "\<lceil>real x / 1000\<rceil> = int ((x + 999) div 1000)"
  proof (rule ceiling_unique)
    have "x \<le> (x + 999) div 1000 * 1000" by linarith
    then show "real x / 1000 \<le> real_of_int (int ((x + 999) div 1000))"
      by (simp add: field_simps)
    have "(x + 999) div 1000 * 1000 < x + 1000" by linarith
    then show "real_of_int (int ((x + 999) div 1000)) - 1 < real x / 1000"
      by (simp add: field_simps)
  qed
  then show ?thesis by simp
qed

lemma calculateProgress_nat_div:
  "0 < t \<Longrightarrow> calculateProgress c t = int ((200 * c + t) div (2 * t))"
  using js_round_nat_div [of t c] by (simp add: calculateProgress_def)

lemma calculateProgress_bounds:
  assumes "c \<le> t"
  shows "0 \<le> calculateProgress c t \<and> calculateProgress c t \<le> 100"
proof (cases "t = 0")
  case False
  then have "200 * c + t < 101 * (2 * t)" using assms by linarith
  then have "(200 * c + t) div (2 * t) < 101" by (simp add: less_mult_imp_div_less)
  with False show ?thesis by (simp add: calculateProgress_nat_div)
qed (simp add: calculateProgress_def)

lemma calculateProgress_full [simp]: "0 < t \<Longrightarrow> calculateProgress t t = 100"
  by (simp add: calculateProgress_def js_round_def)

lemma calculateProgress_zero [simp]: "calculateProgress 0 t = 0"
  by (simp add: calculateProgress_def js_round_def)

lemma calculateAccountStats_fields [simp]:
  "total (calculateAccountStats accs) = length accs"
  "validated (calculateAccountStats accs) = length (filter isValidated accs)"
  "processing (calculateAccountStats accs) = length (filter (\<lambda>acc. status acc = Processing) accs)"
  "success (calculateAccountStats accs) = length (filter (\<lambda>acc. status acc = Success) accs)"
  "error (calculateAccountStats accs) = length (filter (\<lambda>acc. status acc = Error) accs)"
  "remaining (calculateAccountStats accs) = length (filter (\<lambda>acc. isValidated acc \<and>
      status acc \<notin> set [Success, Error, Processing]) accs)"
  by (simp_all add: calculateAccountStats_def Let_def)

lemma fold_group_append:
  "fold (\<lambda>acc groups. groups(status acc := groups (status acc) @ [acc])) accs g s =
   g s @ filter (\<lambda>acc. status acc = s) accs"
  by (induction accs arbitrary: g) auto

subsection \<open>Properties of the views\<close>

text \<open>
  The counts of \<^verbatim>\<open>calculateAccountStats\<close> are consistent: the accounts still to
  redeem are among the validated ones (the count \<^verbatim>\<open>getEligibleAccountsCount\<close>
  reports), which are among all; processing, success and error are disjoint; and the
  validation rate is a percentage.
\<close>

theorem calculateAccountStats_bounds:
  "remaining (calculateAccountStats accs) \<le> getEligibleAccountsCount accs \<and>
   getEligibleAccountsCount accs = validated (calculateAccountStats accs) \<and>
   validated (calculateAccountStats accs) \<le> total (calculateAccountStats accs) \<and>
   processing (calculateAccountStats accs) + success (calculateAccountStats accs) +
     error (calculateAccountStats accs) \<le> total (calculateAccountStats accs) \<and>
   0 \<le> validationRate (calculateAccountStats accs) \<and>
   validationRate (calculateAccountStats accs) \<le> 100"
proof -
  have rem: "remaining (calculateAccountStats accs) \<le> getEligibleAccountsCount accs"
    unfolding calculateAccountStats_fields getEligibleAccountsCount_def
    by (rule length_filter_mono_pred) simp
  have "length (filter (\<lambda>acc. status acc = Processing) accs) +
      length (filter (\<lambda>acc. status acc = Success) accs) \<le>
      length (filter (\<lambda>acc. status acc = Processing \<or> status acc = Success) accs)"
    by (induction accs) auto
  moreover have "length (filter (\<lambda>acc. status acc = Processing \<or> status acc = Success) accs) +
      length (filter (\<lambda>acc. status acc = Error) accs) \<le> length accs"
    by (rule filter_length_le_add) auto
  ultimately have disj: "processing (calculateAccountStats accs) + success (calculateAccountStats accs) +
     error (calculateAccountStats accs) \<le> total (calculateAccountStats accs)"
    by simp
  have le: "length (filter isValidated accs) \<le> length accs" by (rule length_filter_le)
  have rate: "0 \<le> validationRate (calculateAccountStats accs) \<and>
      validationRate (calculateAccountStats accs) \<le> 100"
  proof (cases "accs = []")
    case False
    with le show ?thesis
      by (simp add: calculateAccountStats_def Let_def divide_le_eq)
  qed (simp add: calculateAccountStats_def)
  from rem disj rate le show ?thesis by (simp add: getEligibleAccountsCount_def)
qed

text \<open>
  Grouping by status is the partition by status: the group of each status holds
  exactly the accounts of that status, in list order.
\<close>

theorem groupAccountsByStatus_eq_filter:
  "groupAccountsByStatus accs s = filter (\<lambda>acc. status acc = s) accs"
  by (simp add: groupAccountsByStatus_def fold_group_append)

text \<open>
  "All accounts processed" and "an operation is active" are exact opposites: the
  three resting statuses and the two in-flight statuses cover all five.
\<close>

theorem areAllAccountsProcessed_iff:
  "areAllAccountsProcessed accs \<longleftrightarrow> \<not> hasActiveOperations accs"
proof -
  have "\<And>st :: account_status. (st = Success \<or> st = Error \<or> st = Idle) \<longleftrightarrow>
           \<not> (st = Processing \<or> st = Validating)"
    by (case_tac st) auto
  then show ?thesis
    by (simp add: areAllAccountsProcessed_def hasActiveOperations_def list_all_iff list_ex_iff)
qed

text \<open>
  C20: The progress percentage the statistics panel shows is always between 0 and 100,
  with or without the hook's remaining counter.
\<close>

theorem status_display_progress_bounds:
  "0 \<le> processedProgress (status_display accs r) \<and> processedProgress (status_display accs r) \<le> 100"
proof -
  have "length (filter (\<lambda>acc. status acc = Success) accs) +
        length (filter (\<lambda>acc. status acc = Error) accs) \<le> length accs"
    by (rule filter_length_le_add) auto
  then show ?thesis
    by (cases r) (auto simp add: status_display_def Let_def intro!: calculateProgress_bounds)
qed

text \<open>
  The time estimate reads back as the total time rounded up to whole seconds, and
  its text is well formed: seconds below 60, no "0 minutes", no "0 seconds" after minutes.
\<close>

theorem estimateProcessingTime_reads_back:
  "estimate_seconds (estimateProcessingTime n ms) = (n * ms + 999) div 1000 \<and>
   estimate_wellformed (estimateProcessingTime n ms)"
  by (auto simp add: estimateProcessingTime_def Let_def ceiling_div_1000)

end
