(* ===== verification/StatusView.thy ===== *)
theory StatusView
  imports Stats NumberText
begin

text \<open>
  The presentation maps of \<^verbatim>\<open>src/src/utils/statusUtils.ts\<close>: the icon and the colour
  classes of an account status and of a statistics card, and the status icon of a list
  row in \<^verbatim>\<open>src/src/components/AccountManager.tsx\<close> with its spinning animation. Icons
  are the \<^verbatim>\<open>lucide-react\<close> components the code returns, as constructors. Then the
  percentages of \<^verbatim>\<open>src/src/utils/statsUtils.ts\<close> as text and the statistics panel
  \<^verbatim>\<open>src/src/components/StatusStats.tsx\<close> as the cards, bar and summary it renders.
\<close>

datatype icon = Loader2 | CheckCircle2 | XCircle | Clock | User | Gift | AlertCircle

fun getStatusIcon :: "account_status \<Rightarrow> icon" where
  "getStatusIcon Validating = Loader2"
| "getStatusIcon Processing = Loader2"
| "getStatusIcon Success = CheckCircle2"
| "getStatusIcon Error = XCircle"
| "getStatusIcon Idle = Clock"

fun getStatusColor :: "account_status \<Rightarrow> string" where
  "getStatusColor Validating = ''text-blue-400''"
| "getStatusColor Processing = ''text-orange-400''"
| "getStatusColor Success = ''text-green-400''"
| "getStatusColor Error = ''text-red-400''"
| "getStatusColor Idle = ''text-gray-400''"

fun getStatusBgColor :: "account_status \<Rightarrow> string" where
  "getStatusBgColor Validating = ''border-blue-400/30 bg-blue-400/5''"
| "getStatusBgColor Processing = ''border-orange-400/30 bg-orange-400/5''"
| "getStatusBgColor Success = ''border-green-400/30 bg-green-400/5''"
| "getStatusBgColor Error = ''border-red-400/30 bg-red-400/5''"
| "getStatusBgColor Idle = ''border-gray-600/30 bg-gray-600/5''"

text \<open>
  \<^verbatim>\<open>getStatusDescription\<close>: the Chinese label of a status, as its UTF-8 bytes
  ("\<open>validating\<close>", "\<open>processing\<close>", "success", "error", "pending").
\<close>

fun getStatusDescription :: "account_status \<Rightarrow> string" where
  "getStatusDescription Validating = [CHR 0xE9, CHR 0xA9, CHR 0x97, CHR 0xE8, CHR 0xAD, CHR 0x89, CHR 0xE4, CHR 0xB8, CHR 0xAD]"
| "getStatusDescription Processing = [CHR 0xE8, CHR 0x99, CHR 0x95, CHR 0xE7, CHR 0x90, CHR 0x86, CHR 0xE4, CHR 0xB8, CHR 0xAD]"
| "getStatusDescription Success = [CHR 0xE6, CHR 0x88, CHR 0x90, CHR 0xE5, CHR 0x8A, CHR 0x9F]"
| "getStatusDescription Error = [CHR 0xE9, CHR 0x8C, CHR 0xAF, CHR 0xE8, CHR 0xAA, CHR 0xA4]"
| "getStatusDescription Idle = [CHR 0xE5, CHR 0xBE, CHR 0x85, CHR 0xE8, CHR 0x99, CHR 0x95, CHR 0xE7, CHR 0x90, CHR 0x86]"

text \<open>The statistics cards are keyed by a string; any other key takes the default branch.\<close>

definition getStatsIcon :: "string \<Rightarrow> icon" where
  "getStatsIcon t =
     (if t = ''total'' then User else if t = ''validated'' then CheckCircle2
      else if t = ''processing'' then Loader2 else if t = ''success'' then Gift
      else if t = ''error'' then AlertCircle else Clock)"

definition getStatsColor :: "string \<Rightarrow> string" where
  "getStatsColor t =
     (if t = ''total'' then ''text-blue-600'' else if t = ''validated'' then ''text-green-600''
      else if t = ''processing'' then ''text-orange-600'' else if t = ''success'' then ''text-emerald-600''
      else if t = ''error'' then ''text-red-600'' else ''text-gray-600'')"

definition getStatsBgColor :: "string \<Rightarrow> string" where
  "getStatsBgColor t =
     (if t = ''total'' then ''bg-blue-50'' else if t = ''validated'' then ''bg-green-50''
      else if t = ''processing'' then ''bg-orange-50'' else if t = ''success'' then ''bg-emerald-50''
      else if t = ''error'' then ''bg-red-50'' else ''bg-gray-50'')"

text \<open>\<^verbatim>\<open>getAccountStatusIcon\<close>: the icon, its colour, and whether it spins.\<close>

definition getAccountStatusIcon :: "account_status \<Rightarrow> icon \<times> string \<times> bool" where
  "getAccountStatusIcon st =
     (getStatusIcon st, getStatusColor st, st = Processing \<or> st = Validating)"

subsection \<open>Percentages as text (\<^verbatim>\<open>formatPercentage\<close>)\<close>

text \<open>\<^verbatim>\<open>toFixed\<close> is \<open>js_toFixed\<close> of \<open>NumberText\<close>.\<close>

definition formatPercentage :: "real \<Rightarrow> nat \<Rightarrow> string" where
  "formatPercentage value decimals = js_toFixed value decimals @ ''%''"

subsection \<open>The statistics panel (\<^verbatim>\<open>StatusStats.tsx\<close>)\<close>

text \<open>
  A card (\<^verbatim>\<open>StatCard\<close>, lines 24--46): its key, the number in the key's colour, and the
  key's icon, or a spinner (\<open>None\<close>) when animated.
\<close>

record stat_card =
  card_type :: string
  card_value :: nat
  card_color :: string
  card_icon :: "icon option"

definition StatCard :: "string \<Rightarrow> nat \<Rightarrow> bool \<Rightarrow> stat_card" where
  "StatCard t v isAnimated =
     \<lparr>card_type = t, card_value = v, card_color = getStatsColor t,
      card_icon = (if isAnimated then None else Some (getStatsIcon t))\<rparr>"

text \<open>
  The panel (lines 48--151): a hint when the list is empty; otherwise the four cards, the
  progress bar (its width and its text) when anything is processing or done, and the
  summary (total, validation rate, and the success rate when some account is validated),
  the rates as \<^verbatim>\<open>formatPercentage\<close> writes them.
\<close>

record stats_summary =
  summary_total :: nat
  summary_validationRate :: string
  summary_successRate :: "string option"

datatype stats_panel =
    StatsHint
  | StatsContent "stat_card list" "(int \<times> string) option" stats_summary

definition StatusStats_view :: "account list \<Rightarrow> nat option \<Rightarrow> stats_panel" where
  "StatusStats_view accs remainingProp =
     (let stats = calculateAccountStats accs; d = status_display accs remainingProp in
      if total stats = 0 then StatsHint
      else StatsContent
        [StatCard ''validated'' (validated stats) False,
         StatCard ''processing'' (processingDisplay d) (processingDisplay d > 0),
         StatCard ''success'' (success stats) False,
         StatCard ''error'' (error stats) False]
        (if showProgressBar d
         then Some (processedProgress d, formatPercentage (of_int (processedProgress d)) 0) else None)
        \<lparr>summary_total = total stats, summary_validationRate = formatPercentage (validationRate stats) 1,
         summary_successRate =
           (if validated stats > 0 then Some (formatPercentage (successRate stats) 1) else None)\<rparr>)"

lemma spinner_iff_active:
  "snd (snd (getAccountStatusIcon (status a))) \<longleftrightarrow> hasActiveOperations [a]"
  "fst (getAccountStatusIcon st) = Loader2 \<longleftrightarrow> snd (snd (getAccountStatusIcon st))"
  by (simp add: getAccountStatusIcon_def hasActiveOperations_def) (cases st; simp add: getAccountStatusIcon_def)

lemma getStatusDescription_inj: "inj getStatusDescription"
proof (rule injI)
  fix s t :: account_status assume "getStatusDescription s = getStatusDescription t"
  then show "s = t" by (cases s; cases t) simp_all
qed

lemma getStatusColor_inj: "inj getStatusColor"
proof (rule injI)
  fix s t :: account_status assume "getStatusColor s = getStatusColor t"
  then show "s = t" by (cases s; cases t) simp_all
qed

lemma formatPercentage_int:
  "0 \<le> p \<Longrightarrow> formatPercentage (of_int p) 0 = js_int_string p @ ''%''"
proof -
  assume p: "0 \<le> p"
  have "floor (of_int p + 1 / 2 :: real) = p" by linarith
  moreover have "length (digits (nat p)) \<ge> 1"
    using digits_nonempty [of "nat p"] by (cases "digits (nat p)") (auto simp del: digits.simps)
  ultimately show ?thesis
    using p by (simp add: formatPercentage_def js_toFixed_def fixed_digits_def js_int_string_def
                del: digits.simps)
qed

text \<open>Two thirds shows as 66.7\<open>%\<close>, a tie rounds up, zero keeps its decimal.\<close>

lemma formatPercentage_examples:
  "formatPercentage (200 / 3) 1 = ''66.7%'' \<and> formatPercentage 12.5 0 = ''13%'' \<and>
   formatPercentage 0 1 = ''0.0%''"
  by (simp add: formatPercentage_def js_toFixed_def fixed_digits_def floor_eq_iff char_of_def bit_iff_odd)

end
