(* ===== verification/Persistence.thy ===== *)
theory Persistence
  imports Registry
begin

text \<open>
  Persistence of the registry: the account helpers of \<^verbatim>\<open>src/src/utils/storageUtils.ts\<close>
  over the browser's \<^verbatim>\<open>localStorage\<close>, and the two effects of \<^verbatim>\<open>src/src/App.tsx\<close> that
  load the list once at start-up and save a sanitised copy after every change. The store
  maps keys to what \<^verbatim>\<open>JSON.parse\<close> gives back: a list of accounts, or text that does not
  parse. \<^verbatim>\<open>JSON.stringify\<close> followed by \<^verbatim>\<open>JSON.parse\<close> is the identity on these plain
  records (an absent optional field stays absent); a write may fail (quota, private mode),
  which the helpers catch and log, so a failed write leaves the store unchanged.
\<close>

datatype stored = JsonAccounts "account list" | Unparseable

type_synonym local_storage = "string \<Rightarrow> stored option"

definition STORAGE_KEY_ACCOUNTS :: string where
  "STORAGE_KEY_ACCOUNTS = ''kingshot-gift-code-accounts''"

subsection \<open>The generic helpers (\<^verbatim>\<open>storage\<close>)\<close>

definition storage_set :: "string \<Rightarrow> account list \<Rightarrow> bool \<Rightarrow> local_storage \<Rightarrow> local_storage" where
  "storage_set key value write_ok ls = (if write_ok then ls(key \<mapsto> JsonAccounts value) else ls)"

definition storage_get :: "string \<Rightarrow> account list \<Rightarrow> local_storage \<Rightarrow> account list" where
  "storage_get key defaultValue ls =
     (case ls key of
        None \<Rightarrow> defaultValue
      | Some Unparseable \<Rightarrow> defaultValue
      | Some (JsonAccounts d) \<Rightarrow> d)"

definition storage_remove :: "string \<Rightarrow> local_storage \<Rightarrow> local_storage" where
  "storage_remove key ls = ls(key := None)"

text \<open>\<^verbatim>\<open>storage.clear\<close>: every key is removed, unless the call fails.\<close>

definition storage_clear :: "bool \<Rightarrow> local_storage \<Rightarrow> local_storage" where
  "storage_clear ok ls = (if ok then (\<lambda>_. None) else ls)"

text \<open>
  \<^verbatim>\<open>storage.isAvailable\<close>: a test item (text that is not JSON) is written and removed
  again; the answer is whether the write succeeded.
\<close>

definition storage_isAvailable :: "bool \<Rightarrow> local_storage \<Rightarrow> bool \<times> local_storage" where
  "storage_isAvailable write_ok ls =
     (if write_ok then (True, (ls(''__test__'' \<mapsto> Unparseable))(''__test__'' := None)) else (False, ls))"

subsection \<open>The account helpers (\<^verbatim>\<open>accountStorage\<close>)\<close>

definition saveAccounts :: "account list \<Rightarrow> bool \<Rightarrow> local_storage \<Rightarrow> local_storage" where
  "saveAccounts accs write_ok ls = storage_set STORAGE_KEY_ACCOUNTS accs write_ok ls"

definition loadAccounts :: "local_storage \<Rightarrow> account list" where
  "loadAccounts ls = storage_get STORAGE_KEY_ACCOUNTS [] ls"

definition clearAccounts :: "local_storage \<Rightarrow> local_storage" where
  "clearAccounts ls = storage_remove STORAGE_KEY_ACCOUNTS ls"

definition storage_addAccount :: "account \<Rightarrow> bool \<Rightarrow> local_storage \<Rightarrow> local_storage" where
  "storage_addAccount account write_ok ls =
     (let accs = loadAccounts ls in
      if list_ex (\<lambda>acc. accountNumber acc = accountNumber account) accs then ls
      else saveAccounts (accs @ [account]) write_ok ls)"

text \<open>\<^verbatim>\<open>Partial<Account>\<close>: each field present or absent; the spread overwrites the present ones.\<close>

record account_patch =
  patch_id :: "string option"
  patch_accountNumber :: "string option"
  patch_status :: "account_status option"
  patch_lastResult :: "message option option"
  patch_playerInfo :: "player_info option option"
  patch_isValidated :: "bool option"

definition apply_patch :: "account \<Rightarrow> account_patch \<Rightarrow> account" where
  "apply_patch a u =
     a\<lparr>account_id := case_option (account_id a) id (patch_id u),
       accountNumber := case_option (accountNumber a) id (patch_accountNumber u),
       status := case_option (status a) id (patch_status u),
       lastResult := case_option (lastResult a) id (patch_lastResult u),
       playerInfo := case_option (playerInfo a) id (patch_playerInfo u),
       isValidated := case_option (isValidated a) id (patch_isValidated u)\<rparr>"

text \<open>\<^verbatim>\<open>findIndex\<close>: the first account with the id; \<open>None\<close> is \<^verbatim>\<open>-1\<close>.\<close>

fun find_index :: "('a \<Rightarrow> bool) \<Rightarrow> 'a list \<Rightarrow> nat option" where
  "find_index P [] = None"
| "find_index P (x # xs) = (if P x then Some 0 else map_option Suc (find_index P xs))"

definition storage_updateAccount :: "string \<Rightarrow> account_patch \<Rightarrow> bool \<Rightarrow> local_storage \<Rightarrow> local_storage" where
  "storage_updateAccount accountId updates write_ok ls =
     (let accs = loadAccounts ls in
      case find_index (\<lambda>acc. account_id acc = accountId) accs of
        None \<Rightarrow> ls
      | Some index \<Rightarrow> saveAccounts (accs[index := apply_patch (accs ! index) updates]) write_ok ls)"

definition storage_deleteAccount :: "string \<Rightarrow> bool \<Rightarrow> local_storage \<Rightarrow> local_storage" where
  "storage_deleteAccount accountId write_ok ls =
     saveAccounts (filter (\<lambda>acc. account_id acc \<noteq> accountId) (loadAccounts ls)) write_ok ls"

subsection \<open>The delayed save helper (\<^verbatim>\<open>createAutoSave\<close>)\<close>

text \<open>
  \<^verbatim>\<open>createAutoSave(key, data, debounceMs = 1000)\<close> schedules \<^verbatim>\<open>storage.set(key, data)\<close>
  with \<^verbatim>\<open>setTimeout\<close> and returns a function that clears that timeout; the caller
  debounces by calling it before the next \<^verbatim>\<open>createAutoSave\<close>. The browser's timers are
  explicit: the clock, the pending timeouts by id in the order they were created, and the
  next id. A timeout fires once the clock reaches its due time; timeouts due together
  fire in creation order. (No caller in the application uses the helper.)
\<close>

record save_timeout =
  timeout_due :: nat
  timeout_key :: string
  timeout_data :: "account list"

record timer_env =
  clock :: nat
  pending_timeouts :: "(nat \<times> save_timeout) list"
  next_timeout :: nat
  local_store :: local_storage

text \<open>The result is the id of the timeout; the returned function is \<open>clearTimeout\<close> of it.\<close>

definition createAutoSave :: "string \<Rightarrow> account list \<Rightarrow> nat \<Rightarrow> timer_env \<Rightarrow> nat \<times> timer_env" where
  "createAutoSave key value debounceMs env =
     (let timeoutId = next_timeout env in
      (timeoutId,
       env\<lparr>pending_timeouts := pending_timeouts env @
             [(timeoutId, \<lparr>timeout_due = clock env + debounceMs, timeout_key = key, timeout_data = value\<rparr>)],
           next_timeout := Suc timeoutId\<rparr>))"

definition clearTimeout :: "nat \<Rightarrow> timer_env \<Rightarrow> timer_env" where
  "clearTimeout timeoutId env = env\<lparr>pending_timeouts := filter (\<lambda>(i, _). i \<noteq> timeoutId) (pending_timeouts env)\<rparr>"

text \<open>The clock runs to \<open>t\<close>; each due save runs \<^verbatim>\<open>storage.set\<close>, whose write succeeds when \<open>ok\<close>.\<close>

definition timers_advance :: "nat \<Rightarrow> bool \<Rightarrow> timer_env \<Rightarrow> timer_env" where
  "timers_advance t ok env =
     (let due = sort_key (\<lambda>(_, s). timeout_due s) (filter (\<lambda>(_, s). timeout_due s \<le> t) (pending_timeouts env)) in
      env\<lparr>clock := max t (clock env),
          pending_timeouts := filter (\<lambda>(_, s). \<not> timeout_due s \<le> t) (pending_timeouts env),
          local_store := fold (\<lambda>(_, s) ls. storage_set (timeout_key s) (timeout_data s) ok ls) due (local_store env)\<rparr>)"

subsection \<open>The application's persistence effects (\<^verbatim>\<open>App\<close>)\<close>

record app_state =
  isInitializing :: bool
  initStarted :: bool

definition initial_app :: app_state where
  "initial_app = \<lparr>isInitializing = True, initStarted = False\<rparr>"

text \<open>\<^verbatim>\<open>PersistedAccount\<close> (\<^verbatim>\<open>types/index.ts\<close>): status always idle, no result text.\<close>

definition persisted_account :: "account \<Rightarrow> bool" where
  "persisted_account a \<longleftrightarrow> status a = Idle \<and> lastResult a = None"

text \<open>The saved projection: status forced to idle, no result text.\<close>

definition sanitize :: "account list \<Rightarrow> account list" where
  "sanitize accs = map (\<lambda>a. a\<lparr>status := Idle, lastResult := None\<rparr>) accs"

text \<open>The start-up effect (lines 38--46): load once, adopt a non-empty saved list.\<close>

definition app_init :: "local_storage \<Rightarrow> app_state \<Rightarrow> world \<Rightarrow> app_state \<times> world" where
  "app_init ls st w =
     (if initStarted st then (st, w)
      else let savedAccounts = loadAccounts ls in
        (st\<lparr>initStarted := True, isInitializing := False\<rparr>,
         if savedAccounts \<noteq> [] then w\<lparr>accounts := savedAccounts\<rparr> else w))"

text \<open>The save effect (lines 49--59), run after every change of the list once initialised.\<close>

definition app_persist :: "app_state \<Rightarrow> world \<Rightarrow> bool \<Rightarrow> local_storage \<Rightarrow> local_storage" where
  "app_persist st w write_ok ls =
     (if isInitializing st then ls else saveAccounts (sanitize (accounts w)) write_ok ls)"

subsection \<open>The stored accounts as a map\<close>

text \<open>
  The abstract view of the store the helpers maintain: the stored accounts by id, a
  finite map in the sense of the map interface (lookup after update and delete).
\<close>

definition stored_by_id :: "local_storage \<Rightarrow> string \<Rightarrow> account option" where
  "stored_by_id ls = map_of (map (\<lambda>a. (account_id a, a)) (loadAccounts ls))"

subsection \<open>Reading back what was written\<close>

lemma loadAccounts_saveAccounts [simp]:
  "loadAccounts (saveAccounts accs write_ok ls) = (if write_ok then accs else loadAccounts ls)"
  by (simp add: loadAccounts_def saveAccounts_def storage_set_def storage_get_def)

lemma find_index_Some: "find_index P xs = Some i \<Longrightarrow> i < length xs \<and> P (xs ! i)"
  by (induction P xs arbitrary: i rule: find_index.induct) (auto split: if_splits)

lemma apply_patch_keys:
  "patch_id u = None \<Longrightarrow> patch_accountNumber u = None \<Longrightarrow>
   account_id (apply_patch a u) = account_id a \<and> accountNumber (apply_patch a u) = accountNumber a"
  by (simp add: apply_patch_def)

lemma sanitize_keys [simp]:
  "map (\<lambda>a. (account_id a, accountNumber a, playerInfo a, isValidated a)) (sanitize accs) =
   map (\<lambda>a. (account_id a, accountNumber a, playerInfo a, isValidated a)) accs"
  "map account_id (sanitize accs) = map account_id accs"
  "map accountNumber (sanitize accs) = map accountNumber accs"
  by (simp_all add: sanitize_def)

lemma sanitize_persisted: "list_all persisted_account (sanitize accs)"
  by (simp add: sanitize_def persisted_account_def list_all_iff)

lemma storage_isAvailable_keeps:
  "STORAGE_KEY_ACCOUNTS \<noteq> ''__test__'' \<and>
   loadAccounts (snd (storage_isAvailable ok ls)) = loadAccounts ls"
  by (simp add: storage_isAvailable_def loadAccounts_def storage_get_def STORAGE_KEY_ACCOUNTS_def)

lemma loadAccounts_clear: "loadAccounts (storage_clear True ls) = [] \<and> loadAccounts (clearAccounts ls) = []"
  by (simp add: storage_clear_def loadAccounts_def storage_get_def clearAccounts_def storage_remove_def)

lemma wf_sanitize: "wf_accounts accs \<Longrightarrow> wf_accounts (sanitize accs)"
  by (simp only: wf_accounts_def sanitize_keys) (simp add: sanitize_def list_all_iff)

lemma map_of_filter_key:
  "map_of (map (\<lambda>a. (k a, a)) (filter (\<lambda>a. k a \<noteq> x) xs)) = (map_of (map (\<lambda>a. (k a, a)) xs))(x := None)"
  by (induction xs) (auto simp add: fun_upd_twist)

lemma map_of_update_key:
  assumes "distinct (map k xs)" and "i < length xs" and "k y = k (xs ! i)"
  shows "map_of (map (\<lambda>a. (k a, a)) (xs[i := y])) = (map_of (map (\<lambda>a. (k a, a)) xs))(k (xs ! i) \<mapsto> y)"
  using assms
proof (induction xs arbitrary: i)
  case (Cons x xs)
  show ?case
  proof (cases i)
    case 0
    with Cons.prems show ?thesis by (simp add: fun_eq_iff)
  next
    case (Suc j)
    with Cons.prems have j: "j < length xs" and notin: "k x \<notin> k ` set xs" by auto
    from j have "xs ! j \<in> set xs" by (rule nth_mem)
    with notin have "k (xs ! j) \<noteq> k x" by (metis image_eqI)
    with Cons.IH [of j] Cons.prems Suc show ?thesis by (auto simp add: fun_upd_twist)
  qed
qed simp

lemma map_of_key_nth:
  "distinct (map k xs) \<Longrightarrow> i < length xs \<Longrightarrow> map_of (map (\<lambda>a. (k a, a)) xs) (k (xs ! i)) = Some (xs ! i)"
  by (induction xs arbitrary: i) (auto simp add: nth_Cons split: nat.splits, metis image_eqI nth_mem)

lemma find_index_None: "find_index P xs = None \<Longrightarrow> \<not> list_ex P xs"
  by (induction xs) (auto split: if_splits)

subsection \<open>Properties of persistence\<close>

text \<open>
  C26: After the save effect has stored a non-empty registry, a fresh start of the
  application loads exactly its sanitised copy: every account idle with no result text,
  ids, numbers, profiles and validation flags as they were, and a well-formed registry
  stays well formed.
\<close>

theorem persist_reload_roundtrip:
  assumes "\<not> isInitializing st" and "accounts w \<noteq> []"
    and "app_init (app_persist st w True ls) initial_app w0 = (st', w')"
  shows "accounts w' = sanitize (accounts w) \<and>
         list_all (\<lambda>a. status a = Idle \<and> lastResult a = None) (accounts w') \<and>
         map (\<lambda>a. (account_id a, accountNumber a, playerInfo a, isValidated a)) (accounts w') =
           map (\<lambda>a. (account_id a, accountNumber a, playerInfo a, isValidated a)) (accounts w) \<and>
         (wf_accounts (accounts w) \<longrightarrow> wf_accounts (accounts w')) \<and> \<not> isInitializing st'"
proof -
  have "sanitize (accounts w) \<noteq> []" using assms(2) by (simp add: sanitize_def)
  then have w': "accounts w' = sanitize (accounts w)" and st': "\<not> isInitializing st'"
    using assms by (auto simp add: app_init_def app_persist_def initial_app_def Let_def)
  have "list_all (\<lambda>a. status a = Idle \<and> lastResult a = None) (sanitize (accounts w))"
    by (simp add: sanitize_def list_all_iff)
  with w' st' show ?thesis by (simp add: wf_sanitize)
qed

text \<open>
  The single-account storage helpers keep stored account numbers unique: adding
  skips a number already stored, deleting removes exactly the accounts with that id, and
  updating an account with a patch that changes neither id nor number keeps the stored
  ids and numbers.
\<close>

theorem storage_ops_keep_numbers_distinct:
  assumes "distinct (map accountNumber (loadAccounts ls))"
    and "patch_id u = None" and "patch_accountNumber u = None"
  shows "distinct (map accountNumber (loadAccounts (storage_addAccount a ok ls))) \<and>
         distinct (map accountNumber (loadAccounts (storage_deleteAccount aid ok ls))) \<and>
         set (map account_id (loadAccounts (storage_deleteAccount aid True ls))) =
           set (map account_id (loadAccounts ls)) - {aid} \<and>
         map (\<lambda>a. (account_id a, accountNumber a)) (loadAccounts (storage_updateAccount aid u ok ls)) =
           map (\<lambda>a. (account_id a, accountNumber a)) (loadAccounts ls)"
proof (intro conjI)
  show "distinct (map accountNumber (loadAccounts (storage_addAccount a ok ls)))"
    using assms(1) by (auto simp add: storage_addAccount_def Let_def list_ex_iff)
  show "distinct (map accountNumber (loadAccounts (storage_deleteAccount aid ok ls)))"
    using assms(1) by (simp add: storage_deleteAccount_def)
  show "set (map account_id (loadAccounts (storage_deleteAccount aid True ls))) =
        set (map account_id (loadAccounts ls)) - {aid}"
    by (auto simp add: storage_deleteAccount_def)
  show "map (\<lambda>a. (account_id a, accountNumber a)) (loadAccounts (storage_updateAccount aid u ok ls)) =
        map (\<lambda>a. (account_id a, accountNumber a)) (loadAccounts ls)"
  proof (cases "find_index (\<lambda>acc. account_id acc = aid) (loadAccounts ls)")
    case (Some i)
    let ?g = "\<lambda>a. (account_id a, accountNumber a)"
    let ?xs = "loadAccounts ls"
    have "i < length ?xs" using Some by (auto dest: find_index_Some)
    then have "?g (apply_patch (?xs ! i) u) = map ?g ?xs ! i"
      using apply_patch_keys [OF assms(2,3)] by simp
    then have "(map ?g ?xs)[i := ?g (apply_patch (?xs ! i) u)] = map ?g ?xs"
      by (simp only: list_update_id)
    with Some show ?thesis
      by (cases ok) (simp_all add: storage_updateAccount_def Let_def map_update)
  qed (simp add: storage_updateAccount_def)
qed

text \<open>
  C21: The storage helpers implement a map from ids to accounts: deleting removes the
  id, updating with a patch that keeps the id patches exactly the account with that id
  (nothing when there is none), and adding an account with a new id stores it unless its
  number is already stored.
\<close>

theorem storage_refines_map:
  assumes "distinct (map account_id (loadAccounts ls))" and "patch_id u = None"
  shows "stored_by_id (storage_deleteAccount aid True ls) = (stored_by_id ls)(aid := None) \<and>
         stored_by_id (storage_updateAccount aid u True ls) =
           (stored_by_id ls)(aid := map_option (\<lambda>a. apply_patch a u) (stored_by_id ls aid)) \<and>
         (stored_by_id ls (account_id a) = None \<longrightarrow>
            stored_by_id (storage_addAccount a True ls) =
              (if list_ex (\<lambda>acc. accountNumber acc = accountNumber a) (loadAccounts ls) then stored_by_id ls
               else (stored_by_id ls)(account_id a \<mapsto> a)))"
proof (intro conjI impI)
  let ?xs = "loadAccounts ls"
  show "stored_by_id (storage_deleteAccount aid True ls) = (stored_by_id ls)(aid := None)"
    by (simp add: stored_by_id_def storage_deleteAccount_def map_of_filter_key)
  show "stored_by_id (storage_updateAccount aid u True ls) =
           (stored_by_id ls)(aid := map_option (\<lambda>a. apply_patch a u) (stored_by_id ls aid))"
  proof (cases "find_index (\<lambda>acc. account_id acc = aid) ?xs")
    case None
    then have "stored_by_id ls aid = None"
      by (auto dest!: find_index_None simp add: stored_by_id_def map_of_eq_None_iff list_ex_iff)
    with None show ?thesis by (simp add: storage_updateAccount_def fun_upd_idem)
  next
    case (Some i)
    then have i: "i < length ?xs" and key: "account_id (?xs ! i) = aid" by (auto dest: find_index_Some)
    have "account_id (apply_patch (?xs ! i) u) = account_id (?xs ! i)"
      using assms(2) by (simp add: apply_patch_def)
    with assms(1) i have "map_of (map (\<lambda>a. (account_id a, a)) (?xs[i := apply_patch (?xs ! i) u])) =
        (map_of (map (\<lambda>a. (account_id a, a)) ?xs))(account_id (?xs ! i) \<mapsto> apply_patch (?xs ! i) u)"
      by (rule map_of_update_key)
    moreover have "stored_by_id ls aid = Some (?xs ! i)"
      using map_of_key_nth [OF assms(1) i] key by (simp add: stored_by_id_def)
    ultimately show ?thesis using Some key by (simp add: storage_updateAccount_def stored_by_id_def Let_def)
  qed
  assume fresh: "stored_by_id ls (account_id a) = None"
  show "stored_by_id (storage_addAccount a True ls) =
          (if list_ex (\<lambda>acc. accountNumber acc = accountNumber a) ?xs then stored_by_id ls
           else (stored_by_id ls)(account_id a \<mapsto> a))"
    using fresh by (auto simp add: storage_addAccount_def stored_by_id_def map_add_def fun_eq_iff
        split: option.splits)
qed

subsection \<open>The delayed save\<close>

lemma createAutoSave_fresh:
  "createAutoSave key value ms env = (tid, env') \<Longrightarrow>
     tid = next_timeout env \<and> clock env' = clock env \<and> local_store env' = local_store env \<and>
     pending_timeouts env' = pending_timeouts env @
       [(tid, \<lparr>timeout_due = clock env + ms, timeout_key = key, timeout_data = value\<rparr>)]"
  by (auto simp add: createAutoSave_def Let_def)

text \<open>
  C37: The debounce the helper serves: from no pending save, a save scheduled and cleared
  again before the clock reaches it never writes, and of two saves of the same key,
  the first cleared by the caller before the second is scheduled, only the second
  writes, once its delay is over.
\<close>

theorem createAutoSave_debounce:
  assumes "pending_timeouts env = []" and "next_timeout env = n"
    and "createAutoSave key d1 ms env = (tid1, env1)"
    and "createAutoSave key d2 ms (clearTimeout tid1 env1) = (tid2, env2)"
  shows "local_store (timers_advance t ok (clearTimeout tid1 env1)) = local_store env \<and>
         (t < clock env + ms \<longrightarrow> local_store (timers_advance t ok env2) = local_store env) \<and>
         (clock env + ms \<le> t \<longrightarrow>
            local_store (timers_advance t ok env2) = storage_set key d2 ok (local_store env))"
proof -
  have e1: "pending_timeouts env1 = [(tid1, \<lparr>timeout_due = clock env + ms, timeout_key = key, timeout_data = d1\<rparr>)]"
    "clock env1 = clock env" "local_store env1 = local_store env" "tid1 = n" "next_timeout env1 = Suc n"
    using createAutoSave_fresh [OF assms(3)] assms(1,2) assms(3) by (auto simp add: createAutoSave_def Let_def)
  then have c: "pending_timeouts (clearTimeout tid1 env1) = []"
    by (simp add: clearTimeout_def)
  have e2: "pending_timeouts env2 = [(tid2, \<lparr>timeout_due = clock env + ms, timeout_key = key, timeout_data = d2\<rparr>)]"
    "local_store env2 = local_store env"
    using createAutoSave_fresh [OF assms(4)] c e1 by (simp_all add: clearTimeout_def)
  show ?thesis
    using c e1 e2 by (simp add: timers_advance_def clearTimeout_def)
qed

end
