(* ===== verification/Notifications.thy ===== *)
theory Notifications
  imports Model
begin

text \<open>
  The notification hook \<^verbatim>\<open>src/src/hooks/useAlert.ts\<close> on its own: one alert state,
  replaced by each \<^verbatim>\<open>showAlert\<close>, and a 3-second timer per call that hides whatever
  alert is showing when it fires. Time is explicit: \<open>now\<close> in milliseconds and the due
  times of the pending timers; \<open>advance_time\<close> lets the clock run and fires the due
  timers. Elsewhere the hook's notifications are the log \<open>alerts\<close> of the world.
\<close>

record alert_state =
  alert_message :: message
  alert_kind :: alert_type
  isVisible :: bool

record alert_hook =
  alert :: alert_state
  timers :: "nat list"
  now :: nat

definition initial_alert_hook :: alert_hook where
  "initial_alert_hook =
     \<lparr>alert = \<lparr>alert_message = MText [], alert_kind = AlertInfo, isVisible = False\<rparr>,
      timers = [], now = 0\<rparr>"

definition useAlert_showAlert :: "message \<Rightarrow> alert_type \<Rightarrow> alert_hook \<Rightarrow> alert_hook" where
  "useAlert_showAlert m ty h =
     h\<lparr>alert := \<lparr>alert_message = m, alert_kind = ty, isVisible = True\<rparr>,
       timers := timers h @ [now h + 3000]\<rparr>"

definition hideAlert :: "alert_hook \<Rightarrow> alert_hook" where
  "hideAlert h = h\<lparr>alert := (alert h)\<lparr>isVisible := False\<rparr>\<rparr>"

definition showSuccess :: "message \<Rightarrow> alert_hook \<Rightarrow> alert_hook" where
  "showSuccess m = useAlert_showAlert m AlertSuccess"

definition showError :: "message \<Rightarrow> alert_hook \<Rightarrow> alert_hook" where
  "showError m = useAlert_showAlert m AlertError"

definition showWarning :: "message \<Rightarrow> alert_hook \<Rightarrow> alert_hook" where
  "showWarning m = useAlert_showAlert m AlertWarning"

definition showInfo :: "message \<Rightarrow> alert_hook \<Rightarrow> alert_hook" where
  "showInfo m = useAlert_showAlert m AlertInfo"

text \<open>Each due timer runs \<^verbatim>\<open>setAlert(prev => ({ ...prev, isVisible: false }))\<close>.\<close>

definition advance_time :: "nat \<Rightarrow> alert_hook \<Rightarrow> alert_hook" where
  "advance_time t h =
     (let due = filter (\<lambda>d. d \<le> t) (timers h) in
      h\<lparr>now := max t (now h), timers := filter (\<lambda>d. \<not> d \<le> t) (timers h),
        alert := (if due \<noteq> [] then (alert h)\<lparr>isVisible := False\<rparr> else alert h)\<rparr>)"

lemma showAlert_visible_until_due:
  assumes "timers h = []" and "now h \<le> t" and "t < now h + 3000"
  shows "isVisible (alert (advance_time t (useAlert_showAlert m ty h))) \<and>
         alert_message (alert (advance_time t (useAlert_showAlert m ty h))) = m \<and>
         \<not> isVisible (alert (advance_time (now h + 3000) (useAlert_showAlert m ty h)))"
  using assms by (simp add: advance_time_def useAlert_showAlert_def)

end
