(* ===== verification/ManagerPanel.thy ===== *)
theory ManagerPanel
  imports AccountManager StatusView
begin

text \<open>
  The rendered account manager (\<^verbatim>\<open>src/src/components/AccountManager.tsx\<close>, lines
  243--524): what the panel shows for the current list and its own state, which controls
  are enabled, and what using each control does. The view abstracts the JSX to the
  information it displays (texts as messages, icons as constructors, colours as their
  class names); a control that is disabled or not rendered does nothing when used. The
  list shown is the current registry (the panel re-renders after every change), and the
  handlers are those of \<open>AccountManager\<close>. Images that fail to load (the \<^verbatim>\<open>onError\<close>
  fallbacks) and scrolling itself are the browser's.
\<close>

subsection \<open>A row of the list (lines 330--448)\<close>

datatype avatar = AvatarImage string | AvatarNumber nat

datatype castle_level = CastleImage string | CastleLevel int

datatype row_heading =
    ProfileHeading string string int castle_level  \<comment> \<open>nickname, number, kingdom, castle level\<close>
  | NumberHeading string

record row_view =
  row_bg :: string
  row_avatar :: avatar
  row_heading :: row_heading
  row_result :: "(message \<times> string) option"
  row_icon :: "icon \<times> string \<times> bool"
  row_delete_enabled :: bool

text \<open>
  \<^verbatim>\<open>account.lastResult && ...\<close> hides an empty text; \<^verbatim>\<open>avatar_image\<close> and
  \<^verbatim>\<open>stove_lv_content\<close> are shown as images when they are non-empty strings.
\<close>

definition account_row :: "nat \<Rightarrow> account \<Rightarrow> row_view" where
  "account_row index a =
     \<lparr>row_bg = getStatusBgColor (status a),
      row_avatar = (case playerInfo a of
                      Some p \<Rightarrow> if avatar_image p \<noteq> [] then AvatarImage (avatar_image p)
                                else AvatarNumber (index + 1)
                    | None \<Rightarrow> AvatarNumber (index + 1)),
      row_heading = (case playerInfo a of
                       Some p \<Rightarrow> ProfileHeading (nickname p) (accountNumber a) (kid p)
                                   (if stove_lv_content p \<noteq> [] then CastleImage (stove_lv_content p)
                                    else CastleLevel (stove_lv p))
                     | None \<Rightarrow> NumberHeading (accountNumber a)),
      row_result = (case lastResult a of
                      Some m \<Rightarrow> if m = MText [] then None else Some (m, getStatusColor (status a))
                    | None \<Rightarrow> None),
      row_icon = getAccountStatusIcon (status a),
      row_delete_enabled = \<not> (status a = Processing \<or> status a = Validating)\<rparr>"

subsection \<open>The panel (lines 275--524)\<close>

datatype list_view = EmptyList | Rows "row_view list"

datatype add_label = LabelImportProgress nat nat | LabelImporting | LabelAdd

datatype add_area =
    AddInput string bool    \<comment> \<open>the input's value, and whether confirm is disabled\<close>
  | AddButton bool add_label  \<comment> \<open>whether the button is disabled, and its label\<close>

record panel_view =
  view_count :: nat
  view_import_disabled :: bool
  view_export_disabled :: bool
  view_list :: list_view
  view_errors :: "message list"
  view_add :: add_area

definition add_area_of :: "manager_ui \<Rightarrow> add_area" where
  "add_area_of ui =
     (if isAdding ui then AddInput (newAccount ui) (js_trim (newAccount ui) = [])
      else AddButton (isImporting ui)
             (if isImporting ui
              then (if importTotal ui > 0 then LabelImportProgress (importRemaining ui) (importTotal ui)
                    else LabelImporting)
              else LabelAdd))"

definition manager_view :: "account list \<Rightarrow> manager_ui \<Rightarrow> panel_view" where
  "manager_view accs ui =
     \<lparr>view_count = length accs,
      view_import_disabled = isImporting ui,
      view_export_disabled = (accs = []),
      view_list = (if accs = [] then EmptyList
                   else Rows (map (\<lambda>(i, a). account_row i a) (enumerate 0 accs))),
      view_errors = importErrors ui,
      view_add = add_area_of ui\<rparr>"

text \<open>The scroll effect (lines 262--273): scroll when the list grew; remember its length.\<close>

definition list_scroll :: "nat \<Rightarrow> account list \<Rightarrow> bool \<times> nat" where
  "list_scroll prevCount accs = (length accs > prevCount, length accs)"

subsection \<open>Using the controls\<close>

datatype panel_event =
    ClickImport | ClickExport | ClickDelete nat | ClickCloseErrors
  | ClickAdd | TypeAccount string | PressKey key | ClickConfirm | ClickCancel

datatype panel_effect =
    NoEffect
  | StartAdd "(bool \<times> env \<times> world) outcome"  \<comment> \<open>an add the panel started and does not await\<close>
  | Download string
  | OpenFilePicker

definition add_effect :: "(bool \<times> env \<times> world) outcome option \<Rightarrow> panel_effect" where
  "add_effect r = (case r of None \<Rightarrow> NoEffect | Some x \<Rightarrow> StartAdd x)"

text \<open>
  \<^verbatim>\<open>onKeyPress\<close>: React dispatches a key press only for keys that produce a character and
  for Enter; Escape produces none, so it never reaches \<^verbatim>\<open>handleKeyPress\<close>.
\<close>

definition fires_keypress :: "key \<Rightarrow> bool" where
  "fires_keypress k = (k \<noteq> KeyEscape)"

text \<open>\<^verbatim>\<open>App.handleDeleteAccount\<close> (lines 65--67 of \<^verbatim>\<open>App.tsx\<close>): the hook's delete.\<close>

definition App_handleDeleteAccount :: "string \<Rightarrow> world \<Rightarrow> world" where
  "App_handleDeleteAccount aid w = deleteAccount aid w"

text \<open>
  One use of a control, on the list \<open>accs\<close> of the current render. \<open>tempId\<close> is the
  \<^verbatim>\<open>Date.now()\<close> id an add would take. \<^verbatim>\<open>\D\<close> removes every character but the ASCII
  digits from what is typed.
\<close>

definition panel_step ::
  "account list \<Rightarrow> string \<Rightarrow> env \<Rightarrow> panel_event \<Rightarrow> manager_ui \<Rightarrow> world \<Rightarrow>
   manager_ui \<times> world \<times> panel_effect" where
  "panel_step accs tempId e ev ui w =
     (case ev of
        ClickImport \<Rightarrow> (ui, w, if isImporting ui then NoEffect else OpenFilePicker)
      | ClickExport \<Rightarrow>
          (if accs = [] then (ui, w, NoEffect)
           else let (content, w') = handleExportAccounts accs w
                in (ui, w', case content of Some c \<Rightarrow> Download c | None \<Rightarrow> NoEffect))
      | ClickDelete i \<Rightarrow>
          (if i < length accs \<and> row_delete_enabled (account_row i (accs ! i))
           then (ui, App_handleDeleteAccount (account_id (accs ! i)) w, NoEffect)
           else (ui, w, NoEffect))
      | ClickCloseErrors \<Rightarrow> (if importErrors ui \<noteq> [] then ui\<lparr>importErrors := []\<rparr> else ui, w, NoEffect)
      | ClickAdd \<Rightarrow> (if \<not> isAdding ui \<and> \<not> isImporting ui then ui\<lparr>isAdding := True\<rparr> else ui, w, NoEffect)
      | TypeAccount v \<Rightarrow> (if isAdding ui then ui\<lparr>newAccount := filter is_digit v\<rparr> else ui, w, NoEffect)
      | PressKey k \<Rightarrow>
          (if isAdding ui \<and> fires_keypress k
           then let (ui', r) = handleKeyPress k accs tempId e ui w in (ui', w, add_effect r)
           else (ui, w, NoEffect))
      | ClickConfirm \<Rightarrow>
          (if isAdding ui \<and> js_trim (newAccount ui) \<noteq> []
           then let (ui', r) = handleAddAccount accs tempId e ui w in (ui', w, add_effect r)
           else (ui, w, NoEffect))
      | ClickCancel \<Rightarrow>
          (if isAdding ui then ui\<lparr>newAccount := [], isAdding := False\<rparr> else ui, w, NoEffect))"

text \<open>The panel's state when it mounts.\<close>

definition initial_manager_ui :: manager_ui where
  "initial_manager_ui =
     \<lparr>newAccount = [], isAdding = False, isImporting = False, importErrors = [],
      importTotal = 0, importRemaining = 0\<rparr>"

text \<open>
  The states the panel can reach: from its initial state, by any use of a control and by
  the end of any import (the file input's \<^verbatim>\<open>onChange\<close>).
\<close>

inductive panel_reach :: "manager_ui \<Rightarrow> bool" where
  panel_init: "panel_reach initial_manager_ui"
| panel_event: "panel_reach ui \<Longrightarrow> panel_reach (fst (panel_step accs tempId e ev ui w))"
| panel_import: "panel_reach ui \<Longrightarrow>
    handleFileChange fileOpt rd snapshot d tid e ui w = Returned (e', ui', w') \<Longrightarrow> panel_reach ui'"

subsection \<open>The typed number stays a run of digits\<close>

definition panel_wf :: "manager_ui \<Rightarrow> bool" where
  "panel_wf ui \<longleftrightarrow> list_all is_digit (newAccount ui) \<and> (\<not> isAdding ui \<longrightarrow> newAccount ui = [])"

lemma import_loop_input_frame:
  "import_loop snapshot d tid n i xs c e ui w = Returned (c', e', ui', w') \<Longrightarrow>
   newAccount ui' = newAccount ui \<and> isAdding ui' = isAdding ui"
proof (induction xs arbitrary: i c e ui w)
  case Nil
  then show ?case by simp
next
  case (Cons a rest)
  obtain s0 f0 where c: "c = (s0, f0)" by (cases c)
  from Cons.prems [unfolded c] show ?case
  proof (rule import_loop_ConsE)
    fix e1 w1 ok e2 w2
    assume "import_loop snapshot d tid n (Suc i) rest (if ok then (Suc s0, f0) else (s0, Suc f0)) e2
         ((if i = 0 then ui\<lparr>importTotal := n, importRemaining := n\<rparr> else ui)
            \<lparr>importRemaining := importRemaining (if i = 0 then ui\<lparr>importTotal := n, importRemaining := n\<rparr> else ui) - 1\<rparr>)
         w2 = Returned (c', e', ui', w')"
    from Cons.IH [OF this] show ?thesis by simp
  qed
qed

lemma handleFileChange_input_frame:
  assumes "handleFileChange fileOpt rd snapshot d tid e ui w = Returned (e', ui', w')"
  shows "newAccount ui' = newAccount ui \<and> isAdding ui' = isAdding ui"
  using assms
  by (auto simp add: handleFileChange_def import_reset_def import_finish_def Let_def
           split: option.splits if_splits sum.splits prod.splits outcome.splits
           dest!: import_loop_input_frame)

lemma handleAddAccount_ui:
  "fst (handleAddAccount accs tempId e ui w) = ui \<or>
   fst (handleAddAccount accs tempId e ui w) = ui\<lparr>newAccount := [], isAdding := False\<rparr>"
  by (simp add: handleAddAccount_def Let_def)

lemma handleKeyPress_ui:
  "fst (handleKeyPress k accs tempId e ui w) = ui \<or>
   fst (handleKeyPress k accs tempId e ui w) = ui\<lparr>newAccount := [], isAdding := False\<rparr>"
  using handleAddAccount_ui by (simp add: handleKeyPress_def split: key.splits)

lemma panel_wf_clear [simp]: "panel_wf (ui\<lparr>newAccount := [], isAdding := False\<rparr>)"
  by (simp add: panel_wf_def)

lemma panel_step_wf:
  assumes "panel_wf ui"
  shows "panel_wf (fst (panel_step accs tempId e ev ui w))"
proof (cases ev)
  case (PressKey k)
  then show ?thesis using assms handleKeyPress_ui [of k accs tempId e ui w]
    by (auto simp add: panel_step_def split: prod.splits)
next
  case ClickConfirm
  then show ?thesis using assms handleAddAccount_ui [of accs tempId e ui w]
    by (auto simp add: panel_step_def split: prod.splits)
qed (use assms in \<open>auto simp add: panel_wf_def panel_step_def Let_def list_all_iff split: prod.splits\<close>)

lemma panel_reach_wf: "panel_reach ui \<Longrightarrow> panel_wf ui"
proof (induction rule: panel_reach.induct)
  case panel_init
  then show ?case by (simp add: panel_wf_def initial_manager_ui_def)
next
  case (panel_event ui accs tempId e ev w)
  then show ?case by (simp add: panel_step_wf)
next
  case (panel_import ui fileOpt rd snapshot d tid e w e' ui' w')
  then show ?case using handleFileChange_input_frame [OF panel_import.hyps(2)]
    by (simp add: panel_wf_def)
qed

lemma digits_trim: "list_all is_digit s \<Longrightarrow> js_trim s = s"
  by (rule js_trim_id) (auto simp add: list_all_iff list_ex_iff is_digit_def js_whitespace_def)

lemma filter_id_nth:
  assumes "distinct (map account_id xs)" and "i < length xs"
  shows "filter (\<lambda>a. account_id a \<noteq> account_id (xs ! i)) xs = take i xs @ drop (Suc i) xs"
  using assms
proof (induction xs arbitrary: i)
  case Nil
  then show ?case by simp
next
  case (Cons x xs)
  show ?case
  proof (cases i)
    case 0
    have "\<forall>a\<in>set xs. account_id a \<noteq> account_id x" using Cons.prems by (auto simp add: image_iff)
    with 0 show ?thesis by (simp add: filter_True)
  next
    case (Suc j)
    with Cons.prems have "xs ! j \<in> set xs" and "account_id x \<notin> account_id ` set xs" by simp_all
    then have "account_id x \<noteq> account_id (xs ! j)" by (metis image_eqI)
    with Cons.IH [of j] Cons.prems Suc show ?thesis by simp
  qed
qed

subsection \<open>Properties of the panel\<close>

text \<open>
  C27: A type property of the panel: in every state it can reach, the number field holds
  only ASCII digits and is empty while closed; so whenever the confirm button is enabled,
  using it adds exactly the text shown, clears the field and closes it (the regular
  expression test of \<^verbatim>\<open>handleAddAccount\<close> never rejects there).
\<close>

theorem panel_input_digits:
  assumes "panel_reach ui"
  shows "list_all is_digit (newAccount ui) \<and> (\<not> isAdding ui \<longrightarrow> newAccount ui = []) \<and>
         (add_area_of ui = AddInput (newAccount ui) False \<longrightarrow>
            panel_step accs tempId e ClickConfirm ui w =
              (ui\<lparr>newAccount := [], isAdding := False\<rparr>, w,
               StartAdd (App_handleAddAccount accs (newAccount ui) False tempId e w)))"
proof -
  have wf: "panel_wf ui" using assms by (rule panel_reach_wf)
  then have digits: "list_all is_digit (newAccount ui)" and closed: "\<not> isAdding ui \<longrightarrow> newAccount ui = []"
    by (simp_all add: panel_wf_def)
  have "panel_step accs tempId e ClickConfirm ui w =
          (ui\<lparr>newAccount := [], isAdding := False\<rparr>, w,
           StartAdd (App_handleAddAccount accs (newAccount ui) False tempId e w))"
    if "add_area_of ui = AddInput (newAccount ui) False"
  proof -
    from that have "isAdding ui" and ne: "newAccount ui \<noteq> []"
      using digits_trim [OF digits] by (auto simp add: add_area_of_def split: if_splits)
    with digits show ?thesis
      by (simp add: panel_step_def handleAddAccount_def digits_trim add_effect_def)
  qed
  with digits closed show ?thesis by blast
qed

text \<open>
  C28: Deleting from the panel spares the accounts in flight: a click on a row's delete
  button removes exactly that row (ids are unique) and marks its id cancelled, unless the
  row is being processed or validated, in which case the button is disabled and nothing
  happens. No account in \<open>Processing\<close> or \<open>Validating\<close> is ever deleted from the panel.
\<close>

theorem panel_delete_spares_busy:
  assumes "panel_step (accounts w) tempId e (ClickDelete i) ui w = (ui', w', eff)"
    and "distinct (map account_id (accounts w))"
  shows "ui' = ui \<and> eff = NoEffect \<and>
         accounts w' = (if i < length (accounts w) \<and> status (accounts w ! i) \<notin> {Processing, Validating}
                        then take i (accounts w) @ drop (Suc i) (accounts w) else accounts w) \<and>
         (\<forall>a \<in> set (accounts w). status a \<in> {Processing, Validating} \<longrightarrow> a \<in> set (accounts w'))"
proof (cases "i < length (accounts w) \<and> status (accounts w ! i) \<notin> {Processing, Validating}")
  case True
  then have w': "ui' = ui \<and> eff = NoEffect \<and>
      accounts w' = filter (\<lambda>a. account_id a \<noteq> account_id (accounts w ! i)) (accounts w)"
    using assms(1) by (auto simp add: panel_step_def account_row_def App_handleDeleteAccount_def)
  have "\<forall>a \<in> set (accounts w). status a \<in> {Processing, Validating} \<longrightarrow> a \<in> set (accounts w')"
  proof (intro ballI impI)
    fix a assume a: "a \<in> set (accounts w)" and busy: "status a \<in> {Processing, Validating}"
    then have "a \<noteq> accounts w ! i" using True by auto
    with a True assms(2) have "account_id a \<noteq> account_id (accounts w ! i)"
      by (metis inj_on_eq_iff distinct_map nth_mem)
    with a w' show "a \<in> set (accounts w')" by simp
  qed
  with w' True show ?thesis using filter_id_nth [OF assms(2)] by simp
next
  case False
  with assms(1) show ?thesis by (auto simp add: panel_step_def account_row_def)
qed

text \<open>
  Escape in the number field: \<^verbatim>\<open>handleKeyPress\<close> would clear and close the field, but
  the key never reaches it, so the field stays open with its text.
\<close>

theorem escape_key_ignored:
  "fst (handleKeyPress KeyEscape accs tempId e ui w) = ui\<lparr>newAccount := [], isAdding := False\<rparr> \<and>
   panel_step accs tempId e (PressKey KeyEscape) ui w = (ui, w, NoEffect)"
  by (simp add: handleKeyPress_def panel_step_def fires_keypress_def)

end
