(* ===== verification/GiftCodeInput.thy ===== *)
theory GiftCodeInput
  imports Redemption FileUtils StatusView
begin

text \<open>
  The gift-code form (\<^verbatim>\<open>src/src/components/GiftCodeInput.tsx\<close>) and the way
  \<^verbatim>\<open>src/src/App.tsx\<close> wires it to the redemption round: the form's one state cell,
  its submit handler, the button's \<^verbatim>\<open>disabled\<close> test and label, and App's
  \<^verbatim>\<open>handleGiftCodeSubmit\<close>, with \<^verbatim>\<open>disabled = isProcessing\<close> and
  \<^verbatim>\<open>hasAccounts = accounts.length > 0\<close>. A submission is a click on the submit button or
  Enter in the field; both go through the form's default button, and the browser
  submits nothing while that button is disabled. The input is disabled with the form.
\<close>

record gift_form =
  giftCode :: string

definition initial_gift_form :: gift_form where
  "initial_gift_form = \<lparr>giftCode = []\<rparr>"

text \<open>\<^verbatim>\<open>disabled={!giftCode.trim() || disabled || !hasAccounts}\<close>.\<close>

definition gift_submit_disabled :: "bool \<Rightarrow> bool \<Rightarrow> gift_form \<Rightarrow> bool" where
  "gift_submit_disabled disabled hasAccounts f =
     (js_trim (giftCode f) = [] \<or> disabled \<or> \<not> hasAccounts)"

datatype gift_label = GiftProcessing | GiftNeedAccounts | GiftStartAll

definition gift_button_label :: "bool \<Rightarrow> bool \<Rightarrow> gift_label" where
  "gift_button_label disabled hasAccounts =
     (if disabled then GiftProcessing else if \<not> hasAccounts then GiftNeedAccounts else GiftStartAll)"

text \<open>\<^verbatim>\<open>handleSubmit\<close>: the trimmed code is passed on when it is not empty.\<close>

definition gift_handleSubmit :: "gift_form \<Rightarrow> string option" where
  "gift_handleSubmit f = (if js_trim (giftCode f) \<noteq> [] then Some (js_trim (giftCode f)) else None)"

datatype gift_event = GiftType string | GiftSubmit

definition gift_step :: "bool \<Rightarrow> bool \<Rightarrow> gift_event \<Rightarrow> gift_form \<Rightarrow> gift_form \<times> string option" where
  "gift_step disabled hasAccounts ev f =
     (case ev of
        GiftType v \<Rightarrow> (if disabled then f else f\<lparr>giftCode := v\<rparr>, None)
      | GiftSubmit \<Rightarrow>
          (f, if gift_submit_disabled disabled hasAccounts f then None else gift_handleSubmit f))"

subsection \<open>The form in the application (\<^verbatim>\<open>App\<close>)\<close>

text \<open>
  \<^verbatim>\<open>handleGiftCodeSubmit\<close> awaits the hook's \<^verbatim>\<open>submitGiftCodeToAccounts\<close> of the current
  render, whose snapshot is the current list.
\<close>

definition App_handleGiftCodeSubmit :: "string \<Rightarrow> nat \<Rightarrow> env \<Rightarrow> world \<Rightarrow> (env \<times> world) outcome" where
  "App_handleGiftCodeSubmit gc d e w = submitGiftCodeToAccounts (accounts w) gc d e w"

definition app_gift_event ::
  "nat \<Rightarrow> env \<Rightarrow> gift_event \<Rightarrow> gift_form \<Rightarrow> world \<Rightarrow> gift_form \<times> (env \<times> world) outcome option" where
  "app_gift_event d e ev f w =
     (let (f', submitted) = gift_step (isProcessing w) (accounts w \<noteq> []) ev f
      in (f', map_option (\<lambda>gc. App_handleGiftCodeSubmit gc d e w) submitted))"

subsection \<open>A pending round keeps the processing flag and a positive counter\<close>

lemma awaits_frame:
  "await_fetchPlayerInfo num e w = Suspended w' \<Longrightarrow>
     isProcessing w' = isProcessing w \<and> processingRemaining w' = processingRemaining w"
  "await_submitGiftCode num c e w = Suspended w' \<Longrightarrow>
     isProcessing w' = isProcessing w \<and> processingRemaining w' = processingRemaining w"
  "await_sleep d e w = Suspended w' \<Longrightarrow>
     isProcessing w' = isProcessing w \<and> processingRemaining w' = processingRemaining w"
  "await_fetchPlayerInfo num e w = Returned (r, e', w') \<Longrightarrow>
     isProcessing w' = isProcessing w \<and> processingRemaining w' = processingRemaining w"
  "await_submitGiftCode num c e w = Returned (q, e', w') \<Longrightarrow>
     isProcessing w' = isProcessing w \<and> processingRemaining w' = processingRemaining w"
  "await_sleep d e w = Returned (e', w') \<Longrightarrow>
     isProcessing w' = isProcessing w \<and> processingRemaining w' = processingRemaining w"
  by (auto simp add: await_fetchPlayerInfo_def await_submitGiftCode_def await_sleep_def
           split: list.splits)

text \<open>A turn suspends before its decrement: at the lookup or at the redemption.\<close>

lemma submit_body_Suspended_frame:
  assumes "submit_body c a e w = Suspended w'"
  shows "isProcessing w' = isProcessing w \<and> processingRemaining w' = processingRemaining w"
  using assms
  by (auto simp add: submit_body_def redeem_attempt_def
           split: outcome.splits prod.splits sum.splits if_splits
           dest!: awaits_frame)

lemma submit_loop_Suspended:
  assumes "submit_loop c d xs e w = Suspended w'" and "processingRemaining w = Some n"
    and "length xs \<le> n"
  shows "isProcessing w' = isProcessing w \<and> (\<exists>k. 0 < k \<and> processingRemaining w' = Some k)"
  using assms
proof (induction xs arbitrary: e w n)
  case Nil
  then show ?case by simp
next
  case (Cons a rest)
  show ?case
  proof (cases "submit_body c a e w")
    case (Suspended w1)
    with Cons.prems have "w' = w1" by simp
    with submit_body_Suspended_frame [OF Suspended] Cons.prems(2,3) show ?thesis by auto
  next
    case (Returned r)
    obtain e1 w1 where r: "r = (e1, w1)" by (cases r)
    have c1: "isProcessing w1 = isProcessing w" "processingRemaining w1 = Some (n - 1)"
      using submit_body_counters [of c a e w e1 w1] Returned r Cons.prems(2) by simp_all
    have ne: "rest \<noteq> []" using Cons.prems(1) Returned r by (cases rest) simp_all
    show ?thesis
    proof (cases "await_sleep d e1 w1")
      case (Suspended w2)
      with Cons.prems(1) Returned r ne have "w' = w2" by simp
      moreover have "Suc 0 < n" using ne Cons.prems(3) by (cases rest) auto
      ultimately show ?thesis using awaits_frame(3) [OF Suspended] c1 Cons.prems(3) by auto
    next
      case (Returned q)
      obtain e2 w2 where q: "q = (e2, w2)" by (cases q)
      with Returned have "isProcessing w2 = isProcessing w1" "processingRemaining w2 = Some (n - 1)"
        using awaits_frame(6) c1 by auto
      moreover have "submit_loop c d rest e2 w2 = Suspended w'"
        using Cons.prems(1) \<open>submit_body c a e w = Returned r\<close> r ne Returned q by simp
      ultimately show ?thesis using Cons.IH [of e2 w2 "n - 1"] Cons.prems(3) c1 by simp
    qed
  qed
qed

lemma submitGiftCodeToAccounts_Suspended:
  assumes "submitGiftCodeToAccounts snapshot c d e w = Suspended w'"
  shows "isProcessing w' \<and> (\<exists>k. 0 < k \<and> processingRemaining w' = Some k)"
proof -
  let ?v = "filter isValidated snapshot"
  have "?v \<noteq> []" and loop: "submit_loop c d ?v e (start_round ?v w) = Suspended w'"
    using assms by (auto simp add: submitGiftCodeToAccounts_def Let_def split: if_splits outcome.splits prod.splits)
  then show ?thesis
    using submit_loop_Suspended [OF loop, of "length ?v"] by simp
qed

subsection \<open>Properties of the form\<close>

text \<open>
  C29: A round is started from the form only by a submission, with the trimmed non-empty
  code, while no round is processing and the registry is not empty; the form keeps its
  text. So the hook's own \<^verbatim>\<open>accounts.length === 0\<close> warning is never reached from here.
\<close>

theorem gift_submission_guarded:
  assumes "app_gift_event d e ev f w = (f', Some r)"
  shows "ev = GiftSubmit \<and> f' = f \<and> \<not> isProcessing w \<and> accounts w \<noteq> [] \<and>
         js_trim (giftCode f) \<noteq> [] \<and>
         r = submitGiftCodeToAccounts (accounts w) (js_trim (giftCode f)) d e w"
  using assms
  by (auto simp add: app_gift_event_def gift_step_def gift_submit_disabled_def gift_handleSubmit_def
        App_handleGiftCodeSubmit_def split: gift_event.splits if_splits)

text \<open>
  C30: Rounds are serialised by the form, and a pending round shows as running: while a
  round waits at one of its awaits (a lookup, a redemption or the delay), the button reads
  "processing", neither typing nor submitting changes the form or starts a second round,
  and the statistics panel shows a positive number of accounts still to process on its
  spinning "processing" card (unless the user deleted every account).
\<close>

theorem pending_round_blocks_form:
  assumes "submitGiftCodeToAccounts snapshot c d e w = Suspended w'"
  shows "app_gift_event d' e' ev f w' = (f, None) \<and>
         gift_button_label (isProcessing w') (accounts w' \<noteq> []) = GiftProcessing \<and>
         (\<exists>k. 0 < k \<and> processingRemaining w' = Some k \<and>
            (accounts w' \<noteq> [] \<longrightarrow>
               (\<exists>cs bar sm. StatusStats_view (accounts w') (processingRemaining w') = StatsContent cs bar sm \<and>
                  cs ! 1 = StatCard ''processing'' k True)))"
proof -
  obtain k where p: "isProcessing w'" and k: "0 < k" "processingRemaining w' = Some k"
    using submitGiftCodeToAccounts_Suspended [OF assms] by blast
  have "app_gift_event d' e' ev f w' = (f, None) \<and>
        gift_button_label (isProcessing w') (accounts w' \<noteq> []) = GiftProcessing"
    using p by (simp add: app_gift_event_def gift_step_def gift_submit_disabled_def gift_button_label_def
      split: gift_event.splits)
  moreover have "\<exists>cs bar sm. StatusStats_view (accounts w') (processingRemaining w') = StatsContent cs bar sm \<and>
                  cs ! 1 = StatCard ''processing'' k True" if "accounts w' \<noteq> []"
    using that k by (simp add: StatusStats_view_def Let_def status_display_def)
  ultimately show ?thesis using k by blast
qed

end
