(* ===== verification/Settings.thy ===== *)
theory Settings
  imports AccountManager ApiSign
begin

text \<open>
  The request-interval setting of \<^verbatim>\<open>src/src/App.tsx\<close>: \<^verbatim>\<open>delayMs\<close> is read once from
  \<^verbatim>\<open>localStorage\<close> (key \<^verbatim>\<open>kingshot-delay-ms\<close>) with \<^verbatim>\<open>parseInt(saved, 10)\<close>, and the
  select box writes the chosen option back as \<^verbatim>\<open>String(v)\<close>. The item is a string or
  absent (\<^verbatim>\<open>getItem\<close> gives \<^verbatim>\<open>null\<close>); \<^verbatim>\<open>parseInt\<close> gives an integer or \<^verbatim>\<open>NaN\<close>,
  here \<open>Some i\<close> or \<open>None\<close>. The engines wait \<^verbatim>\<open>setTimeout(resolve, delayMs)\<close>, which
  waits 0 ms for \<^verbatim>\<open>NaN\<close> and for a negative delay: the \<open>d\<close> of the engine theories is
  \<open>timer_delay delayMs\<close>.
\<close>

subsection \<open>\<^verbatim>\<open>parseInt(s, 10)\<close>\<close>

text \<open>
  ECMAScript's \<^verbatim>\<open>parseInt\<close> with radix 10: leading white space is skipped, one sign is
  taken, then the longest run of decimal digits is read; no digit at all is \<^verbatim>\<open>NaN\<close>.
\<close>

definition digit_val :: "char \<Rightarrow> int" where
  "digit_val c = int (of_char c) - 48"

definition decimal_value :: "string \<Rightarrow> int" where
  "decimal_value ds = foldl (\<lambda>acc c. 10 * acc + digit_val c) 0 ds"

definition js_parseInt :: "string \<Rightarrow> int option" where
  "js_parseInt s =
     (let s1 = dropWhile js_whitespace s;
          (sign, s2) = (case s1 of
                          c # r \<Rightarrow> (if c = CHR ''-'' then (-1, r) else if c = CHR ''+'' then (1, r) else (1, s1))
                        | [] \<Rightarrow> (1, []));
          z = takeWhile is_digit s2
      in if z = [] then None else Some (sign * decimal_value z))"

text \<open>\<^verbatim>\<open>String(x)\<close> of a \<^verbatim>\<open>parseInt\<close> result.\<close>

definition number_text :: "int option \<Rightarrow> string" where
  "number_text x = (case x of Some i \<Rightarrow> js_int_string i | None \<Rightarrow> ''NaN'')"

subsection \<open>The setting (lines 16--19 and 93--108)\<close>

definition DELAY_KEY :: string where "DELAY_KEY = ''kingshot-delay-ms''"

text \<open>\<^verbatim>\<open>saved ? parseInt(saved, 10) : 2000\<close>: the empty string is falsy like \<^verbatim>\<open>null\<close>.\<close>

definition initial_delayMs :: "string option \<Rightarrow> int option" where
  "initial_delayMs saved =
     (case saved of None \<Rightarrow> Some 2000 | Some s \<Rightarrow> if s = [] then Some 2000 else js_parseInt s)"

definition delay_options :: "nat list" where
  "delay_options = [500, 1000, 1500, 2000, 3000]"

text \<open>
  The select's \<^verbatim>\<open>onChange\<close>: the option's value attribute is \<^verbatim>\<open>String(option)\<close>, parsed
  back; the state takes the number and the store its text.
\<close>

definition select_delay :: "nat \<Rightarrow> int option \<times> string option" where
  "select_delay opt =
     (let v = js_parseInt (js_int_string (int opt)) in (v, Some (number_text v)))"

text \<open>\<^verbatim>\<open>setTimeout\<close> clamps \<^verbatim>\<open>NaN\<close> and negative delays to 0.\<close>

definition timer_delay :: "int option \<Rightarrow> nat" where
  "timer_delay x = (case x of None \<Rightarrow> 0 | Some i \<Rightarrow> nat i)"

subsection \<open>Decimal text of a number\<close>

lemma digit_char:
  "k < 10 \<Longrightarrow> is_digit (char_of (48 + k)) \<and> digit_val (char_of (48 + k)) = int k"
  by (simp add: is_digit_def digit_val_def of_char_of)

lemma digits_props:
  "digits n \<noteq> [] \<and> list_all is_digit (digits n) \<and> decimal_value (digits n) = int n"
proof (induction n rule: digits.induct)
  case (1 n)
  show ?case
  proof (cases "n < 10")
    case True
    then have "digits n = [char_of (48 + n)]" by (subst digits.simps) simp
    with True show ?thesis using digit_char [OF True] by (simp add: decimal_value_def del: digits.simps)
  next
    case False
    then have d: "digits n = digits (n div 10) @ [char_of (48 + n mod 10)]"
      by (subst digits.simps) simp
    have ih: "list_all is_digit (digits (n div 10)) \<and> decimal_value (digits (n div 10)) = int (n div 10)"
      using 1 False by (simp del: digits.simps)
    have "int n = 10 * int (n div 10) + int (n mod 10)"
      by (metis div_mult_mod_eq mult.commute of_nat_add of_nat_mult of_nat_numeral)
    with ih digit_char [of "n mod 10"] show ?thesis
      by (simp add: d decimal_value_def del: digits.simps)
  qed
qed

lemma js_int_string_nonneg [simp]: "js_int_string (int n) = digits n"
  by (simp add: js_int_string_def)

lemma js_parseInt_digits [simp]: "js_parseInt (digits n) = Some (int n)"
proof -
  have props: "digits n \<noteq> [] \<and> list_all is_digit (digits n) \<and> decimal_value (digits n) = int n"
    by (rule digits_props)
  then obtain c r where cr: "digits n = c # r" by (cases "digits n") (simp_all del: digits.simps)
  with props have c: "is_digit c" and r: "list_all is_digit r" by (simp_all del: digits.simps)
  then have "\<not> js_whitespace c \<and> c \<noteq> CHR ''-'' \<and> c \<noteq> CHR ''+''"
    by (auto simp add: is_digit_def js_whitespace_def)
  moreover have tw: "takeWhile is_digit r = r" using r by (simp add: list_all_iff)
  ultimately show ?thesis using props c cr
    by (simp add: js_parseInt_def tw del: digits.simps takeWhile_eq_all_conv)
qed

lemma takeWhile_no_digit: "\<not> list_ex is_digit xs \<Longrightarrow> takeWhile is_digit xs = []"
  by (cases xs) auto

lemma js_parseInt_no_digit:
  "\<not> list_ex is_digit s \<Longrightarrow> js_parseInt s = None"
proof -
  assume nd: "\<not> list_ex is_digit s"
  define s1 where "s1 = dropWhile js_whitespace s"
  have nd1: "\<not> list_ex is_digit s1"
    using nd by (auto simp add: s1_def list_ex_iff dest: set_dropWhileD)
  show ?thesis
  proof (cases s1)
    case Nil
    then show ?thesis by (simp add: js_parseInt_def flip: s1_def)
  next
    case (Cons c r)
    with nd1 have "takeWhile is_digit s1 = [] \<and> takeWhile is_digit r = []"
      by (simp add: takeWhile_no_digit del: takeWhile_eq_Nil_iff)
    with Cons show ?thesis by (simp add: js_parseInt_def flip: s1_def del: takeWhile_eq_Nil_iff)
  qed
qed

subsection \<open>Properties of the setting\<close>

text \<open>
  C31: The setting is a round trip: choosing any option of the select stores its decimal
  text, the state takes the option's value, and the next start reads the same value
  back, so the engines wait exactly the chosen number of milliseconds.
\<close>

theorem delay_setting_roundtrip:
  "select_delay v = (Some (int v), Some (digits v)) \<and>
   initial_delayMs (snd (select_delay v)) = Some (int v) \<and>
   timer_delay (fst (select_delay v)) = v"
proof -
  have "digits v \<noteq> []" using digits_props [of v] by blast
  then show ?thesis
    by (simp add: select_delay_def number_text_def initial_delayMs_def timer_delay_def del: digits.simps)
qed

text \<open>
  A stored interval with no digit in it (written by another version, or edited)
  reads as \<^verbatim>\<open>NaN\<close>, and \<^verbatim>\<open>setTimeout\<close> waits 0 ms for it: the engines then send
  their requests without any throttling delay.
\<close>

theorem corrupt_delay_unthrottled:
  assumes "s \<noteq> []" and "\<not> list_ex is_digit s"
  shows "initial_delayMs (Some s) = None \<and> timer_delay (initial_delayMs (Some s)) = 0"
  using assms by (simp add: initial_delayMs_def timer_delay_def js_parseInt_no_digit)

end
