(* ===== verification/AlertView.thy ===== *)
theory AlertView
  imports Notifications
begin

text \<open>
  The notification dialog \<^verbatim>\<open>src/src/components/Alert.tsx\<close> as \<^verbatim>\<open>src/src/App.tsx\<close>
  renders it: the state of \<^verbatim>\<open>useAlert\<close> is passed as props and \<^verbatim>\<open>onClose\<close> is the hook's
  \<^verbatim>\<open>hideAlert\<close>. The dialog is what it shows: the message, the colour classes of its
  kind and the icon with its colour; an invisible alert renders nothing. Both buttons of
  the dialog (the cross and "OK") call \<^verbatim>\<open>onClose\<close>.
\<close>

datatype alert_icon = IconX | IconAlertTriangle

definition getAlertStyles :: "alert_type \<Rightarrow> string" where
  "getAlertStyles ty =
     (case ty of
        AlertError \<Rightarrow> ''bg-red-900/90 border-red-600 text-red-100''
      | AlertWarning \<Rightarrow> ''bg-yellow-900/90 border-yellow-600 text-yellow-100''
      | AlertSuccess \<Rightarrow> ''bg-green-900/90 border-green-600 text-green-100''
      | AlertInfo \<Rightarrow> ''bg-blue-900/90 border-blue-600 text-blue-100'')"

definition getIcon :: "alert_type \<Rightarrow> alert_icon \<times> string" where
  "getIcon ty =
     (case ty of
        AlertError \<Rightarrow> (IconX, ''text-red-400'')
      | AlertWarning \<Rightarrow> (IconAlertTriangle, ''text-yellow-400'')
      | AlertSuccess \<Rightarrow> (IconX, ''text-green-400'')
      | AlertInfo \<Rightarrow> (IconAlertTriangle, ''text-blue-400''))"

record alert_dialog =
  dialog_message :: message
  dialog_style :: string
  dialog_icon :: "alert_icon \<times> string"

definition Alert_view :: "alert_state \<Rightarrow> alert_dialog option" where
  "Alert_view a =
     (if \<not> isVisible a then None
      else Some \<lparr>dialog_message = alert_message a, dialog_style = getAlertStyles (alert_kind a),
                 dialog_icon = getIcon (alert_kind a)\<rparr>)"

datatype alert_button = CloseCross | CloseOk

text \<open>A click on a button of the dialog; there are no buttons while it is not rendered.\<close>

definition alert_click :: "alert_button \<Rightarrow> alert_hook \<Rightarrow> alert_hook" where
  "alert_click b h = (if isVisible (alert h) then hideAlert h else h)"

definition App_alert_view :: "alert_hook \<Rightarrow> alert_dialog option" where
  "App_alert_view h = Alert_view (alert h)"

lemma getAlertStyles_inj: "inj getAlertStyles"
proof (rule injI)
  fix s t :: alert_type assume "getAlertStyles s = getAlertStyles t"
  then show "s = t" by (cases s; cases t) (simp_all add: getAlertStyles_def)
qed

text \<open>
  C32: The dialog after \<^verbatim>\<open>showAlert(m, ty)\<close>, at any later time \<open>t\<close>: it shows \<open>m\<close>
  with the style and icon of \<open>ty\<close> exactly while \<open>t\<close> is before the alert's own three
  seconds are over and before every auto-hide timer still pending from earlier
  notifications (those timers are never cleared, so an earlier one hides the new alert
  early); otherwise it shows nothing. Either button removes it, and the style tells
  the four kinds apart.
\<close>

theorem alert_dialog_shows_latest:
  assumes "now h \<le> t"
  shows "App_alert_view (advance_time t (useAlert_showAlert m ty h)) =
           (if t < now h + 3000 \<and> (\<forall>d \<in> set (timers h). t < d)
            then Some \<lparr>dialog_message = m, dialog_style = getAlertStyles ty, dialog_icon = getIcon ty\<rparr>
            else None) \<and>
         App_alert_view (alert_click b (advance_time t (useAlert_showAlert m ty h))) = None \<and>
         inj getAlertStyles"
proof -
  have due: "(filter (\<lambda>d. d \<le> t) (timers h @ [now h + 3000]) = []) =
             (t < now h + 3000 \<and> (\<forall>d \<in> set (timers h). t < d))"
    by (auto simp add: filter_empty_conv not_le)
  then show ?thesis
    using getAlertStyles_inj
    by (simp add: App_alert_view_def Alert_view_def alert_click_def hideAlert_def advance_time_def
        useAlert_showAlert_def Let_def)
qed

text \<open>A success notification carries the same cross icon as an error, only in green.\<close>

theorem success_alert_cross_icon:
  "fst (getIcon AlertSuccess) = fst (getIcon AlertError) \<and> fst (getIcon AlertSuccess) = IconX"
  by (simp add: getIcon_def)

end
