(* ===== verification/Language.thy ===== *)
theory Language
  imports Prelude "HOL-Library.Sublist"
begin

text \<open>
  Localisation: the configuration of \<^verbatim>\<open>src/src/i18n/index.ts\<close> (three resource
  languages, Chinese as the fallback, the browser language detector looking at the
  \<^verbatim>\<open>lang\<close> query parameter, then \<^verbatim>\<open>localStorage\<close>, then the browser's languages, and
  caching the result in \<^verbatim>\<open>localStorage\<close>) and the switcher
  \<^verbatim>\<open>src/src/components/LanguageSwitcher.tsx\<close>, which reads \<^verbatim>\<open>i18n.language\<close>,
  highlights one of its three buttons and calls \<^verbatim>\<open>i18n.changeLanguage\<close>. What the
  configuration asks of the \<^verbatim>\<open>i18next\<close> library is modelled as the library does it: the
  detector collects the candidates in its order, the best match is the first supported
  candidate, else the first whose language part (before \<^verbatim>\<open>-\<close>) is supported, else the
  fallback; the library adds \<^verbatim>\<open>cimode\<close> to the supported codes and the detector never
  caches it. The resources are bundled, so a change of language completes at once. The
  translation tables are data and are not modelled (messages are kept as keys).
\<close>

subsection \<open>Configuration (\<^verbatim>\<open>i18n/index.ts\<close>)\<close>

definition supportedLngs :: "string list" where
  "supportedLngs = [''zh'', ''en'', ''ko'']"

definition fallbackLng :: string where
  "fallbackLng = ''zh''"

text \<open>The codes the library accepts: the configured ones and its key-display mode.\<close>

definition supported_codes :: "string list" where
  "supported_codes = supportedLngs @ [''cimode'']"

text \<open>The language state: \<^verbatim>\<open>i18n.language\<close> and the cached item \<^verbatim>\<open>i18nextLng\<close>.\<close>

record i18n_state =
  i18n_language :: string
  i18n_cache :: "string option"

text \<open>What the detector looks at besides the cache: \<^verbatim>\<open>?lang=\<close> and \<^verbatim>\<open>navigator.languages\<close>.\<close>

record browser_locale =
  location_lang :: "string option"
  navigator_languages :: "string list"

text \<open>\<^verbatim>\<open>order: ["querystring", "localStorage", "navigator"]\<close>, \<^verbatim>\<open>lookupQuerystring: "lang"\<close>.\<close>

definition detect_candidates :: "browser_locale \<Rightarrow> string option \<Rightarrow> string list" where
  "detect_candidates b cache =
     (case location_lang b of Some l \<Rightarrow> [l] | None \<Rightarrow> []) @
     (case cache of Some l \<Rightarrow> [l] | None \<Rightarrow> []) @
     navigator_languages b"

definition language_part :: "string \<Rightarrow> string" where
  "language_part code = takeWhile (\<lambda>c. c \<noteq> CHR ''-'') code"

definition getBestMatchFromCodes :: "string list \<Rightarrow> string" where
  "getBestMatchFromCodes codes =
     (case find (\<lambda>c. c \<in> set supported_codes) codes of
        Some c \<Rightarrow> c
      | None \<Rightarrow>
          (case find (\<lambda>c. language_part c \<in> set supported_codes) codes of
             Some c \<Rightarrow> language_part c
           | None \<Rightarrow> fallbackLng))"

text \<open>\<^verbatim>\<open>caches: ["localStorage"]\<close>, with the detector's default \<^verbatim>\<open>excludeCacheFor: ["cimode"]\<close>.\<close>

definition cacheUserLanguage :: "string \<Rightarrow> string option \<Rightarrow> string option" where
  "cacheUserLanguage lng cache = (if lng = ''cimode'' then cache else Some lng)"

text \<open>\<^verbatim>\<open>i18n.use(LanguageDetector).init(...)\<close> on page load.\<close>

definition i18n_init :: "browser_locale \<Rightarrow> string option \<Rightarrow> i18n_state" where
  "i18n_init b cache =
     (let lng = getBestMatchFromCodes (detect_candidates b cache) in
      \<lparr>i18n_language = lng, i18n_cache = cacheUserLanguage lng cache\<rparr>)"

definition changeLanguage :: "string \<Rightarrow> i18n_state \<Rightarrow> i18n_state" where
  "changeLanguage lng st = \<lparr>i18n_language = lng, i18n_cache = cacheUserLanguage lng (i18n_cache st)\<rparr>"

subsection \<open>The switcher (\<^verbatim>\<open>LanguageSwitcher\<close>)\<close>

text \<open>\<^verbatim>\<open>currentRaw.startsWith("en") ? "en" : ... : "zh"\<close>.\<close>

definition current_language :: "string \<Rightarrow> string" where
  "current_language currentRaw =
     (if prefix ''en'' currentRaw then ''en''
      else if prefix ''zh'' currentRaw then ''zh''
      else if prefix ''ko'' currentRaw then ''ko''
      else ''zh'')"

text \<open>The buttons in their order, each with its language and whether it is highlighted.\<close>

definition switcher_languages :: "string list" where
  "switcher_languages = [''zh'', ''en'', ''ko'']"

definition switcher_buttons :: "string \<Rightarrow> (string \<times> bool) list" where
  "switcher_buttons currentRaw = map (\<lambda>lng. (lng, current_language currentRaw = lng)) switcher_languages"

definition switcher_click :: "nat \<Rightarrow> i18n_state \<Rightarrow> i18n_state" where
  "switcher_click i st =
     (if i < length switcher_languages then changeLanguage (switcher_languages ! i) st else st)"

subsection \<open>Lemmas\<close>

lemma current_language_cases:
  "current_language raw = ''en'' \<or> current_language raw = ''zh'' \<or> current_language raw = ''ko''"
  by (simp add: current_language_def)

lemma current_language_code [simp]:
  "lng \<in> set switcher_languages \<Longrightarrow> current_language lng = lng"
  by (auto simp add: switcher_languages_def current_language_def)

lemma switcher_click_language:
  "i < length switcher_languages \<Longrightarrow>
     i18n_language (switcher_click i st) = switcher_languages ! i \<and>
     i18n_cache (switcher_click i st) = Some (switcher_languages ! i)"
  by (auto simp add: switcher_click_def changeLanguage_def cacheUserLanguage_def switcher_languages_def
      less_Suc_eq)

lemma supported_find [simp]:
  "l \<in> set supported_codes \<Longrightarrow> getBestMatchFromCodes (l # ls) = l"
  by (simp add: getBestMatchFromCodes_def)

lemma language_part_supported: "c \<in> set supported_codes \<Longrightarrow> language_part c = c"
  by (auto simp add: supported_codes_def supportedLngs_def language_part_def)

lemma getBestMatchFromCodes_cases:
  "getBestMatchFromCodes codes \<in> set supported_codes"
proof -
  have "language_part c \<in> set supported_codes" if "find (\<lambda>c. language_part c \<in> set supported_codes) codes = Some c" for c
    using that by (auto simp add: find_Some_iff)
  moreover have "c \<in> set supported_codes" if "find (\<lambda>c. c \<in> set supported_codes) codes = Some c" for c
    using that by (auto simp add: find_Some_iff)
  ultimately show ?thesis
    by (auto simp add: getBestMatchFromCodes_def fallbackLng_def supported_codes_def supportedLngs_def
        split: option.split)
qed

text \<open>
  C33: A type property of the switcher: whatever \<^verbatim>\<open>i18n.language\<close> holds, the switcher
  reads a supported language and highlights exactly one button; after a click on a
  button, exactly that button is highlighted; a code with no supported prefix reads as
  the fallback language.
\<close>

theorem language_switcher_consistent:
  "current_language raw \<in> set supportedLngs \<and>
   length (filter snd (switcher_buttons raw)) = 1 \<and>
   (i < length switcher_languages \<longrightarrow>
      switcher_buttons (i18n_language (switcher_click i st)) = map (\<lambda>j. (switcher_languages ! j, j = i)) [0..<3]) \<and>
   (\<not> (\<exists>l \<in> set supportedLngs. prefix l raw) \<longrightarrow> current_language raw = fallbackLng)"
proof (intro conjI impI)
  show "current_language raw \<in> set supportedLngs"
    using current_language_cases [of raw] by (auto simp add: supportedLngs_def)
  show "length (filter snd (switcher_buttons raw)) = 1"
    using current_language_cases [of raw] by (auto simp add: switcher_buttons_def switcher_languages_def)
  show "switcher_buttons (i18n_language (switcher_click i st)) = map (\<lambda>j. (switcher_languages ! j, j = i)) [0..<3]"
    if "i < length switcher_languages"
  proof -
    have "i = 0 \<or> i = 1 \<or> i = 2" using that by (auto simp add: switcher_languages_def)
    then show ?thesis
      using switcher_click_language [OF that]
      by (elim disjE) (simp_all add: switcher_buttons_def switcher_languages_def current_language_def upt_rec)
  qed
  show "current_language raw = fallbackLng" if "\<not> (\<exists>l \<in> set supportedLngs. prefix l raw)"
    using that by (simp add: current_language_def supportedLngs_def fallbackLng_def)
qed

text \<open>
  C36: The language survives a reload: the language a page load resolves is always one
  the library accepts; after a click on a switcher button, a reload without a
  \<^verbatim>\<open>lang\<close> query parameter resolves the clicked language whatever the browser prefers;
  a supported \<^verbatim>\<open>lang\<close> parameter wins over the cached choice and is cached in its place;
  and with no supported candidate at all the page falls back to Chinese.
\<close>

theorem language_reload_roundtrip:
  "i18n_language (i18n_init b cache) \<in> set supported_codes \<and>
   (i < length switcher_languages \<longrightarrow> location_lang b = None \<longrightarrow>
      i18n_language (i18n_init b (i18n_cache (switcher_click i st))) = switcher_languages ! i) \<and>
   (location_lang b = Some l \<longrightarrow> l \<in> set supportedLngs \<longrightarrow>
      i18n_language (i18n_init b cache) = l \<and> i18n_cache (i18n_init b cache) = Some l) \<and>
   ((\<forall>c \<in> set (detect_candidates b cache). language_part c \<notin> set supported_codes) \<longrightarrow>
      i18n_language (i18n_init b cache) = fallbackLng)"
proof -
  have 1: "i18n_language (i18n_init b cache) \<in> set supported_codes"
    using getBestMatchFromCodes_cases by (simp add: i18n_init_def Let_def)
  have 2: "i18n_language (i18n_init b (i18n_cache (switcher_click i st))) = switcher_languages ! i"
    if i: "i < length switcher_languages" and "location_lang b = None"
  proof -
    have "switcher_languages ! i \<in> set supported_codes"
      using nth_mem [OF i] by (auto simp add: switcher_languages_def supported_codes_def supportedLngs_def)
    with that show ?thesis
      using switcher_click_language [OF i] by (simp add: i18n_init_def detect_candidates_def Let_def)
  qed
  have 3: "i18n_language (i18n_init b cache) = l \<and> i18n_cache (i18n_init b cache) = Some l"
    if "location_lang b = Some l" and "l \<in> set supportedLngs"
  proof -
    have "l \<noteq> ''cimode''" using that(2) by (auto simp add: supportedLngs_def)
    with that show ?thesis
      by (simp add: i18n_init_def detect_candidates_def cacheUserLanguage_def supported_codes_def Let_def)
  qed
  have 4: "i18n_language (i18n_init b cache) = fallbackLng"
    if none: "\<forall>c \<in> set (detect_candidates b cache). language_part c \<notin> set supported_codes"
  proof -
    have "\<forall>c \<in> set (detect_candidates b cache). c \<notin> set supported_codes"
      using none language_part_supported by metis
    then have "find (\<lambda>c. c \<in> set supported_codes) (detect_candidates b cache) = None"
      and "find (\<lambda>c. language_part c \<in> set supported_codes) (detect_candidates b cache) = None"
      using none by (simp_all add: find_None_iff)
    then show ?thesis by (simp add: i18n_init_def getBestMatchFromCodes_def Let_def)
  qed
  show ?thesis using 1 2 3 4 by blast
qed

text \<open>
  Two consequences of the detection as configured. The library's key-display mode is
  reachable from the address bar: \<^verbatim>\<open>?lang=cimode\<close> makes every text its translation
  key, leaves the cached choice as it was, and the switcher highlights Chinese. And an
  exact match anywhere in the browser's list wins over a regional variant before it: a
  browser preferring Taiwanese Chinese, then English, reads English; preferring only
  Taiwanese Chinese, it reads Chinese.
\<close>

theorem language_detection_quirks:
  "i18n_init \<lparr>location_lang = Some ''cimode'', navigator_languages = [''en-US'']\<rparr> (Some ''en'') =
     \<lparr>i18n_language = ''cimode'', i18n_cache = Some ''en''\<rparr> \<and>
   switcher_buttons ''cimode'' = [(''zh'', True), (''en'', False), (''ko'', False)] \<and>
   i18n_language (i18n_init \<lparr>location_lang = None, navigator_languages = [''zh-TW'', ''en'']\<rparr> None) = ''en'' \<and>
   i18n_language (i18n_init \<lparr>location_lang = None, navigator_languages = [''zh-TW'']\<rparr> None) = ''zh''"
  by (simp add: i18n_init_def detect_candidates_def getBestMatchFromCodes_def supported_codes_def
      supportedLngs_def cacheUserLanguage_def switcher_buttons_def switcher_languages_def
      current_language_def language_part_def Let_def)

end
