(* ===== verification/AppMain.thy ===== *)
theory AppMain
  imports ManagerPanel GiftCodeInput Persistence Settings AlertView Language
begin

text \<open>
  The application of \<^verbatim>\<open>src/src/App.tsx\<close> as one state machine: the start-up and save
  effects, the hook's state, the stored list, the request interval, the notification
  hook, the language, the account panel and the gift-code form. A step is one action of
  the user on a component, with the handler it starts run to its end (the user's
  deletions during its awaits included); the notifications the handler raised are passed
  in order to \<^verbatim>\<open>useAlert\<close>'s \<^verbatim>\<open>showAlert\<close> (App's \<^verbatim>\<open>onShowAlert\<close>), and the save
  effect stores the sanitised list after every change once the start-up effect has run.
  The start-up effect runs right after the first render, before any user action; the
  engines wait \<open>timer_delay delayMs\<close>. A handler that never returns leaves the
  application where it was; two handlers running at the same time are not modelled.
\<close>

record app_model =
  phase :: app_state
  hook :: world
  store :: local_storage
  delay_item :: "string option"
  delayMs :: "int option"
  notifier :: alert_hook
  language :: i18n_state
  panel :: manager_ui
  form :: gift_form

text \<open>The first render: the interval is read from its stored item (lines 16--19).\<close>

definition initial_app_model :: "local_storage \<Rightarrow> string option \<Rightarrow> i18n_state \<Rightarrow> app_model" where
  "initial_app_model ls item lng =
     \<lparr>phase = initial_app, hook = initial_world, store = ls, delay_item = item,
      delayMs = initial_delayMs item, notifier = initial_alert_hook, language = lng,
      panel = initial_manager_ui, form = initial_gift_form\<rparr>"

text \<open>The save effect (lines 49--59); \<open>ok\<close> tells whether the write succeeds.\<close>

definition app_save :: "bool \<Rightarrow> app_model \<Rightarrow> app_model" where
  "app_save ok s = s\<lparr>store := app_persist (phase s) (hook s) ok (store s)\<rparr>"

text \<open>The start-up effect (lines 38--46), then the save effect of the first render.\<close>

definition app_start :: "bool \<Rightarrow> app_model \<Rightarrow> app_model" where
  "app_start ok s =
     (let (st', w') = app_init (store s) (phase s) (hook s) in app_save ok (s\<lparr>phase := st', hook := w'\<rparr>))"

text \<open>\<^verbatim>\<open>onShowAlert={showAlert}\<close>: the notifications a handler raised, shown in order.\<close>

definition show_new_alerts :: "world \<Rightarrow> world \<Rightarrow> alert_hook \<Rightarrow> alert_hook" where
  "show_new_alerts w w' h =
     fold (\<lambda>(m, ty) h. useAlert_showAlert m ty h) (drop (length (alerts w)) (alerts w')) h"

text \<open>The end of a handler: its state, its notifications, then the save effect.\<close>

definition app_handled :: "bool \<Rightarrow> world \<Rightarrow> app_model \<Rightarrow> app_model" where
  "app_handled ok w' s =
     app_save ok (s\<lparr>hook := w', notifier := show_new_alerts (hook s) w' (notifier s)\<rparr>)"

inductive app_step :: "app_model \<Rightarrow> app_model \<Rightarrow> bool" where
  app_start_step: "app_step s (app_start ok s)"
| app_panel_add:
    "initStarted (phase s) \<Longrightarrow>
     panel_step (accounts (hook s)) tempId e ev (panel s) (hook s) = (ui', w1, StartAdd (Returned (b, e', w'))) \<Longrightarrow>
     tempId \<notin> set (map account_id (accounts (hook s))) \<Longrightarrow>
     app_step s (app_handled ok w' (s\<lparr>panel := ui'\<rparr>))"
| app_panel_other:
    "initStarted (phase s) \<Longrightarrow>
     panel_step (accounts (hook s)) tempId e ev (panel s) (hook s) = (ui', w', eff) \<Longrightarrow>
     \<forall>x. eff \<noteq> StartAdd x \<Longrightarrow>
     app_step s (app_handled ok w' (s\<lparr>panel := ui'\<rparr>))"
| app_import:
    "initStarted (phase s) \<Longrightarrow>
     handleFileChange fileOpt (readTextFile fr) (accounts (hook s)) (timer_delay (delayMs s)) tid e (panel s) (hook s)
       = Returned (e', ui', w') \<Longrightarrow>
     inj tid \<Longrightarrow> \<forall>j. tid j \<notin> set (map account_id (accounts (hook s))) \<Longrightarrow>
     app_step s (app_handled ok w' (s\<lparr>panel := ui'\<rparr>))"
| app_form_idle:
    "initStarted (phase s) \<Longrightarrow>
     app_gift_event (timer_delay (delayMs s)) e ev (form s) (hook s) = (f', None) \<Longrightarrow>
     app_step s (s\<lparr>form := f'\<rparr>)"
| app_form_round:
    "initStarted (phase s) \<Longrightarrow>
     app_gift_event (timer_delay (delayMs s)) e ev (form s) (hook s) = (f', Some (Returned (e', w'))) \<Longrightarrow>
     app_step s (app_handled ok w' (s\<lparr>form := f'\<rparr>))"
| app_alert_close: "app_step s (s\<lparr>notifier := alert_click b (notifier s)\<rparr>)"
| app_tick: "now (notifier s) \<le> t \<Longrightarrow> app_step s (s\<lparr>notifier := advance_time t (notifier s)\<rparr>)"
| app_language: "app_step s (s\<lparr>language := switcher_click i (language s)\<rparr>)"
| app_delay:
    "select_delay opt = (v, item) \<Longrightarrow> app_step s (s\<lparr>delayMs := v, delay_item := item\<rparr>)"

text \<open>What App renders (lines 73--163): the loading line, the switcher, the interval, the
  panel, the statistics, the form's button and the dialog.\<close>

record app_view =
  view_loading :: bool
  view_languages :: "(string \<times> bool) list"
  view_delay :: "int option"
  view_panel :: panel_view
  view_stats :: stats_panel
  view_gift :: "bool \<times> gift_label"
  view_dialog :: "alert_dialog option"

definition App_view :: "app_model \<Rightarrow> app_view" where
  "App_view s =
     \<lparr>view_loading = isInitializing (phase s),
      view_languages = switcher_buttons (i18n_language (language s)),
      view_delay = delayMs s,
      view_panel = manager_view (accounts (hook s)) (panel s),
      view_stats = StatusStats_view (accounts (hook s)) (processingRemaining (hook s)),
      view_gift = (gift_submit_disabled (isProcessing (hook s)) (accounts (hook s) \<noteq> []) (form s),
                   gift_button_label (isProcessing (hook s)) (accounts (hook s) \<noteq> [])),
      view_dialog = App_alert_view (notifier s)\<rparr>"

inductive app_reach :: "app_model \<Rightarrow> bool" where
  app_reach_init: "wf_accounts (loadAccounts ls) \<Longrightarrow> list_all persisted_account (loadAccounts ls) \<Longrightarrow>
    app_reach (initial_app_model ls item lng)"
| app_reach_step: "app_reach s \<Longrightarrow> app_step s t \<Longrightarrow> app_reach t"

inductive_cases app_step_cases: "app_step s t"

subsection \<open>What one step does to the registry and the store\<close>

lemma app_save_fields [simp]:
  "phase (app_save ok s) = phase s" "hook (app_save ok s) = hook s"
  "panel (app_save ok s) = panel s" "form (app_save ok s) = form s"
  "delayMs (app_save ok s) = delayMs s" "delay_item (app_save ok s) = delay_item s"
  by (simp_all add: app_save_def)

lemma app_handled_fields [simp]:
  "phase (app_handled ok w' s) = phase s" "hook (app_handled ok w' s) = w'"
  "panel (app_handled ok w' s) = panel s" "form (app_handled ok w' s) = form s"
  "delayMs (app_handled ok w' s) = delayMs s" "delay_item (app_handled ok w' s) = delay_item s"
  by (simp_all add: app_handled_def)

lemma select_delay_agrees: "select_delay opt = (v, item) \<Longrightarrow> v = initial_delayMs item"
  using digits_props [of opt]
  by (auto simp add: select_delay_def number_text_def initial_delayMs_def simp del: digits.simps)

lemma panel_step_StartAdd:
  assumes "panel_step accs tempId e ev ui w = (ui', w1, StartAdd x)"
  shows "\<exists>n. x = App_handleAddAccount accs n False tempId e w"
  using assms
  by (cases ev) (auto simp add: panel_step_def handleKeyPress_def handleAddAccount_def Let_def
      add_effect_def split: if_splits prod.splits key.splits option.splits)

lemma panel_step_world:
  assumes "panel_step accs tempId e ev ui w = (ui', w', eff)" and "\<forall>x. eff \<noteq> StartAdd x"
  shows "accounts w' = accounts w \<or> (\<exists>aid. accounts w' = accounts (deleteAccount aid w))"
  using assms
  by (cases ev) (auto simp add: panel_step_def handleKeyPress_def handleAddAccount_def
      handleExportAccounts_def App_handleDeleteAccount_def Let_def add_effect_def
      split: if_splits prod.splits key.splits option.splits)

lemma app_gift_event_Some:
  "app_gift_event d e ev f w = (f', Some r) \<Longrightarrow> \<exists>gc. r = App_handleGiftCodeSubmit gc d e w"
  by (auto simp add: app_gift_event_def split: prod.splits)

lemma add_current_wf:
  assumes "addAccount (accounts w) num silent tempId e w = Returned (ok, e', w')"
    and "wf_accounts (accounts w)" and "tempId \<notin> set (map account_id (accounts w))"
  shows "wf_accounts (accounts w')"
proof (cases "list_ex (\<lambda>acc. accountNumber acc = num) (accounts w)")
  case True
  with assms(1) have "accounts w' = accounts w"
    by (auto simp add: addAccount_def)
  with assms(2) show ?thesis by simp
next
  case False
  then have "num \<notin> set (map accountNumber (accounts w))" by (auto simp add: list_ex_iff)
  with assms show ?thesis by (rule addAccount_wf_fresh)
qed

lemma round_wf:
  assumes "submitGiftCodeToAccounts snapshot c d e w = Returned (e', w')" and "wf_accounts (accounts w)"
  shows "wf_accounts (accounts w')"
  using assms(1)
proof (cases rule: submitGiftCodeToAccounts_ReturnedE)
  case rejected
  with assms(2) show ?thesis by simp
next
  case (round w'')
  have "evolves (accounts w) (accounts (start_round (filter isValidated snapshot) w))"
    by (simp add: start_round_def)
  moreover have "world_evolves (start_round (filter isValidated snapshot) w) w''"
    using round(2) by (rule submit_loop_evolves)
  then have "evolves (accounts (start_round (filter isValidated snapshot) w)) (accounts w'')"
    by (simp add: world_evolves_def)
  ultimately have "evolves (accounts w) (accounts w'')" by (rule evolves_trans)
  with assms(2) have "wf_accounts (accounts w'')" by (blast intro: evolves_wf)
  with round(3) show ?thesis by simp
qed

lemma app_step_hook_wf:
  assumes "app_step s t" and "wf_accounts (accounts (hook s))" and "wf_accounts (loadAccounts (store s))"
  shows "wf_accounts (accounts (hook t))"
  using assms
proof (induction rule: app_step.induct)
  case (app_start_step s ok)
  then show ?case by (auto simp add: app_start_def app_init_def Let_def split: prod.splits)
next
  case (app_panel_add s tempId e ev ui' w1 b e' w' ok)
  obtain n where "StartAdd (Returned (b, e', w')) = StartAdd (App_handleAddAccount (accounts (hook s)) n False tempId e (hook s))"
    using panel_step_StartAdd [OF app_panel_add.hyps(2)] by blast
  then have "addAccount (accounts (hook s)) n False tempId e (hook s) = Returned (b, e', w')"
    by (simp add: App_handleAddAccount_def)
  then show ?case using app_panel_add.prems(1) app_panel_add.hyps(3) by (simp add: add_current_wf)
next
  case (app_panel_other s tempId e ev ui' w' eff ok)
  then show ?case
    using panel_step_world [OF app_panel_other.hyps(2,3)] by (auto intro: wf_accounts_filter)
next
  case (app_import s fileOpt fr tid e e' ui' w' ok)
  then show ?case
    using handleFileChange_preserves_wf [OF app_import.hyps(2) app_import.prems(1) app_import.hyps(3,4)] by simp
next
  case (app_form_round s e ev f' e' w' ok)
  obtain gc where "App_handleGiftCodeSubmit gc (timer_delay (delayMs s)) e (hook s) = Returned (e', w')"
    using app_gift_event_Some [OF app_form_round.hyps(2)] by metis
  then show ?case
    using app_form_round.prems(1) by (auto simp add: App_handleGiftCodeSubmit_def intro: round_wf)
qed simp_all

lemma app_step_store:
  assumes "app_step s t" and "wf_accounts (accounts (hook s))"
    and "wf_accounts (loadAccounts (store s))" and "list_all persisted_account (loadAccounts (store s))"
  shows "wf_accounts (loadAccounts (store t)) \<and> list_all persisted_account (loadAccounts (store t))"
proof -
  have hook: "wf_accounts (accounts (hook t))" using assms(1-3) by (rule app_step_hook_wf)
  show ?thesis using assms hook
  proof (induction rule: app_step.induct)
    case (app_start_step s ok)
    then show ?case
      by (auto simp add: app_start_def app_save_def app_persist_def wf_sanitize sanitize_persisted
          split: prod.splits)
  qed (simp_all add: app_handled_def app_save_def app_persist_def wf_sanitize sanitize_persisted)
qed

lemma app_step_panel:
  assumes "app_step s t" and "panel_wf (panel s)"
  shows "panel_wf (panel t)"
  using assms
proof (induction rule: app_step.induct)
  case (app_start_step s ok)
  then show ?case by (simp add: app_start_def split: prod.splits)
next
  case (app_panel_add s tempId e ev ui' w1 b e' w' ok)
  then show ?case using panel_step_wf [of "panel s" "accounts (hook s)" tempId e ev "hook s"] by simp
next
  case (app_panel_other s tempId e ev ui' w' eff ok)
  then show ?case using panel_step_wf [of "panel s" "accounts (hook s)" tempId e ev "hook s"] by simp
next
  case (app_import s fileOpt fr tid e e' ui' w' ok)
  then show ?case using handleFileChange_input_frame [OF app_import.hyps(2)] by (simp add: panel_wf_def)
qed simp_all

lemma app_step_delay:
  assumes "app_step s t" and "delayMs s = initial_delayMs (delay_item s)"
  shows "delayMs t = initial_delayMs (delay_item t)"
  using assms
proof (induction rule: app_step.induct)
  case (app_start_step s ok)
  then show ?case by (simp add: app_start_def split: prod.splits)
next
  case (app_delay opt v item s)
  then show ?case by (simp add: select_delay_agrees)
qed simp_all

lemma show_new_alerts_last:
  assumes "alerts w' = alerts w @ xs" and "xs \<noteq> []"
  shows "alert (show_new_alerts w w' h) = \<lparr>alert_message = fst (last xs), alert_kind = snd (last xs), isVisible = True\<rparr>"
proof -
  have "alert (fold (\<lambda>(m, ty) h. useAlert_showAlert m ty h) xs h) =
          \<lparr>alert_message = fst (last xs), alert_kind = snd (last xs), isVisible = True\<rparr>"
    if "xs \<noteq> []" for xs h
    using that
  proof (induction xs arbitrary: h rule: rev_induct)
    case (snoc x xs)
    then show ?case by (cases x) (simp add: useAlert_showAlert_def)
  qed simp
  with assms show ?thesis by (simp add: show_new_alerts_def)
qed

text \<open>After a handler that raised notifications, the dialog shows the last of them.\<close>

lemma app_handled_dialog:
  assumes "alerts w' = alerts (hook s) @ xs" and "xs \<noteq> []"
  shows "view_dialog (App_view (app_handled ok w' s)) =
           Some \<lparr>dialog_message = fst (last xs), dialog_style = getAlertStyles (snd (last xs)),
                 dialog_icon = getIcon (snd (last xs))\<rparr>"
  using show_new_alerts_last [OF assms, of "notifier s"]
  by (simp add: App_view_def App_alert_view_def Alert_view_def app_handled_def app_save_def)

subsection \<open>The application's invariant\<close>

text \<open>
  The invariant of serialised use. \<open>app_step\<close> runs each handler to its end before the
  next action of the user, so this holds for the runs in which the user waits for every
  add, import and round to finish: from a stored list that a previous save wrote, the
  registry and the stored list keep unique ids and numbers (validated accounts with a
  profile), the store holds only idle accounts without result text, the panel's number
  field holds only digits, and the interval in use is the one a reload would read. It
  does not hold for the program as such: the number field stays open during an import,
  and an add confirmed while the import waits is appended again by the import's stale
  callback (\<open>stale_snapshot_duplicates\<close>).
\<close>

theorem app_reach_invariant:
  assumes "app_reach s"
  shows "wf_accounts (accounts (hook s)) \<and> wf_accounts (loadAccounts (store s)) \<and>
         list_all persisted_account (loadAccounts (store s)) \<and> list_all is_digit (newAccount (panel s)) \<and>
         delayMs s = initial_delayMs (delay_item s)"
proof -
  have "wf_accounts (accounts (hook s)) \<and> wf_accounts (loadAccounts (store s)) \<and>
        list_all persisted_account (loadAccounts (store s)) \<and> panel_wf (panel s) \<and>
        delayMs s = initial_delayMs (delay_item s)"
    using assms
  proof (induction rule: app_reach.induct)
    case (app_reach_init ls item lng)
    then show ?case
      by (simp add: initial_app_model_def initial_world_def wf_accounts_def panel_wf_def
          initial_manager_ui_def)
  next
    case (app_reach_step s t)
    then show ?case using app_step_hook_wf app_step_store app_step_panel app_step_delay by blast
  qed
  then show ?thesis by (simp add: panel_wf_def)
qed
end
