(* ===== verification/Request.thy ===== *)
theory Request
  imports FileUtils
begin

text \<open>
  The HTTP requests the two services are sent: the constants of
  \<^verbatim>\<open>src/src/constants/index.ts\<close> and the \<^verbatim>\<open>fetch\<close> options that
  \<^verbatim>\<open>fetchPlayerInfo\<close> (\<^verbatim>\<open>src/src/utils/playerApi.ts\<close>) and \<^verbatim>\<open>submitGiftCode\<close>
  (\<^verbatim>\<open>src/src/utils/giftCodeApi.ts\<close>) build: the parameters are signed with
  \<open>generateSign\<close> of \<open>ApiSign\<close>, and the body is a template literal of
  \<^verbatim>\<open>key=value\<close> pairs joined by \<^verbatim>\<open>&\<close>, sent as
  \<^verbatim>\<open>application/x-www-form-urlencoded\<close> with no encoding of the values. \<^verbatim>\<open>Date.now()\<close> is
  the argument \<open>time\<close>. The service's side of the exchange is its reading of the body:
  the form decoding of the URL standard (\<open>form_decode\<close>), after which it recomputes the
  signature over the fields it received, all of them text.
\<close>

subsection \<open>Constants (\<^verbatim>\<open>constants/index.ts\<close>)\<close>

definition API_ENDPOINTS_GIFT_CODE :: string where
  "API_ENDPOINTS_GIFT_CODE = ''https://kingshot-giftcode.centurygame.com/api/gift_code''"

definition API_ENDPOINTS_PLAYER_INFO :: string where
  "API_ENDPOINTS_PLAYER_INFO = ''https://kingshot-giftcode.centurygame.com/api/player''"

definition DEFAULT_HEADERS :: "(string \<times> string) list" where
  "DEFAULT_HEADERS =
     [(''accept'', ''application/json, text/plain, */*''),
      (''accept-language'', ''zh-TW,zh;q=0.9,zh-HK;q=0.8,zh-CN;q=0.7,en;q=0.6,en-US;q=0.5''),
      (''content-type'', ''application/x-www-form-urlencoded''),
      (''priority'', ''u=1, i''),
      (''sec-ch-ua'', ''\"Not)A;Brand\";v=\"8\", \"Chromium\";v=\"138\", \"Google Chrome\";v=\"138\"''),
      (''sec-ch-ua-mobile'', ''?0''),
      (''sec-ch-ua-platform'', ''\"macOS\"''),
      (''sec-fetch-dest'', ''empty''),
      (''sec-fetch-mode'', ''cors''),
      (''sec-fetch-site'', ''same-site'')]"

definition REFERRER :: string where
  "REFERRER = ''https://ks-giftcode.centurygame.com/''"

subsection \<open>The requests\<close>

text \<open>The \<^verbatim>\<open>fetch(url, init)\<close> call, by the fields of \<^verbatim>\<open>init\<close> the code sets.\<close>

record http_request =
  req_url :: string
  req_headers :: "(string \<times> string) list"
  req_referrer :: string
  req_body :: string
  req_method :: string
  req_mode :: string
  req_credentials :: string

text \<open>\<^verbatim>\<open>fetchPlayerInfo(fid)\<close>: \<^verbatim>\<open>params = { fid, time }\<close>.\<close>

definition playerInfo_params :: "string \<Rightarrow> int \<Rightarrow> sign_params" where
  "playerInfo_params fid_text time = [(''fid'', VStr fid_text), (''time'', VNum time)]"

definition playerInfo_request :: "(string \<Rightarrow> string) \<Rightarrow> string \<Rightarrow> int \<Rightarrow> http_request" where
  "playerInfo_request md5 fid_text time =
     (let sign = generateSign md5 (playerInfo_params fid_text time) None in
      \<lparr>req_url = API_ENDPOINTS_PLAYER_INFO, req_headers = DEFAULT_HEADERS, req_referrer = REFERRER,
       req_body = ''sign='' @ sign @ ''&fid='' @ fid_text @ ''&time='' @ js_int_string time,
       req_method = ''POST'', req_mode = ''cors'', req_credentials = ''omit''\<rparr>)"

text \<open>\<^verbatim>\<open>submitGiftCode(accountNumber, giftCode)\<close>: \<^verbatim>\<open>params = { fid, time, cdk, captcha_code: "" }\<close>.\<close>

definition giftCode_params :: "string \<Rightarrow> string \<Rightarrow> int \<Rightarrow> sign_params" where
  "giftCode_params acct cdk time =
     [(''fid'', VStr acct), (''time'', VNum time), (''cdk'', VStr cdk), (''captcha_code'', VStr [])]"

definition giftCode_request :: "(string \<Rightarrow> string) \<Rightarrow> string \<Rightarrow> string \<Rightarrow> int \<Rightarrow> http_request" where
  "giftCode_request md5 acct cdk time =
     (let sign = generateSign md5 (giftCode_params acct cdk time) None in
      \<lparr>req_url = API_ENDPOINTS_GIFT_CODE, req_headers = DEFAULT_HEADERS, req_referrer = REFERRER,
       req_body = ''sign='' @ sign @ ''&fid='' @ acct @ ''&cdk='' @ cdk @
                  ''&captcha_code=&time='' @ js_int_string time,
       req_method = ''POST'', req_mode = ''cors'', req_credentials = ''omit''\<rparr>)"

subsection \<open>The service's reading of the body\<close>

text \<open>
  The \<^verbatim>\<open>application/x-www-form-urlencoded\<close> parser of the URL standard: the body split at
  \<^verbatim>\<open>&\<close>, empty pieces skipped, each piece split at its first \<^verbatim>\<open>=\<close> (no \<^verbatim>\<open>=\<close>: an
  empty value), then \<^verbatim>\<open>+\<close> read as a space and \<^verbatim>\<open>%XX\<close> as the byte \<open>XX\<close>.
\<close>

definition hex_value :: "char \<Rightarrow> nat option" where
  "hex_value c =
     (let n = of_char c :: nat in
      if 48 \<le> n \<and> n \<le> 57 then Some (n - 48)
      else if 65 \<le> n \<and> n \<le> 70 then Some (n - 55)
      else if 97 \<le> n \<and> n \<le> 102 then Some (n - 87) else None)"

fun url_decode :: "string \<Rightarrow> string" where
  "url_decode [] = []"
| "url_decode (c # cs) =
     (if c = CHR ''+'' then CHR '' '' # url_decode cs
      else if c = CHR ''%'' then
        (case cs of
           a # b # rest \<Rightarrow>
             (case (hex_value a, hex_value b) of
                (Some x, Some y) \<Rightarrow> char_of (16 * x + y) # url_decode rest
              | _ \<Rightarrow> c # url_decode cs)
         | _ \<Rightarrow> c # url_decode cs)
      else c # url_decode cs)"

definition form_field :: "string \<Rightarrow> string \<times> string" where
  "form_field piece =
     (url_decode (takeWhile (\<lambda>c. c \<noteq> CHR ''='') piece),
      url_decode (drop 1 (dropWhile (\<lambda>c. c \<noteq> CHR ''='') piece)))"

definition form_decode :: "string \<Rightarrow> (string \<times> string) list" where
  "form_decode body = map form_field (filter (\<lambda>p. p \<noteq> []) (js_split (CHR ''&'') body))"

text \<open>The parameters the service signs again: every field as text.\<close>

definition received_params :: "string \<Rightarrow> sign_params" where
  "received_params body = map (\<lambda>(k, v). (k, VStr v)) (form_decode body)"

text \<open>Text the form decoding reads back unchanged inside a value.\<close>

definition form_safe :: "string \<Rightarrow> bool" where
  "form_safe s = (\<forall>c \<in> set s. c \<noteq> CHR ''&'' \<and> c \<noteq> CHR ''%'' \<and> c \<noteq> CHR ''+'')"

subsection \<open>Lemmas\<close>

lemma url_decode_safe: "form_safe s \<Longrightarrow> url_decode s = s"
  by (induction s) (auto simp add: form_safe_def)

lemma digits_chars: "c \<in> set (digits n) \<Longrightarrow> 48 \<le> (of_char c :: nat) \<and> (of_char c :: nat) < 58"
proof (induction n rule: digits.induct)
  case (1 n)
  then show ?case
    by (cases "n < 10") (auto simp add: digits_small digits_big simp del: digits.simps)
qed

lemma form_safe_int_string: "form_safe (js_int_string i)"
proof -
  have "c \<noteq> CHR ''&'' \<and> c \<noteq> CHR ''%'' \<and> c \<noteq> CHR ''+''" if "c \<in> set (digits n)" for c n
    using digits_chars [OF that] by fastforce
  then show ?thesis by (auto simp add: form_safe_def js_int_string_def simp del: digits.simps)
qed

lemma form_safe_amp: "form_safe s \<Longrightarrow> CHR ''&'' \<notin> set s"
  by (auto simp add: form_safe_def)

lemma form_safe_sign: "\<forall>x. form_safe (md5 x) \<Longrightarrow> form_safe (generateSign md5 ps salt)"
  by (simp add: generateSign_def)

text \<open>The two bodies are the pieces the service splits them into, joined by \<^verbatim>\<open>&\<close>.\<close>

lemma giftCode_body:
  "req_body (giftCode_request md5 acct cdk t) =
     js_join ''&'' [''sign='' @ generateSign md5 (giftCode_params acct cdk t) None, ''fid='' @ acct,
                    ''cdk='' @ cdk, ''captcha_code='', ''time='' @ js_int_string t]"
  by (simp add: giftCode_request_def Let_def)

lemma playerInfo_body:
  "req_body (playerInfo_request md5 fid_text t) =
     js_join ''&'' [''sign='' @ generateSign md5 (playerInfo_params fid_text t) None, ''fid='' @ fid_text,
                    ''time='' @ js_int_string t]"
  by (simp add: playerInfo_request_def Let_def)

lemma form_decode_join:
  assumes "\<forall>x\<in>set ps. CHR ''&'' \<notin> set x" and "ps \<noteq> []"
  shows "form_decode (js_join ''&'' ps) = map form_field (filter (\<lambda>p. p \<noteq> []) ps)"
  using js_split_join [OF assms] by (simp add: form_decode_def)

lemma giftCode_decode:
  assumes "form_safe acct" "form_safe cdk" "\<forall>x. form_safe (md5 x)"
  shows "form_decode (req_body (giftCode_request md5 acct cdk t)) =
           [(''sign'', generateSign md5 (giftCode_params acct cdk t) None), (''fid'', acct), (''cdk'', cdk),
            (''captcha_code'', []), (''time'', js_int_string t)]"
proof -
  let ?s = "generateSign md5 (giftCode_params acct cdk t) None"
  have safe: "form_safe ?s" "form_safe (js_int_string t)"
    using form_safe_sign [OF assms(3)] form_safe_int_string by simp_all
  then have "form_decode (req_body (giftCode_request md5 acct cdk t)) =
          map form_field [''sign='' @ ?s, ''fid='' @ acct, ''cdk='' @ cdk, ''captcha_code='', ''time='' @ js_int_string t]"
    unfolding giftCode_body using assms(1,2) by (subst form_decode_join) (auto simp add: form_safe_amp)
  then show ?thesis
    using safe assms(1,2) by (simp add: form_field_def url_decode_safe del: digits.simps)
qed

lemma playerInfo_decode:
  assumes "form_safe fid_text" "\<forall>x. form_safe (md5 x)"
  shows "form_decode (req_body (playerInfo_request md5 fid_text t)) =
           [(''sign'', generateSign md5 (playerInfo_params fid_text t) None), (''fid'', fid_text),
            (''time'', js_int_string t)]"
proof -
  let ?s = "generateSign md5 (playerInfo_params fid_text t) None"
  have safe: "form_safe ?s" "form_safe (js_int_string t)"
    using form_safe_sign [OF assms(2)] form_safe_int_string by simp_all
  then have "form_decode (req_body (playerInfo_request md5 fid_text t)) =
          map form_field [''sign='' @ ?s, ''fid='' @ fid_text, ''time='' @ js_int_string t]"
    unfolding playerInfo_body using assms(1) by (subst form_decode_join) (auto simp add: form_safe_amp)
  then show ?thesis
    using safe assms(1) by (simp add: form_field_def url_decode_safe del: digits.simps)
qed

text \<open>The query the client signs, and the one the service signs again, for both requests.\<close>

lemma giftCode_sign_query:
  "sign_query (giftCode_params acct cdk t) =
     ''captcha_code=&cdk='' @ cdk @ ''&fid='' @ acct @ ''&time='' @ js_int_string t"
  by (simp add: sign_query_def giftCode_params_def)

lemma playerInfo_sign_query:
  "sign_query (playerInfo_params fid_text t) = ''fid='' @ fid_text @ ''&time='' @ js_int_string t"
  by (simp add: sign_query_def playerInfo_params_def)

lemma received_giftCode_sign_query:
  "sign_query [(''fid'', VStr acct), (''cdk'', VStr cdk), (''captcha_code'', VStr []), (''time'', VStr x)] =
     ''captcha_code=&cdk='' @ cdk @ ''&fid='' @ acct @ ''&time='' @ x"
  by (simp add: sign_query_def)

lemma received_playerInfo_sign_query:
  "sign_query [(''fid'', VStr f), (''time'', VStr x)] = ''fid='' @ f @ ''&time='' @ x"
  by (simp add: sign_query_def)

subsection \<open>Properties of the requests\<close>

text \<open>
  C35: The signed requests reach the service intact: for account numbers, gift codes and
  digests in which the form decoding changes nothing (no \<^verbatim>\<open>&\<close>, \<^verbatim>\<open>%\<close> or \<^verbatim>\<open>+\<close>),
  both requests go to their endpoint as form-encoded POSTs, the service reads back exactly
  the signed parameters and the signature, and the signature it recomputes over the
  fields it received, all as text, equals the one sent, whatever the digest function.
\<close>

theorem request_signature_verifies:
  assumes "form_safe acct" and "form_safe cdk" and "form_safe fid_text" and "\<forall>x. form_safe (md5 x)"
  shows "req_url (giftCode_request md5 acct cdk t) = API_ENDPOINTS_GIFT_CODE \<and>
         req_url (playerInfo_request md5 fid_text t) = API_ENDPOINTS_PLAYER_INFO \<and>
         req_method (giftCode_request md5 acct cdk t) = ''POST'' \<and>
         map_of (req_headers (giftCode_request md5 acct cdk t)) ''content-type'' =
           Some ''application/x-www-form-urlencoded'' \<and>
         form_decode (req_body (giftCode_request md5 acct cdk t)) =
           [(''sign'', generateSign md5 (giftCode_params acct cdk t) None), (''fid'', acct), (''cdk'', cdk),
            (''captcha_code'', []), (''time'', js_int_string t)] \<and>
         verifySign md5 (received_params (req_body (giftCode_request md5 acct cdk t))) None \<and>
         form_decode (req_body (playerInfo_request md5 fid_text t)) =
           [(''sign'', generateSign md5 (playerInfo_params fid_text t) None), (''fid'', fid_text),
            (''time'', js_int_string t)] \<and>
         verifySign md5 (received_params (req_body (playerInfo_request md5 fid_text t))) None"
proof -
  note g = giftCode_decode [OF assms(1,2,4), of t] and p = playerInfo_decode [OF assms(3,4), of t]
  have "verifySign md5 (received_params (req_body (giftCode_request md5 acct cdk t))) None"
    by (simp add: verifySign_def received_params_def g generateSign_def giftCode_sign_query
        received_giftCode_sign_query del: digits.simps)
  moreover have "verifySign md5 (received_params (req_body (playerInfo_request md5 fid_text t))) None"
    by (simp add: verifySign_def received_params_def p generateSign_def playerInfo_sign_query
        received_playerInfo_sign_query del: digits.simps)
  ultimately show ?thesis
    using g p by (simp add: giftCode_request_def playerInfo_request_def Let_def DEFAULT_HEADERS_def)
qed

text \<open>
  The body is not encoded: a gift code with \<^verbatim>\<open>&\<close> reaches the service as a shorter code
  and an extra field, one with \<^verbatim>\<open>+\<close> with a space in its place, and the query the
  service signs again is not the one the client signed.
\<close>

theorem unencoded_gift_code:
  "form_decode (req_body (giftCode_request (\<lambda>_. ''0'') ''1001'' ''A&B'' 5)) =
     [(''sign'', ''0''), (''fid'', ''1001''), (''cdk'', ''A''), (''B'', []), (''captcha_code'', []), (''time'', ''5'')] \<and>
   form_decode (req_body (giftCode_request (\<lambda>_. ''0'') ''1001'' ''A+B'' 5)) ! 2 = (''cdk'', ''A B'') \<and>
   sign_query (filter (\<lambda>(k, v). k \<noteq> ''sign'') (received_params (req_body (giftCode_request (\<lambda>_. ''0'') ''1001'' ''A&B'' 5))))
     \<noteq> sign_query (giftCode_params ''1001'' ''A&B'' 5)"
  by (simp add: giftCode_request_def generateSign_def form_decode_def form_field_def received_params_def
      sign_query_def giftCode_params_def js_int_string_def digits_small hex_value_def char_of_def bit_iff_odd
      del: digits.simps)

end
