(* ===== verification/Spec2Isabelle.thy ===== *)
theory Spec2Isabelle
  imports AddAccount Validation Redemption AccountManager StatusView Persistence ApiSign Notifications
    ManagerPanel GiftCodeInput Settings AlertView Language AppMain Request
begin

text \<open>
  \<^bold>\<open>Verification of the gift-code batch redeemer\<close> (repository ggyhrr/gift-code).

  \<^bold>\<open>The program.\<close> A React app keeps a roster of game accounts, looks up each
  account's public profile, and submits one gift code to every validated account, one
  request at a time with a configurable delay. Its logic lives in the hook
  \<^verbatim>\<open>src/src/hooks/useAccountActions.ts\<close>: the account registry (\<^verbatim>\<open>accounts\<close>
  state, the cancellation set \<^verbatim>\<open>cancelledIdsRef\<close>, the counters \<^verbatim>\<open>isProcessing\<close> and
  \<^verbatim>\<open>processingRemaining\<close>), its update primitives (\<^verbatim>\<open>updateAccountStatus\<close>,
  \<^verbatim>\<open>updateAccountStatusBatch\<close>, \<^verbatim>\<open>deleteAccount\<close>), and three async handlers:
  \<^verbatim>\<open>addAccount\<close>, the validation engine \<^verbatim>\<open>validateAccounts\<close> and the redemption engine
  \<^verbatim>\<open>submitGiftCodeToAccounts\<close>. The handlers call the two remote services
  (\<^verbatim>\<open>src/src/utils/playerApi.ts\<close>, \<^verbatim>\<open>src/src/utils/giftCodeApi.ts\<close>, whose requests
  are signed by \<^verbatim>\<open>src/src/utils/apiSign.ts\<close>) and write back through the update
  primitives; the user may delete an account whenever a handler is suspended at an
  \<^verbatim>\<open>await\<close>. Around the hook, \<^verbatim>\<open>src/src/App.tsx\<close> loads the list from
  \<^verbatim>\<open>localStorage\<close> at start-up and saves a sanitised copy after each change
  (\<^verbatim>\<open>src/src/utils/storageUtils.ts\<close>); the account manager panel
  (\<^verbatim>\<open>src/src/components/AccountManager.tsx\<close>) adds typed numbers and imports text files
  (\<^verbatim>\<open>src/src/utils/fileUtils.ts\<close>) through App's \<^verbatim>\<open>handleAddAccount\<close>; the statistics
  panel (\<^verbatim>\<open>src/src/components/StatusStats.tsx\<close>) shows the counts of
  \<^verbatim>\<open>src/src/utils/statsUtils.ts\<close>. The gift-code form
  (\<^verbatim>\<open>src/src/components/GiftCodeInput.tsx\<close>) starts a round and is disabled while one
  runs; the dialog \<^verbatim>\<open>src/src/components/Alert.tsx\<close> shows the notifications of
  \<^verbatim>\<open>src/src/hooks/useAlert.ts\<close>; the language switcher changes the \<^verbatim>\<open>i18next\<close>
  language that \<^verbatim>\<open>src/src/i18n/index.ts\<close> detects at page load; App keeps the request
  interval in \<^verbatim>\<open>localStorage\<close> and passes it to the engines. The two services are
  reached by signed form-encoded POST requests built from \<^verbatim>\<open>src/src/constants/index.ts\<close>.

  \<^bold>\<open>The theories.\<close>
  \<^item> \<open>Prelude\<close>: named collections (\<open>frame_simps\<close>, \<open>wf_preserve\<close>), JavaScript
    string truthiness (\<open>js_or\<close>), generic lemmas on lists updated by key.
  \<^item> \<open>Model\<close>: \<^verbatim>\<open>src/src/types/index.ts\<close> and \<^verbatim>\<open>src/src/constants/index.ts\<close>:
    \<open>account_status\<close>, the records \<open>player_info\<close>, \<open>account\<close>,
    \<open>base_api_response\<close> and its extension \<open>player_info_response\<close>, \<open>err_code\<close>
    (\<^verbatim>\<open>string | number\<close>), the error-code constants, and \<open>message\<close>, one
    constructor per translation key with its parameters (the i18n catalogue is not modelled).
  \<^item> \<open>Api\<close>: \<open>fetchPlayerInfo\<close>, \<open>submitGiftCode\<close>, \<open>getGiftCodeResultMessage\<close>
    classify a \<open>transport\<close> outcome of one HTTP exchange (network failure, non-OK
    status, unparsable body, parsed body) exactly as the code's checks do;
    \<open>lookupErrorMessage\<close> and \<open>redeemErrorMessage\<close> are the hook's \<^verbatim>\<open>catch\<close> blocks.
  \<^item> \<open>ApiSign\<close>: \<open>generateSign\<close>, \<open>createSignedParams\<close>, \<open>verifySign\<close> over
    parameter objects as association lists; MD5 is a parameter.
  \<^item> \<open>NumberText\<close>: numbers as text: \<^verbatim>\<open>toFixed\<close> on exact reals (\<open>js_toFixed\<close>)
    and \<^verbatim>\<open>parseFloat\<close> of its result written back (\<open>js_fixed_number_text\<close>).
  \<^item> \<open>Request\<close>: the endpoints, headers and referrer of \<^verbatim>\<open>constants/index.ts\<close> and the
    requests \<open>playerInfo_request\<close> and \<open>giftCode_request\<close> (signed parameters, body
    as the template literal writes it); the service's reading of a body is the form
    decoding of the URL standard (\<open>form_decode\<close>), the observer of the round trip.
  \<^item> \<open>Registry\<close>: the hook state \<open>world\<close> (a record of the state cells plus two ghost
    logs: the notifications passed to \<^verbatim>\<open>onShowAlert\<close> and the \<open>events\<close>, i.e. the
    network and timer calls and the user's deletions, in order); \<open>merge_status\<close>,
    \<open>updateAccountStatus\<close>, \<open>updateAccountStatusBatch\<close>, \<open>deleteAccount\<close>; the
    invariant \<open>wf_accounts\<close> (unique ids, unique numbers, validated implies profile);
    the relation \<open>evolves\<close> (the new list embeds in order into the old, each account a
    later version of its old self) and \<open>world_evolves\<close> (plus: no account deleted during
    the run is live at its end).
  \<^item> \<open>Effects\<close>: the suspension points. The environment \<open>env\<close> is a script with one
    list per kind of await (profile lookups, redemptions, timers); each entry gives the
    ids the user deletes while the await is pending and the HTTP outcome it resumes with.
    An exhausted script is an await that never resumes: the run is
    \<open>Suspended w\<close> with the state \<open>w\<close> the user sees from then on.
  \<^item> \<open>AddAccount\<close>, \<open>Validation\<close>, \<open>Redemption\<close>: the three handlers, each split
    as the code is (the validation turn into \<open>validate_progress\<close>, the await and
    \<open>validate_write\<close>; the redemption turn into \<open>submit_body\<close> and \<open>redeem_attempt\<close>;
    the \<^verbatim>\<open>for\<close> loops as structural recursion \<open>validate_loop\<close>, \<open>submit_loop\<close> over
    the accounts not yet visited, keeping \<^verbatim>\<open>continue\<close>, \<^verbatim>\<open>break\<close> and the
    no-trailing-delay test). The render-time list a callback closes over is an explicit
    \<open>snapshot\<close> argument; every \<^verbatim>\<open>setAccounts(prev => ...)\<close> applies to the current state.
  \<^item> \<open>FileUtils\<close>: JavaScript's \<^verbatim>\<open>split\<close>, \<^verbatim>\<open>join\<close>, \<^verbatim>\<open>trim\<close> on byte strings,
    \<open>parseAccountsFromText\<close>, \<open>validateAccountFormat\<close>, \<open>validateAccountList\<close> (the
    \<^verbatim>\<open>forEach\<close> as a \<open>fold\<close> of \<open>validate_list_step\<close>), the export content,
    \<open>isTextFile\<close>, \<open>readTextFile\<close> by the reader event that fires, and
    \<open>formatFileSize\<close>, whose unit index \<open>size_index\<close> is computed by repeated division
    by 1024 (well-founded on \<open>n div 1024 < n\<close>) and shown equal to the code's quotient of
    logarithms.
  \<^item> \<open>AccountManager\<close>: the panel state \<open>manager_ui\<close>, \<open>App_handleAddAccount\<close> (App's
    callback), \<open>handleAddAccount\<close>, \<open>handleKeyPress\<close>, \<open>handleExportAccounts\<close> and the
    import \<open>handleFileChange\<close>, split as \<open>import_classify\<close>, the throttled
    \<open>import_loop\<close> (structural over the new numbers, with the same awaits as the hook),
    \<open>import_finish\<close> and \<open>import_reset\<close>.
  \<^item> \<open>Stats\<close>, \<open>StatusView\<close>: \<open>calculateAccountStats\<close> and the other views of
    \<^verbatim>\<open>statsUtils.ts\<close> (numbers as exact reals, \<^verbatim>\<open>Math.round\<close> as \<open>js_round\<close>),
    \<open>status_display\<close> of the statistics panel, the icon and colour maps,
    \<open>formatPercentage\<close> with \<^verbatim>\<open>toFixed\<close> on exact reals as \<open>js_toFixed\<close>, and the
    cards, progress bar and summary of \<^verbatim>\<open>StatusStats.tsx\<close> as \<open>StatusStats_view\<close>.
  \<^item> \<open>Notifications\<close>: the alert state of \<^verbatim>\<open>useAlert.ts\<close> with explicit time and
    its pending auto-hide timers.
  \<^item> \<open>Persistence\<close>: \<^verbatim>\<open>localStorage\<close> as a map from keys to parsed JSON
    (\<open>stored\<close>), the storage helpers, \<open>sanitize\<close>, \<open>app_init\<close>, \<open>app_persist\<close>,
    and the delayed save \<open>createAutoSave\<close> over explicit browser timers
    (\<open>timer_env\<close>, \<open>clearTimeout\<close>, \<open>timers_advance\<close>).
  \<^item> \<open>ManagerPanel\<close>: the rendered panel (\<open>manager_view\<close>: rows with avatar, profile
    or number, result line, status icon and delete button; the import, export and add
    controls with their labels) and every control as one step \<open>panel_step\<close> on the
    panel state and the hook state; \<open>panel_reach\<close>, the panel states reachable by
    controls and finished imports.
  \<^item> \<open>GiftCodeInput\<close>: the gift-code form (\<open>gift_step\<close>, the submit guard and label)
    and App's wiring of it to \<open>submitGiftCodeToAccounts\<close> (\<open>app_gift_event\<close>).
  \<^item> \<open>AlertView\<close>: the dialog of \<^verbatim>\<open>src/src/components/Alert.tsx\<close> for the state of
    \<^verbatim>\<open>useAlert\<close>, its styles, icons and close buttons.
  \<^item> \<open>Settings\<close>: App's request-interval setting: \<^verbatim>\<open>parseInt\<close> (\<open>js_parseInt\<close>) of
    the stored text, the select writing \<^verbatim>\<open>String(v)\<close>, and \<^verbatim>\<open>setTimeout\<close>'s clamp
    (\<open>timer_delay\<close>): the \<open>d\<close> the engines take is \<open>timer_delay delayMs\<close>.
  \<^item> \<open>Language\<close>: the configuration of \<^verbatim>\<open>src/src/i18n/index.ts\<close> as \<^verbatim>\<open>i18next\<close>
    and its browser detector apply it (\<open>i18n_init\<close>: the candidates of \<^verbatim>\<open>?lang\<close>,
    the cached \<^verbatim>\<open>i18nextLng\<close> and \<^verbatim>\<open>navigator.languages\<close> in that order, the best
    match, the fallback, the cache write), \<open>changeLanguage\<close>, and the language
    switcher \<^verbatim>\<open>src/src/components/LanguageSwitcher.tsx\<close>.
  \<^item> \<open>AppMain\<close>: App as one state machine (\<open>app_step\<close>, an inductive relation over
    \<open>app_model\<close>: the phase of the start-up effect, the hook state, the store, the
    request interval and its stored item, the notification hook, the language, the panel
    and the form) and its render \<open>App_view\<close>: the start-up effect, every panel action
    (the add it starts run to its end), an import, a use of the gift-code form (the round
    it starts run to its end), each passing its notifications to \<^verbatim>\<open>useAlert\<close> and
    followed by the save effect; closing the dialog, the clock, the switcher and the
    interval select; \<open>app_reach\<close>, the states reachable from a stored list a previous
    save wrote.
  \<^item> This theory: fixtures, the scenarios A to E of the specification and the
    concrete runs behind the findings (plain theorems: computations on fixed inputs, not
    claims), the properties spanning components, and the witnesses.

  \<^bold>\<open>What is proved.\<close> Registry (C3, C13): any sequence of primitive calls keeps
  the registry well formed and only evolves it; the batch update equals the sequence of
  single updates. Redemption (C1, C4, C5, C6, C11, C17): the loop decrements the counter
  exactly once per account (from any start value), so a round's counter is 0 when its
  loop ends; one refresh per snapshot account in order, deleted or not, at most one
  redemption each; the precondition failure changes nothing but one warning; the reset
  turns exactly the finished accounts idle and leaves the others as they were; a round
  returns once the environment answers; nothing is resurrected. Validation (C2, C10,
  C12): the cancellation set is empty after a batch and deleted accounts stay deleted; a
  batch returns once answered; lookups in list order, covering every account never
  deleted. Add (C7, C8, C9, C18): uniqueness of numbers when the snapshot is the current
  list; exact outcome of a successful and of a failed first lookup; and with a stale
  snapshot that lacks a number already registered, a successful add duplicates it. API
  (C14, C15, C16): when a lookup succeeds, which failures read as "account does not
  exist", and the agreement of the two gift-code classifications. Signer (C19): sign
  then verify succeeds for every digest function, and the signature ignores key order.
  Statistics (C20): the panel's progress lies in 0..100. Persistence (C21, C26, C37): the
  storage helpers refine a map from ids to accounts (\<open>stored_by_id\<close>, lookup after
  delete, update and add); save then reload gives the sanitised registry; a delayed save
  cleared in time never writes and only the last of two debounced saves does. Files
  (C22, C23, C34): exporting then importing gives the numbers back;
  \<open>validateAccountList\<close> keeps first occurrences split by format and counts every later
  occurrence as a duplicate; the size text's unit index equals
  \<^verbatim>\<open>Math.floor(Math.log(bytes) / Math.log(1024))\<close> on exact reals. Import (C24, C25): an
  import ends with a summary whose counts add up to the new numbers, after one error
  notification per failed add; it looks up exactly the new numbers in file order. User
  interface (C27 to C33): the panel's number field is a digit string in every reachable
  panel state, so an enabled confirm adds exactly what is shown (a type invariant, by
  rule induction on \<open>panel_reach\<close>); the panel never deletes an account in flight; the
  form starts a round only with a non-empty code, no round running and a non-empty
  registry, and a pending round blocks it; choosing an interval and restarting reads it
  back; the dialog shows the latest notification exactly until its own timer or an
  earlier pending one fires, or a button closes it; the switcher reads a supported
  language and highlights exactly one button. Requests (C35): for values the form
  decoding leaves alone, the service reads back exactly the signed parameters and its
  recomputed signature equals the one sent. Localisation (C36): a page load resolves a
  supported code, a switcher choice survives a reload without \<^verbatim>\<open>?lang\<close>, and a
  supported \<^verbatim>\<open>?lang\<close> wins and is cached. The application (lemma
  \<open>app_reach_invariant\<close>, not a claim): when the user waits for every handler to finish,
  the registry and the stored list stay well formed, the store holds only idle accounts
  without result text, the number field only digits and the interval in use is the one
  a reload would read (rule induction on \<open>app_reach\<close>); the well-formedness part fails
  for the program, whose number field stays open during an import (C18). Lemmas kept
  beside the claims show an update for a missing id is a no-op, an import keeps the
  registry well formed, bounds of the counts, grouping equals partition by status, the
  storage helpers keep stored numbers unique, a typed number reaches the hook only as a
  trimmed run of digits, the scenarios end as the specification says, and a round's
  statistics go from 0\<open>%\<close> to 100\<open>%\<close>.

  \<^bold>\<open>Termination.\<close> Every loop is structural recursion on the list it iterates
  (\<open>digits\<close> and \<open>size_index\<close> are well-founded on \<open>n div 10 < n\<close> and
  \<open>n div 1024 < n\<close>, \<open>url_decode\<close> on the length of its input), so every definition is total and
  executable; there is no fuel. The only way a handler does not return is an await the
  environment never answers, and C10 and C11 state how many answers suffice (one lookup
  per account, one redemption per validated account, one delay fewer than accounts).

  \<^bold>\<open>Findings\<close> (C4, C15, C18, C24, C28, C29, C32, and the theorems
  \<open>validation_progress_exceeds_total\<close>, \<open>redemption_ignores_deletion\<close>,
  \<open>import_shows_per_account_alerts\<close>, \<open>reload_keeps_pending_add\<close>,
  \<open>alert_hidden_early\<close>, \<open>escape_key_ignored\<close>, \<open>stored_delay_unthrottled\<close>,
  \<open>success_alert_cross_icon\<close>, \<open>formatFileSize_boundaries\<close>,
  \<open>unencoded_gift_code\<close> and \<open>language_detection_quirks\<close>): the validation progress
  can show more processed than total accounts ("3 of 2" in scenario D); the redemption
  engine ignores deletions and still submits the code for a deleted account; the
  duplicate check of a stale callback admits a duplicate number; an \<^verbatim>\<open>err_code\<close> of
  "40004" sent as a string is not recognised as "account does not exist"; the import
  asks for silent adds but App's callback drops the option, so every failed add of an
  import is notified on its own; a reload while an add is pending keeps the temporary
  account as an idle, unvalidated account that nothing validates again; the auto-hide
  timer of a notification is never cancelled and hides a later notification early;
  the number field stays open during an import, so an add confirmed meanwhile is
  appended again by the import;
  Escape never reaches the number field's key handler; the panel disables deletion of a
  row in flight, which the specification allows; the hook's empty-registry warning
  cannot be reached from the form; a stored interval without digits or below zero leaves
  the engines unthrottled; a success notification shows the cross icon of an error; a
  file of a tebibyte or more is reported in the unit "undefined" and one just over the
  import limit reads "1 MB"; the request bodies are not URL-encoded, so a gift code with
  \<^verbatim>\<open>&\<close> or \<^verbatim>\<open>+\<close> reaches the service changed and the signature no longer covers what
  the service reads; \<^verbatim>\<open>?lang=cimode\<close> shows raw translation keys, and a browser
  preferring Taiwanese Chinese then English is served English.

  \<^bold>\<open>Not modelled.\<close> Styling and layout (class names are kept only where they
  carry meaning, icons as constructors), the translation tables (messages are kept as
  keys), MD5 itself and the HTTP transport (the outcome of an exchange is the
  environment's), the bytes the \<^verbatim>\<open>FileReader\<close> decodes and the download of an export
  (\<^verbatim>\<open>Blob\<close>, object URL, link click), image load failures and scrolling, and
  \<^verbatim>\<open>tailwind.config.js\<close>. Numbers are exact: \<^verbatim>\<open>toFixed\<close> rounds the exact value (the
  sizes and percentages the code formats are exact in binary or differ only at decimal
  ties), and the unit index of \<^verbatim>\<open>formatFileSize\<close> is the exact floor of the quotient of
  logarithms, which floating point may miss by one at an exact power of 1024 from a
  gibibyte on. The language detector is modelled for the configuration the code passes
  (two-letter supported codes, no script subtags). Interleaving is modelled at the
  awaits of the handlers (user deletions); a second handler running concurrently with an
  import or a round is not.
\<close>

section \<open>Fixtures\<close>

text \<open>Concrete profiles, replies and accounts for the scenarios of the specification.\<close>

definition lang_tw :: i18n_state where
  "lang_tw = i18n_init \<lparr>location_lang = None, navigator_languages = [''zh-TW'']\<rparr> None"

definition pinfo :: "int \<Rightarrow> player_info" where
  "pinfo n = \<lparr>fid = n, nickname = ''player'', kid = 7, stove_lv = 10, stove_lv_content = [],
     avatar_image = [], total_recharge_amount = 0\<rparr>"

definition ok_reply :: "int \<Rightarrow> player_info_response transport" where
  "ok_reply n = JsonBody \<lparr>code = 0, msg = [], err_code = ErrNum 0, data = Some (pinfo n)\<rparr>"

definition not_exists_reply :: "player_info_response transport" where
  "not_exists_reply = JsonBody \<lparr>code = 1, msg = ''role not exist'', err_code = ErrNum 40004, data = None\<rparr>"

definition redeem_reply :: "int \<Rightarrow> int \<Rightarrow> base_api_response transport" where
  "redeem_reply c ec = JsonBody \<lparr>code = c, msg = [], err_code = ErrNum ec\<rparr>"

definition plain_acc :: "string \<Rightarrow> string \<Rightarrow> account" where
  "plain_acc i n = \<lparr>account_id = i, accountNumber = n, status = Idle, lastResult = None,
     playerInfo = None, isValidated = False\<rparr>"

definition validated_acc :: "string \<Rightarrow> string \<Rightarrow> int \<Rightarrow> account" where
  "validated_acc i n p = \<lparr>account_id = i, accountNumber = n, status = Idle, lastResult = None,
     playerInfo = Some (pinfo p), isValidated = True\<rparr>"

definition empty_env :: env where
  "empty_env = \<lparr>lookup_replies = [], redeem_replies = [], timer_replies = []\<rparr>"

text \<open>Scenario A: two adds, both lookups succeed.\<close>

definition worldS :: world where
  "worldS = initial_world\<lparr>accounts := [validated_acc ''1'' ''1001'' 1001]\<rparr>"

definition envS :: env where
  "envS = empty_env\<lparr>lookup_replies := [([], ok_reply 1001)]\<rparr>"

definition envA :: env where
  "envA = empty_env\<lparr>lookup_replies := [([], ok_reply 1001), ([], ok_reply 1002)]\<rparr>"

text \<open>Scenario B: the lookup answers with error code 40004.\<close>

definition envB :: env where
  "envB = empty_env\<lparr>lookup_replies := [([], not_exists_reply)]\<rparr>"

text \<open>Scenario C: two validated accounts; the first was already claimed, the second succeeds.\<close>

definition worldC :: world where
  "worldC = initial_world\<lparr>accounts := [validated_acc ''1'' ''1001'' 1001, validated_acc ''2'' ''1002'' 1002]\<rparr>"

definition envC :: env where
  "envC = \<lparr>lookup_replies = [([], ok_reply 1001), ([], ok_reply 1002)],
           redeem_replies = [([], redeem_reply 1 40008), ([], redeem_reply 0 0)],
           timer_replies = [[]]\<rparr>"

text \<open>Scenario D: three accounts, the second deleted while its lookup is pending.\<close>

definition worldD :: world where
  "worldD = initial_world\<lparr>accounts := [plain_acc ''1'' ''1001'', plain_acc ''2'' ''1002'', plain_acc ''3'' ''1003'']\<rparr>"

definition envD :: env where
  "envD = \<lparr>lookup_replies = [([], ok_reply 1001), ([''2''], ok_reply 1002), ([], ok_reply 1003)],
           redeem_replies = [], timer_replies = [[], []]\<rparr>"

text \<open>The same batch when the third lookup never answers.\<close>

definition envD_hung :: env where
  "envD_hung = envD\<lparr>lookup_replies := take 2 (lookup_replies envD)\<rparr>"

text \<open>Scenario E: accounts exist but none is validated.\<close>

definition worldE :: world where
  "worldE = initial_world\<lparr>accounts := [plain_acc ''1'' ''1001'']\<rparr>"

text \<open>A round during which the user deletes the second account while the first is refreshed.\<close>

definition envC_del :: env where
  "envC_del = envC\<lparr>lookup_replies := [([''2''], ok_reply 1001), ([], ok_reply 1002)]\<rparr>"

text \<open>
  An import into a registry holding 1001: the file repeats 1002, has an invalid line,
  a comment, and the new numbers 1002 (found) and 1003 (not found).
\<close>

definition import_file :: browser_file where
  "import_file = \<lparr>file_name = ''ids.txt'', file_type = ''text/plain'', file_size = 24\<rparr>"

definition import_text :: string where
  "import_text = js_join [newline] [''1001'', '' 1002'', ''ab'', ''# note'', ''1002'', ''1003'']"

definition worldI :: world where
  "worldI = initial_world\<lparr>accounts := [validated_acc ''1'' ''1001'' 1001]\<rparr>"

definition envI :: env where
  "envI = \<lparr>lookup_replies = [([], ok_reply 1002), ([], not_exists_reply)], redeem_replies = [],
           timer_replies = [[]]\<rparr>"

definition tidI :: "nat \<Rightarrow> string" where
  "tidI i = replicate (Suc i) (CHR ''t'')"

definition ui_rest :: manager_ui where
  "ui_rest = \<lparr>newAccount = [], isAdding = False, isImporting = False, importErrors = [],
              importTotal = 0, importRemaining = 0\<rparr>"

text \<open>The application after start-up, and a store holding one account.\<close>

definition app_ready :: app_state where
  "app_ready = \<lparr>isInitializing = False, initStarted = True\<rparr>"

definition store1 :: local_storage where
  "store1 = (\<lambda>_. None)(STORAGE_KEY_ACCOUNTS \<mapsto> JsonAccounts [validated_acc ''1'' ''1001'' 1001])"

definition status_patch :: account_patch where
  "status_patch = \<lparr>patch_id = None, patch_accountNumber = None, patch_status = Some Success,
                   patch_lastResult = None, patch_playerInfo = None, patch_isValidated = None\<rparr>"

lemmas scenario_defs =
  pinfo_def ok_reply_def not_exists_reply_def redeem_reply_def plain_acc_def validated_acc_def
  empty_env_def envA_def envB_def worldC_def envC_def worldD_def envD_def envD_hung_def worldE_def
  envC_del_def initial_world_def import_file_def import_text_def worldI_def envI_def tidI_def
  ui_rest_def app_ready_def store1_def status_patch_def

lemmas run_simps =
  addAccount_def new_account_def validateAccounts_def validate_body_def validate_progress_def
  validate_write_def submitGiftCodeToAccounts_def start_round_def reset_statuses_def
  submit_body_def redeem_attempt_def decrement_remaining_def await_fetchPlayerInfo_def
  await_submitGiftCode_def await_sleep_def updateAccountStatus_def merge_status_def
  showAlert_def log_event_def Let_def

lemmas import_simps =
  handleFileChange_def isTextFile_def parseAccountsFromText_def js_trim_def js_whitespace_def
  newline_def import_classify_def validateAccountList_def validate_list_step_def
  validateAccountFormat_def account_char_def App_handleAddAccount_def import_finish_def
  import_reset_def more_count_def

text \<open>
  The panel with the number field opened and "12a3" typed; a registry whose first
  account is being processed; the gift-code form holding a code with surrounding blanks.
\<close>

definition ui_typed :: manager_ui where
  "ui_typed = fst (panel_step [] ''t'' empty_env (TypeAccount ''12a3'')
                (fst (panel_step [] ''t'' empty_env ClickAdd initial_manager_ui initial_world)) initial_world)"

definition busy_acc :: account where
  "busy_acc = (validated_acc ''1'' ''1001'' 1001)\<lparr>status := Processing\<rparr>"

definition worldP :: world where
  "worldP = initial_world\<lparr>accounts := [busy_acc, validated_acc ''2'' ''1002'' 1002]\<rparr>"

definition form_gift :: gift_form where
  "form_gift = \<lparr>giftCode = '' GIFT1 ''\<rparr>"

section \<open>The scenarios of the specification\<close>

text \<open>
  Scenario A. Adding 1001 and then 1002 to an empty registry, both lookups
  succeeding, leaves both accounts idle and validated, in that order.
\<close>

theorem scenario_A:
  "\<exists>e1 w1 e2 w2. addAccount [] ''1001'' False ''t1'' envA initial_world = Returned (True, e1, w1) \<and>
     addAccount (accounts w1) ''1002'' False ''t2'' e1 w1 = Returned (True, e2, w2) \<and>
     map (\<lambda>a. (accountNumber a, status a, isValidated a)) (accounts w2) =
       [(''1001'', Idle, True), (''1002'', Idle, True)]"
  by (simp add: run_simps scenario_defs)

text \<open>
  Scenario B. Adding 1001 when the lookup reports error code 40004 leaves no account
  in the registry, returns false, and raises one error notification saying that the
  account does not exist.
\<close>

theorem scenario_B:
  "\<exists>e1 w1. addAccount [] ''1001'' False ''t1'' envB initial_world = Returned (False, e1, w1) \<and>
     accounts w1 = [] \<and> alerts w1 = [(MAccountAddFailed ''1001'' MAccountNotExists, AlertError)]"
  by (simp add: run_simps scenario_defs)

text \<open>
  Scenario C. Redeeming GIFT1 over the validated accounts 1001 and 1002, where 1001
  has already claimed the code and 1002 succeeds, ends with 1001 in error with the
  already-claimed message, 1002 in success, the counter at 0 and the round finished.
\<close>

theorem scenario_C:
  "\<exists>e1 w1. submitGiftCodeToAccounts (accounts worldC) ''GIFT1'' 500 envC worldC = Returned (e1, w1) \<and>
     map (\<lambda>a. (accountNumber a, status a, lastResult a)) (accounts w1) =
       [(''1001'', Error, Some MGiftAlreadyClaimed), (''1002'', Success, Some MRedeemSuccess)] \<and>
     processingRemaining w1 = Some 0 \<and> \<not> isProcessing w1"
  by (simp add: run_simps scenario_defs)

text \<open>
  Scenario D. Validating three accounts with a 500 ms delay, the user deleting the
  second while its lookup is pending, leaves exactly accounts 1 and 3, both validated; the
  third is still looked up; the calls alternate lookups and delays with no trailing delay.
\<close>

theorem scenario_D:
  "\<exists>e1 w1. validateAccounts 500 (accounts worldD) envD worldD = Returned (e1, w1) \<and>
     map (\<lambda>a. (account_id a, status a, isValidated a)) (accounts w1) =
       [(''1'', Idle, True), (''3'', Idle, True)] \<and>
     events w1 = [CallLookup ''1001'', CallSleep 500, CallLookup ''1002'', UserDelete ''2'',
                  CallSleep 500, CallLookup ''1003''] \<and>
     cancelledIds w1 = {}"
  by (simp add: run_simps scenario_defs)

text \<open>
  Scenario E. Asking for a round when accounts exist but none is validated makes no
  call, leaves the registry as it is and raises exactly one warning.
\<close>

theorem scenario_E:
  "submitGiftCodeToAccounts (accounts worldE) ''GIFT1'' 500 empty_env worldE =
     Returned (empty_env, worldE\<lparr>alerts := [(MNoValidatedAccounts, AlertWarning)]\<rparr>)"
  by (simp add: run_simps scenario_defs)

section \<open>What the model shows beyond the specification\<close>

text \<open>
  The progress counter of a validation batch can exceed its total. In scenario D,
  while the third account's lookup is pending the registry shows it as "3 of 2": the
  counter \<^verbatim>\<open>processed\<close> still counts the deleted second account while
  \<^verbatim>\<open>dynamicTotal\<close> no longer does.
\<close>

theorem validation_progress_exceeds_total:
  "\<exists>w1. validateAccounts 500 (accounts worldD) envD_hung worldD = Suspended w1 \<and>
     map lastResult (accounts w1) = [None, Some (MPlayerInfoQueryingProgress 3 2)]"
  by (simp add: run_simps scenario_defs)

text \<open>
  The redemption round does not consult the cancellation set: an account the user
  deletes during the round is still refreshed and still gets the code submitted, after
  its deletion; only the writes to it are lost.
\<close>

theorem redemption_ignores_deletion:
  "\<exists>e1 w1. submitGiftCodeToAccounts (accounts worldC) ''GIFT1'' 500 envC_del worldC = Returned (e1, w1) \<and>
     events w1 = [CallLookup ''1001'', UserDelete ''2'', CallRedeem ''1001'' ''GIFT1'', CallSleep 500,
                  CallLookup ''1002'', CallRedeem ''1002'' ''GIFT1''] \<and>
     map account_id (accounts w1) = [''1'']"
  by (simp add: run_simps scenario_defs)

section \<open>The panel, the statistics and persistence together\<close>

lemma reset_statuses_no_results:
  "filter (\<lambda>a. status a = Success) (reset_statuses xs) = [] \<and>
   filter (\<lambda>a. status a = Error) (reset_statuses xs) = []"
  by (induction xs) (auto simp add: reset_statuses_def)

lemma processed_positive_iff:
  "0 < length (filter (\<lambda>a. status a = Success) xs) + length (filter (\<lambda>a. status a = Error) xs) \<longleftrightarrow>
   list_ex (\<lambda>a. status a = Success \<or> status a = Error) xs"
  by (induction xs) auto

text \<open>
  What the statistics panel shows of a round: when it starts, the progress is 0
  and the "processing" figure is the number of validated snapshot accounts; when a round
  returns, the progress is 100 exactly when some account of the list has a result, and 0
  otherwise (every processed account was deleted).
\<close>

theorem round_display:
  assumes "submitGiftCodeToAccounts snapshot c d e w = Returned (e', w')"
    and "filter isValidated snapshot \<noteq> []"
  shows "processedProgress (status_display (accounts (start_round (filter isValidated snapshot) w))
            (processingRemaining (start_round (filter isValidated snapshot) w))) = 0 \<and>
         processingDisplay (status_display (accounts (start_round (filter isValidated snapshot) w))
            (processingRemaining (start_round (filter isValidated snapshot) w))) =
           length (filter isValidated snapshot) \<and>
         processedProgress (status_display (accounts w') (processingRemaining w')) =
           (if list_ex (\<lambda>a. status a = Success \<or> status a = Error) (accounts w') then 100 else 0)"
proof -
  have start: "processedProgress (status_display (accounts (start_round (filter isValidated snapshot) w))
            (processingRemaining (start_round (filter isValidated snapshot) w))) = 0 \<and>
         processingDisplay (status_display (accounts (start_round (filter isValidated snapshot) w))
            (processingRemaining (start_round (filter isValidated snapshot) w))) =
           length (filter isValidated snapshot)"
    using reset_statuses_no_results [of "accounts w"]
    by (simp add: status_display_def start_round_def)
  from assms(1) have "processingRemaining w' = Some 0"
  proof (cases rule: submitGiftCodeToAccounts_ReturnedE)
    case rejected
    with assms(2) show ?thesis by simp
  qed simp
  then have "processedProgress (status_display (accounts w') (processingRemaining w')) =
     (if list_ex (\<lambda>a. status a = Success \<or> status a = Error) (accounts w') then 100 else 0)"
    using processed_positive_iff [of "accounts w'"]
    by (cases "list_ex (\<lambda>a. status a = Success \<or> status a = Error) (accounts w')")
       (simp_all add: status_display_def Let_def)
  with start show ?thesis by simp
qed

text \<open>
  Import with a failing lookup: the panel asks for silent adds, but the failure of 1003
  is notified on its own before the summary (1 of 2 added). The lines for 1001 (already
  registered), \<^verbatim>\<open>ab\<close> (invalid) and the second 1002 (duplicate) cause no request.
\<close>

theorem import_shows_per_account_alerts:
  "\<exists>e' ui'. handleFileChange (Some import_file) (Inr import_text) (accounts worldI) 500 tidI envI ui_rest worldI
     = Returned (e', ui', worldI\<lparr>events := [CallLookup ''1002'', CallSleep 500, CallLookup ''1003''],
         accounts := [validated_acc ''1'' ''1001'' 1001,
           \<lparr>account_id = ''t'', accountNumber = ''1002'', status = Idle, lastResult = None,
            playerInfo = Some (pinfo 1002), isValidated = True\<rparr>],
         alerts := [(MAccountAddFailed ''1003'' MAccountNotExists, AlertError),
                    (MImportSummary 2 1 1, AlertWarning)]\<rparr>)"
  by (simp add: import_simps run_simps scenario_defs)

text \<open>
  A reload while an add is waiting for its lookup: the save effect has stored the
  temporary account, and the next start loads it as an idle, unvalidated account with no
  profile, which nothing validates again (the start-up effect no longer calls
  \<^verbatim>\<open>validateAccounts\<close>) and every round skips.
\<close>

theorem reload_keeps_pending_add:
  "\<exists>w1. addAccount [] ''1001'' False ''t1'' empty_env initial_world = Suspended w1 \<and>
     accounts (snd (app_init (app_persist app_ready w1 True (\<lambda>_. None)) initial_app initial_world)) =
       [\<lparr>account_id = ''t1'', accountNumber = ''1001'', status = Idle, lastResult = None,
         playerInfo = None, isValidated = False\<rparr>]"
  by (simp add: run_simps scenario_defs app_init_def app_persist_def initial_app_def sanitize_def
      loadAccounts_def saveAccounts_def storage_set_def storage_get_def)

text \<open>
  The auto-hide timer of an earlier notification hides a later one: an error shown at
  0 ms and a success shown at 2500 ms leave the success hidden at 3000 ms, after half a
  second instead of three (the timer is never cleared).
\<close>

theorem alert_hidden_early:
  "alert_message (alert (advance_time 3000 (useAlert_showAlert MRedeemSuccess AlertSuccess
      (advance_time 2500 (useAlert_showAlert MRedeemFailed AlertError initial_alert_hook))))) = MRedeemSuccess \<and>
   \<not> isVisible (alert (advance_time 3000 (useAlert_showAlert MRedeemSuccess AlertSuccess
      (advance_time 2500 (useAlert_showAlert MRedeemFailed AlertError initial_alert_hook)))))"
  by (simp add: advance_time_def useAlert_showAlert_def initial_alert_hook_def)

text \<open>
  A stored request interval without digits reads as \<^verbatim>\<open>NaN\<close>, a negative one as a
  negative number: \<^verbatim>\<open>setTimeout\<close> waits 0 ms for both, so the engines are not throttled.
\<close>

theorem stored_delay_unthrottled:
  "initial_delayMs (Some ''fast'') = None \<and> timer_delay (initial_delayMs (Some ''fast'')) = 0 \<and>
   initial_delayMs (Some ''-500'') = Some (-500) \<and> timer_delay (initial_delayMs (Some ''-500'')) = 0"
proof -
  have "''fast'' \<noteq> [] \<and> \<not> list_ex is_digit ''fast''" by (simp add: is_digit_def)
  then have "initial_delayMs (Some ''fast'') = None \<and> timer_delay (initial_delayMs (Some ''fast'')) = 0"
    using Settings.corrupt_delay_unthrottled [of "''fast''"] by blast
  moreover have "initial_delayMs (Some ''-500'') = Some (-500)"
    by (simp add: initial_delayMs_def js_parseInt_def js_whitespace_def is_digit_def decimal_value_def
        digit_val_def)
  ultimately show ?thesis by (simp add: timer_delay_def)
qed

section \<open>Witnesses\<close>

theorem submitGiftCodeToAccounts_counter_witness:
  "\<exists>e1 w1. submitGiftCodeToAccounts (accounts worldC) ''GIFT1'' 500 envC worldC = Returned (e1, w1) \<and>
     filter isValidated (accounts worldC) \<noteq> [] \<and>
     (\<exists>w''. submit_loop ''GIFT1'' 500 (filter isValidated (accounts worldC)) envC
               (start_round (filter isValidated (accounts worldC)) worldC) = Returned (e1, w'') \<and>
             processingRemaining w'' = Some 0 \<and> isProcessing w'' \<and>
             w1 = w''\<lparr>isProcessing := False, processingRemaining := Some 0\<rparr>)"
proof -
  obtain e1 w1 where run: "submitGiftCodeToAccounts (accounts worldC) ''GIFT1'' 500 envC worldC = Returned (e1, w1)"
    by (simp add: run_simps scenario_defs)
  have v: "filter isValidated (accounts worldC) \<noteq> []" by (simp add: scenario_defs)
  show ?thesis using submitGiftCodeToAccounts_counter [OF run v] run v by blast
qed

theorem validateAccounts_batch_end_witness:
  "\<exists>e1 w1. validateAccounts 500 (accounts worldD) envD worldD = Returned (e1, w1) \<and>
     cancelledIds w1 = {} \<and> world_evolves worldD w1"
proof -
  obtain e1 w1 where run: "validateAccounts 500 (accounts worldD) envD worldD = Returned (e1, w1)"
    by (simp add: run_simps scenario_defs)
  show ?thesis using validateAccounts_batch_end [OF run] run by blast
qed

theorem registry_ops_preserve_witness:
  "wf_accounts (accounts worldC) \<and>
   wf_accounts (accounts (fold apply_registry_op
     [OpUpdate ''1'' Processing None None, OpDelete ''2'',
      OpUpdateBatch [\<lparr>upd_accountId = ''1'', upd_status = Idle, upd_lastResult = None,
                      upd_playerInfo = Some (pinfo 7)\<rparr>]] worldC)) \<and>
   evolves (accounts worldC) (accounts (fold apply_registry_op
     [OpUpdate ''1'' Processing None None, OpDelete ''2'',
      OpUpdateBatch [\<lparr>upd_accountId = ''1'', upd_status = Idle, upd_lastResult = None,
                      upd_playerInfo = Some (pinfo 7)\<rparr>]] worldC))"
proof -
  have wf: "wf_accounts (accounts worldC)" by (simp add: wf_accounts_def scenario_defs)
  show ?thesis using registry_ops_preserve [OF wf] wf by blast
qed

theorem submitGiftCodeToAccounts_calls_witness:
  "\<exists>e1 w1. submitGiftCodeToAccounts (accounts worldC) ''GIFT1'' 500 envC_del worldC = Returned (e1, w1) \<and>
     (\<exists>tr. events w1 = events worldC @ tr \<and>
        lookups_of tr = map accountNumber (filter isValidated (accounts worldC)) \<and>
        subseq (redeems_of tr) (map (\<lambda>a. (accountNumber a, ''GIFT1'')) (filter isValidated (accounts worldC))))"
proof -
  obtain e1 w1 where run: "submitGiftCodeToAccounts (accounts worldC) ''GIFT1'' 500 envC_del worldC = Returned (e1, w1)"
    by (simp add: run_simps scenario_defs)
  show ?thesis using submitGiftCodeToAccounts_calls [OF run] run by blast
qed

theorem submitGiftCodeToAccounts_rejects_witness:
  "filter isValidated (accounts worldE) = [] \<and>
   submitGiftCodeToAccounts (accounts worldE) ''GIFT1'' 500 empty_env worldE =
     Returned (empty_env, showAlert MNoValidatedAccounts AlertWarning worldE)"
proof -
  have h: "filter isValidated (accounts worldE) = []" by (simp add: scenario_defs)
  have "accounts worldE \<noteq> []" by (simp add: scenario_defs)
  with h submitGiftCodeToAccounts_rejects [OF h, of "''GIFT1''" 500 empty_env worldE]
  show ?thesis by simp
qed

theorem addAccount_preserves_wf_witness:
  "\<exists>ok e1 w1. addAccount (accounts initial_world) ''1001'' False ''t1'' envA initial_world = Returned (ok, e1, w1) \<and>
     wf_accounts (accounts initial_world) \<and> ''t1'' \<notin> set (map account_id (accounts initial_world)) \<and>
     wf_accounts (accounts w1)"
proof -
  obtain ok e1 w1 where run: "addAccount (accounts initial_world) ''1001'' False ''t1'' envA initial_world = Returned (ok, e1, w1)"
    by (simp add: run_simps scenario_defs)
  have wf: "wf_accounts (accounts initial_world)" by (simp add: wf_accounts_def initial_world_def)
  have fresh: "''t1'' \<notin> set (map account_id (accounts initial_world))" by (simp add: initial_world_def)
  show ?thesis using addAccount_preserves_wf [OF run wf fresh] run wf fresh by blast
qed

theorem addAccount_success_witness:
  "\<not> list_ex (\<lambda>acc. accountNumber acc = ''1001'') [] \<and>
   ''t1'' \<notin> set (map account_id (accounts initial_world)) \<and>
   lookup_replies envA = ([], ok_reply 1001) # [([], ok_reply 1002)] \<and>
   fetchPlayerInfo (ok_reply 1001) = Inr (pinfo 1001) \<and>
   addAccount [] ''1001'' False ''t1'' envA initial_world =
    Returned (True, envA\<lparr>lookup_replies := [([], ok_reply 1002)]\<rparr>,
      initial_world\<lparr>accounts := accounts initial_world @ [\<lparr>account_id = ''t1'', accountNumber = ''1001'',
            status = Idle, lastResult = None, playerInfo = Some (pinfo 1001), isValidated = True\<rparr>],
        events := events initial_world @ [CallLookup ''1001'']\<rparr>)"
proof -
  have h1: "\<not> list_ex (\<lambda>acc. accountNumber acc = ''1001'') []" by simp
  have h2: "''t1'' \<notin> set (map account_id (accounts initial_world))" by (simp add: initial_world_def)
  have h3: "lookup_replies envA = ([], ok_reply 1001) # [([], ok_reply 1002)]" by (simp add: scenario_defs)
  have h4: "fetchPlayerInfo (ok_reply 1001) = Inr (pinfo 1001)" by (simp add: scenario_defs)
  show ?thesis using addAccount_success [OF h1 h2 h3 h4] h1 h2 h3 h4 by blast
qed

theorem addAccount_failure_witness:
  "\<not> list_ex (\<lambda>acc. accountNumber acc = ''1001'') [] \<and>
   ''t1'' \<notin> set (map account_id (accounts initial_world)) \<and>
   lookup_replies envB = ([], not_exists_reply) # [] \<and>
   fetchPlayerInfo not_exists_reply = Inl (ApiError 1 (MText ''role not exist'') (ErrNum 40004)) \<and>
   addAccount [] ''1001'' False ''t1'' envB initial_world =
    Returned (False, envB\<lparr>lookup_replies := []\<rparr>,
      showAlert (MAccountAddFailed ''1001'' (lookupErrorMessage MQueryFailed (ApiError 1 (MText ''role not exist'') (ErrNum 40004))))
        AlertError (initial_world\<lparr>events := events initial_world @ [CallLookup ''1001'']\<rparr>))"
proof -
  have h1: "\<not> list_ex (\<lambda>acc. accountNumber acc = ''1001'') []" by simp
  have h2: "''t1'' \<notin> set (map account_id (accounts initial_world))" by (simp add: initial_world_def)
  have h3: "lookup_replies envB = ([], not_exists_reply) # []" by (simp add: scenario_defs)
  have h4: "fetchPlayerInfo not_exists_reply = Inl (ApiError 1 (MText ''role not exist'') (ErrNum 40004))"
    by (simp add: scenario_defs)
  show ?thesis using addAccount_failure [OF h1 h2 h3 h4] h1 h2 h3 h4 by simp
qed

theorem validateAccounts_returns_witness:
  "length (accounts worldD) \<le> length (lookup_replies envD) \<and>
   length (accounts worldD) \<le> Suc (length (timer_replies envD)) \<and>
   (\<exists>r. validateAccounts 500 (accounts worldD) envD worldD = Returned r)"
proof -
  have h1: "length (accounts worldD) \<le> length (lookup_replies envD)" by (simp add: scenario_defs)
  have h2: "length (accounts worldD) \<le> Suc (length (timer_replies envD))" by (simp add: scenario_defs)
  show ?thesis using validateAccounts_returns [OF h1 h2] h1 h2 by blast
qed

theorem submitGiftCodeToAccounts_returns_witness:
  "length (filter isValidated (accounts worldC)) \<le> length (lookup_replies envC) \<and>
   length (filter isValidated (accounts worldC)) \<le> length (redeem_replies envC) \<and>
   length (filter isValidated (accounts worldC)) \<le> Suc (length (timer_replies envC)) \<and>
   (\<exists>r. submitGiftCodeToAccounts (accounts worldC) ''GIFT1'' 500 envC worldC = Returned r)"
proof -
  have h1: "length (filter isValidated (accounts worldC)) \<le> length (lookup_replies envC)"
    by (simp add: scenario_defs)
  have h2: "length (filter isValidated (accounts worldC)) \<le> length (redeem_replies envC)"
    by (simp add: scenario_defs)
  have h3: "length (filter isValidated (accounts worldC)) \<le> Suc (length (timer_replies envC))"
    by (simp add: scenario_defs)
  show ?thesis using submitGiftCodeToAccounts_returns [OF h1 h2 h3] h1 h2 h3 by blast
qed

theorem validateAccounts_lookups_witness:
  "\<exists>e1 w1. validateAccounts 500 (accounts worldD) envD worldD = Returned (e1, w1) \<and>
     (\<exists>tr. events w1 = events worldD @ tr \<and> subseq (lookups_of tr) (map accountNumber (accounts worldD)) \<and>
        (\<forall>a\<in>set (accounts worldD). account_id a \<notin> cancelledIds worldD \<union> set (deleted_ids tr) \<longrightarrow>
           accountNumber a \<in> set (lookups_of tr)))"
proof -
  obtain e1 w1 where run: "validateAccounts 500 (accounts worldD) envD worldD = Returned (e1, w1)"
    by (simp add: run_simps scenario_defs)
  show ?thesis using validateAccounts_lookups [OF run] run by blast
qed

theorem updateAccountStatusBatch_eq_fold_witness:
  "distinct (map upd_accountId
     [\<lparr>upd_accountId = ''1'', upd_status = Processing, upd_lastResult = None, upd_playerInfo = None\<rparr>,
      \<lparr>upd_accountId = ''2'', upd_status = Error, upd_lastResult = Some MRedeemFailed, upd_playerInfo = None\<rparr>]) \<and>
   updateAccountStatusBatch
     [\<lparr>upd_accountId = ''1'', upd_status = Processing, upd_lastResult = None, upd_playerInfo = None\<rparr>,
      \<lparr>upd_accountId = ''2'', upd_status = Error, upd_lastResult = Some MRedeemFailed, upd_playerInfo = None\<rparr>] worldC =
   updateAccountStatus ''2'' Error (Some MRedeemFailed) None (updateAccountStatus ''1'' Processing None None worldC)"
proof -
  let ?us = "[\<lparr>upd_accountId = ''1'', upd_status = Processing, upd_lastResult = None, upd_playerInfo = None\<rparr>,
      \<lparr>upd_accountId = ''2'', upd_status = Error, upd_lastResult = Some MRedeemFailed, upd_playerInfo = (None :: player_info option)\<rparr>]"
  have h: "distinct (map upd_accountId ?us)" by simp
  show ?thesis using updateAccountStatusBatch_eq_fold [OF h, of worldC] h by simp
qed

theorem updateAccountStatus_absent_witness:
  "''9'' \<notin> set (map account_id (accounts worldC)) \<and>
   updateAccountStatus ''9'' Success (Some MRedeemSuccess) None worldC = worldC"
proof -
  have h: "''9'' \<notin> set (map account_id (accounts worldC))" by (simp add: scenario_defs)
  show ?thesis using updateAccountStatus_absent [OF h] h by blast
qed

theorem lookupErrorMessage_not_exists_witness:
  "fetchPlayerInfo not_exists_reply = Inl (ApiError 1 (MText ''role not exist'') (ErrNum 40004)) \<and>
   MValidationFailed \<noteq> MAccountNotExists \<and>
   lookupErrorMessage MValidationFailed (ApiError 1 (MText ''role not exist'') (ErrNum 40004)) = MAccountNotExists"
proof -
  have h1: "fetchPlayerInfo not_exists_reply = Inl (ApiError 1 (MText ''role not exist'') (ErrNum 40004))"
    by (simp add: scenario_defs)
  have h2: "MValidationFailed \<noteq> MAccountNotExists" by simp
  show ?thesis using lookupErrorMessage_not_exists [OF h1 h2] h1 h2 by (simp add: scenario_defs)
qed

theorem giftCode_classifications_agree_witness:
  "code \<lparr>code = 1, msg = [], err_code = ErrNum 40008\<rparr> \<noteq> 0 \<and>
   submitGiftCode (JsonBody \<lparr>code = 1, msg = [], err_code = ErrNum 40008\<rparr>) =
     Inl (GiftCodeApiError MGiftAlreadyClaimed (ErrNum 40008) 1) \<and>
   getGiftCodeResultMessage \<lparr>code = 1, msg = [], err_code = ErrNum 40008\<rparr> = short_message MGiftAlreadyClaimed"
  using giftCode_classifications_agree [of "\<lparr>code = 1, msg = [], err_code = ErrNum 40008\<rparr>"] by auto

theorem submitGiftCodeToAccounts_evolves_witness:
  "\<exists>e1 w1. submitGiftCodeToAccounts (accounts worldC) ''GIFT1'' 500 envC_del worldC = Returned (e1, w1) \<and>
     world_evolves worldC w1"
proof -
  obtain e1 w1 where run: "submitGiftCodeToAccounts (accounts worldC) ''GIFT1'' 500 envC_del worldC = Returned (e1, w1)"
    by (simp add: run_simps scenario_defs)
  show ?thesis using submitGiftCodeToAccounts_evolves [OF run] run by blast
qed

lemma inj_tidI: "inj tidI"
proof (rule injI)
  fix i j assume "tidI i = tidI j"
  then have "length (tidI i) = length (tidI j)" by simp
  then show "i = j" by (simp add: tidI_def)
qed

theorem parse_export_roundtrip_witness:
  "parseAccountsFromText (exportAccountsToFile [validated_acc ''1'' ''1001'' 1001, plain_acc ''2'' ''AB-7''] False) =
     [''1001'', ''AB-7'']"
proof -
  have h: "\<forall>n\<in>set (map accountNumber [validated_acc ''1'' ''1001'' 1001, plain_acc ''2'' ''AB-7'']).
      n \<noteq> [] \<and> \<not> list_ex js_whitespace n \<and> \<not> prefix ''#'' n"
    by (simp add: scenario_defs js_whitespace_def)
  show ?thesis using FileUtils.parse_export_roundtrip [OF h] h by (simp add: scenario_defs)
qed

theorem handleFileChange_summary_witness:
  "\<exists>e' ui' w'. handleFileChange (Some import_file) (Inr import_text) (accounts worldI) 500 tidI envI ui_rest worldI
       = Returned (e', ui', w') \<and> isTextFile import_file \<and> file_size import_file \<le> 1024 * 1024 \<and>
     fst (import_classify (accounts worldI) (parseAccountsFromText import_text)) \<noteq> [] \<and>
     (\<exists>fails s. alerts w' = alerts worldI @ map (\<lambda>(a, m). (MAccountAddFailed a m, AlertError)) fails @
              [(MImportSummary (s + length fails) s (length fails),
                if fails = [] then AlertSuccess else AlertWarning)] \<and>
           s + length fails = length (fst (import_classify (accounts worldI) (parseAccountsFromText import_text))) \<and>
           subseq (map fst fails) (fst (import_classify (accounts worldI) (parseAccountsFromText import_text))) \<and>
           importErrors ui' = snd (import_classify (accounts worldI) (parseAccountsFromText import_text)) \<and>
           \<not> isImporting ui' \<and> importTotal ui' = 0 \<and> importRemaining ui' = 0)"
proof -
  obtain e' ui' w' where run: "handleFileChange (Some import_file) (Inr import_text) (accounts worldI) 500 tidI envI ui_rest worldI
       = Returned (e', ui', w')"
    by (simp add: import_simps run_simps scenario_defs)
  have h1: "isTextFile import_file" and h2: "file_size import_file \<le> 1024 * 1024"
    by (simp_all add: import_simps scenario_defs)
  have h3: "fst (import_classify (accounts worldI) (parseAccountsFromText import_text)) \<noteq> []"
    by (simp add: import_simps scenario_defs)
  show ?thesis using AccountManager.handleFileChange_summary [OF run h1 h2 h3] run h1 h2 h3 by blast
qed

theorem handleFileChange_lookups_witness:
  "\<exists>e' ui' w'. handleFileChange (Some import_file) (Inr import_text) (accounts worldI) 500 tidI envI ui_rest worldI
       = Returned (e', ui', w') \<and> isTextFile import_file \<and> file_size import_file \<le> 1024 * 1024 \<and>
     (\<exists>tr. events w' = events worldI @ tr \<and>
           lookups_of tr = fst (import_classify (accounts worldI) (parseAccountsFromText import_text)) \<and>
           redeems_of tr = [])"
proof -
  obtain e' ui' w' where run: "handleFileChange (Some import_file) (Inr import_text) (accounts worldI) 500 tidI envI ui_rest worldI
       = Returned (e', ui', w')"
    by (simp add: import_simps run_simps scenario_defs)
  have h1: "isTextFile import_file" and h2: "file_size import_file \<le> 1024 * 1024"
    by (simp_all add: import_simps scenario_defs)
  show ?thesis using AccountManager.handleFileChange_lookups [OF run h1 h2] run h1 h2 by blast
qed

theorem handleFileChange_preserves_wf_witness:
  "\<exists>e' ui' w'. handleFileChange (Some import_file) (Inr import_text) (accounts worldI) 500 tidI envI ui_rest worldI
       = Returned (e', ui', w') \<and> wf_accounts (accounts worldI) \<and> inj tidI \<and>
     (\<forall>j. tidI j \<notin> set (map account_id (accounts worldI))) \<and> wf_accounts (accounts w')"
proof -
  obtain e' ui' w' where run: "handleFileChange (Some import_file) (Inr import_text) (accounts worldI) 500 tidI envI ui_rest worldI
       = Returned (e', ui', w')"
    by (simp add: import_simps run_simps scenario_defs)
  have wf: "wf_accounts (accounts worldI)" by (simp add: scenario_defs wf_accounts_def)
  have fresh: "\<forall>j. tidI j \<notin> set (map account_id (accounts worldI))" by (simp add: scenario_defs)
  show ?thesis using AccountManager.handleFileChange_preserves_wf [OF run wf inj_tidI fresh] run wf inj_tidI fresh
    by blast
qed

theorem handleAddAccount_digits_witness:
  "\<exists>ui' r. handleAddAccount [] ''t1'' envA (ui_rest\<lparr>newAccount := '' 1001 ''\<rparr>) initial_world = (ui', Some r) \<and>
     (\<exists>n. n = js_trim (newAccount (ui_rest\<lparr>newAccount := '' 1001 ''\<rparr>)) \<and> list_all is_digit n \<and>
        r = addAccount [] n False ''t1'' envA initial_world \<and> newAccount ui' = [] \<and> \<not> isAdding ui' \<and>
        n \<noteq> [] \<and> \<not> list_ex js_whitespace n \<and> \<not> prefix ''#'' n)"
proof -
  obtain ui' r where run: "handleAddAccount [] ''t1'' envA (ui_rest\<lparr>newAccount := '' 1001 ''\<rparr>) initial_world = (ui', Some r)"
    by (simp add: handleAddAccount_def js_trim_def js_whitespace_def is_digit_def)
  show ?thesis using AccountManager.handleAddAccount_digits [OF run] run by blast
qed

theorem persist_reload_roundtrip_witness:
  "\<exists>st' w'. app_init (app_persist app_ready worldC True (\<lambda>_. None)) initial_app initial_world = (st', w') \<and>
     \<not> isInitializing app_ready \<and> accounts worldC \<noteq> [] \<and>
     accounts w' = sanitize (accounts worldC) \<and>
     list_all (\<lambda>a. status a = Idle \<and> lastResult a = None) (accounts w') \<and>
     map (\<lambda>a. (account_id a, accountNumber a, playerInfo a, isValidated a)) (accounts w') =
       map (\<lambda>a. (account_id a, accountNumber a, playerInfo a, isValidated a)) (accounts worldC) \<and>
     wf_accounts (accounts worldC) \<and> wf_accounts (accounts w') \<and> \<not> isInitializing st'"
proof -
  obtain st' w' where run: "app_init (app_persist app_ready worldC True (\<lambda>_. None)) initial_app initial_world = (st', w')"
    by (cases "app_init (app_persist app_ready worldC True (\<lambda>_. None)) initial_app initial_world")
  have h1: "\<not> isInitializing app_ready" and h2: "accounts worldC \<noteq> []" by (simp_all add: scenario_defs)
  have wf: "wf_accounts (accounts worldC)" by (simp add: scenario_defs wf_accounts_def)
  show ?thesis using Persistence.persist_reload_roundtrip [OF h1 h2 run] run h1 h2 wf by blast
qed

theorem storage_ops_keep_numbers_distinct_witness:
  "distinct (map accountNumber (loadAccounts store1)) \<and> patch_id status_patch = None \<and>
   patch_accountNumber status_patch = None \<and>
   distinct (map accountNumber (loadAccounts (storage_addAccount (plain_acc ''2'' ''1001'') True store1))) \<and>
   distinct (map accountNumber (loadAccounts (storage_deleteAccount ''1'' True store1))) \<and>
   set (map account_id (loadAccounts (storage_deleteAccount ''1'' True store1))) =
     set (map account_id (loadAccounts store1)) - {''1''} \<and>
   map (\<lambda>a. (account_id a, accountNumber a)) (loadAccounts (storage_updateAccount ''1'' status_patch True store1)) =
     map (\<lambda>a. (account_id a, accountNumber a)) (loadAccounts store1)"
proof -
  have h1: "distinct (map accountNumber (loadAccounts store1))"
    by (simp add: scenario_defs loadAccounts_def storage_get_def)
  have h2: "patch_id status_patch = None" and h3: "patch_accountNumber status_patch = None"
    by (simp_all add: status_patch_def)
  show ?thesis using Persistence.storage_ops_keep_numbers_distinct [OF h1 h2 h3, of "plain_acc ''2'' ''1001''" True "''1''"]
      h1 h2 h3 by blast
qed

theorem round_display_witness:
  "\<exists>e' w'. submitGiftCodeToAccounts (accounts worldC) ''GIFT1'' 500 envC worldC = Returned (e', w') \<and>
     filter isValidated (accounts worldC) \<noteq> [] \<and>
     processedProgress (status_display (accounts (start_round (filter isValidated (accounts worldC)) worldC))
        (processingRemaining (start_round (filter isValidated (accounts worldC)) worldC))) = 0 \<and>
     processingDisplay (status_display (accounts (start_round (filter isValidated (accounts worldC)) worldC))
        (processingRemaining (start_round (filter isValidated (accounts worldC)) worldC))) =
       length (filter isValidated (accounts worldC)) \<and>
     processedProgress (status_display (accounts w') (processingRemaining w')) =
       (if list_ex (\<lambda>a. status a = Success \<or> status a = Error) (accounts w') then 100 else 0)"
proof -
  obtain e' w' where run: "submitGiftCodeToAccounts (accounts worldC) ''GIFT1'' 500 envC worldC = Returned (e', w')"
    by (simp add: run_simps scenario_defs)
  have v: "filter isValidated (accounts worldC) \<noteq> []" by (simp add: scenario_defs)
  show ?thesis using round_display [OF run v] run v by blast
qed

theorem sign_roundtrip_witness:
  "''sign'' \<notin> set (map fst [(''fid'', VStr ''1001''), (''time'', VNum 1700000000000)]) \<and>
   distinct (map fst [(''fid'', VStr ''1001''), (''time'', VNum 1700000000000)]) \<and>
   verifySign rev (createSignedParams rev [(''fid'', VStr ''1001''), (''time'', VNum 1700000000000)] None) None \<and>
   generateSign rev [(''time'', VNum 1700000000000), (''fid'', VStr ''1001'')] None =
     generateSign rev [(''fid'', VStr ''1001''), (''time'', VNum 1700000000000)] None"
proof -
  have h1: "''sign'' \<notin> set (map fst [(''fid'', VStr ''1001''), (''time'', VNum 1700000000000)])"
    and h2: "distinct (map fst [(''fid'', VStr ''1001''), (''time'', VNum 1700000000000)])"
    by simp_all
  have h3: "distinct (map fst [(''time'', VNum 1700000000000), (''fid'', VStr ''1001'')])" by simp
  have h4: "set [(''time'', VNum 1700000000000), (''fid'', VStr ''1001'')] =
            set [(''fid'', VStr ''1001''), (''time'', VNum 1700000000000)]" by auto
  show ?thesis using ApiSign.sign_roundtrip [OF h1 h2, of rev None] h1 h2 h3 h4 by blast
qed

theorem storage_refines_map_witness:
  "distinct (map account_id (loadAccounts store1)) \<and> patch_id status_patch = None \<and>
   stored_by_id (storage_deleteAccount ''1'' True store1) = (stored_by_id store1)(''1'' := None) \<and>
   stored_by_id (storage_updateAccount ''1'' status_patch True store1) =
     (stored_by_id store1)(''1'' := map_option (\<lambda>a. apply_patch a status_patch) (stored_by_id store1 ''1'')) \<and>
   stored_by_id store1 ''2'' = None \<and>
   stored_by_id (storage_addAccount (plain_acc ''2'' ''1002'') True store1) =
     (if list_ex (\<lambda>acc. accountNumber acc = ''1002'') (loadAccounts store1) then stored_by_id store1
      else (stored_by_id store1)(''2'' \<mapsto> plain_acc ''2'' ''1002''))"
proof -
  have h1: "distinct (map account_id (loadAccounts store1))"
    by (simp add: scenario_defs loadAccounts_def storage_get_def)
  have h2: "patch_id status_patch = None" by (simp add: status_patch_def)
  have h3: "stored_by_id store1 ''2'' = None"
    by (simp add: scenario_defs stored_by_id_def loadAccounts_def storage_get_def)
  from Persistence.storage_refines_map [OF h1 h2, of "''1''" "plain_acc ''2'' ''1002''"] h3
  show ?thesis using h1 h2 h3 by (simp add: plain_acc_def)
qed

theorem panel_input_digits_witness:
  "panel_reach ui_typed \<and> newAccount ui_typed = ''123'' \<and>
   panel_step [] ''t'' empty_env ClickConfirm ui_typed initial_world =
     (ui_typed\<lparr>newAccount := [], isAdding := False\<rparr>, initial_world,
      StartAdd (App_handleAddAccount [] ''123'' False ''t'' empty_env initial_world))"
proof -
  have r: "panel_reach ui_typed"
    unfolding ui_typed_def by (intro panel_reach.panel_event panel_reach.panel_init)
  have v: "newAccount ui_typed = ''123''"
    and a: "add_area_of ui_typed = AddInput (newAccount ui_typed) False"
    by (simp_all add: ui_typed_def panel_step_def initial_manager_ui_def add_area_of_def is_digit_def
        js_trim_def js_whitespace_def)
  show ?thesis
    using ManagerPanel.panel_input_digits [OF r, of "[]" "''t''" empty_env initial_world] a v r by simp
qed

theorem panel_delete_spares_busy_witness:
  "panel_step (accounts worldP) ''t'' empty_env (ClickDelete 1) ui_rest worldP =
     (ui_rest, App_handleDeleteAccount ''2'' worldP, NoEffect) \<and>
   accounts (App_handleDeleteAccount ''2'' worldP) = [busy_acc]"
proof -
  have step: "panel_step (accounts worldP) ''t'' empty_env (ClickDelete 1) ui_rest worldP =
     (ui_rest, App_handleDeleteAccount ''2'' worldP, NoEffect)"
    by (simp add: panel_step_def worldP_def busy_acc_def validated_acc_def account_row_def)
  have d: "distinct (map account_id (accounts worldP))"
    by (simp add: worldP_def busy_acc_def validated_acc_def)
  have "accounts (App_handleDeleteAccount ''2'' worldP) = take 1 (accounts worldP) @ drop 2 (accounts worldP)"
    using ManagerPanel.panel_delete_spares_busy [OF step d]
    by (simp add: worldP_def busy_acc_def validated_acc_def)
  then show ?thesis using step by (simp add: worldP_def)
qed

theorem gift_submission_guarded_witness:
  "app_gift_event 500 envC GiftSubmit form_gift worldC =
     (form_gift, Some (submitGiftCodeToAccounts (accounts worldC) ''GIFT1'' 500 envC worldC))"
proof -
  have ev: "app_gift_event 500 envC GiftSubmit form_gift worldC =
     (form_gift, Some (App_handleGiftCodeSubmit ''GIFT1'' 500 envC worldC))"
    by (simp add: app_gift_event_def gift_step_def gift_submit_disabled_def gift_handleSubmit_def
        form_gift_def js_trim_def js_whitespace_def worldC_def initial_world_def)
  have "js_trim (giftCode form_gift) = ''GIFT1''"
    by (simp add: form_gift_def js_trim_def js_whitespace_def)
  then show ?thesis using GiftCodeInput.gift_submission_guarded [OF ev] ev by simp
qed

theorem pending_round_blocks_form_witness:
  "\<exists>w'. submitGiftCodeToAccounts (accounts worldC) ''GIFT1'' 500 empty_env worldC = Suspended w' \<and>
     app_gift_event 500 envC GiftSubmit form_gift w' = (form_gift, None)"
proof -
  obtain w' where s: "submitGiftCodeToAccounts (accounts worldC) ''GIFT1'' 500 empty_env worldC = Suspended w'"
    by (simp add: run_simps scenario_defs)
  show ?thesis using GiftCodeInput.pending_round_blocks_form [OF s] s by blast
qed

theorem alert_dialog_shows_latest_witness:
  "App_alert_view (advance_time 2700 (useAlert_showAlert MRedeemSuccess AlertSuccess
     (advance_time 2500 (useAlert_showAlert MRedeemFailed AlertError initial_alert_hook)))) =
     Some \<lparr>dialog_message = MRedeemSuccess, dialog_style = getAlertStyles AlertSuccess,
           dialog_icon = getIcon AlertSuccess\<rparr> \<and>
   App_alert_view (advance_time 3000 (useAlert_showAlert MRedeemSuccess AlertSuccess
     (advance_time 2500 (useAlert_showAlert MRedeemFailed AlertError initial_alert_hook)))) = None"
proof -
  let ?h = "advance_time 2500 (useAlert_showAlert MRedeemFailed AlertError initial_alert_hook)"
  have h: "now ?h = 2500" "timers ?h = [3000]"
    by (simp_all add: advance_time_def useAlert_showAlert_def initial_alert_hook_def)
  show ?thesis
    using AlertView.alert_dialog_shows_latest [of ?h 2700 MRedeemSuccess AlertSuccess CloseOk]
          AlertView.alert_dialog_shows_latest [of ?h 3000 MRedeemSuccess AlertSuccess CloseOk] h
    by simp
qed

theorem language_switcher_consistent_witness:
  "current_language ''fr-FR'' = fallbackLng \<and>
   switcher_buttons (i18n_language (switcher_click 1 \<lparr>i18n_language = ''fr-FR'', i18n_cache = None\<rparr>)) =
     [(''zh'', False), (''en'', True), (''ko'', False)]"
  using Language.language_switcher_consistent [of "''fr-FR''" 1 "\<lparr>i18n_language = ''fr-FR'', i18n_cache = None\<rparr>"]
  by (simp add: supportedLngs_def switcher_languages_def upt_rec)

theorem app_reach_invariant_witness:
  "app_reach (app_start True (initial_app_model store1 None lang_tw)) \<and>
   accounts (hook (app_start True (initial_app_model store1 None lang_tw))) = [validated_acc ''1'' ''1001'' 1001] \<and>
   wf_accounts (accounts (hook (app_start True (initial_app_model store1 None lang_tw)))) \<and>
   list_all persisted_account (loadAccounts (store (app_start True (initial_app_model store1 None lang_tw)))) \<and>
   delayMs (app_start True (initial_app_model store1 None lang_tw)) = Some 2000"
proof -
  have init: "app_reach (initial_app_model store1 None lang_tw)"
    by (rule app_reach_init)
       (simp_all add: store1_def loadAccounts_def storage_get_def wf_accounts_def validated_acc_def
        persisted_account_def)
  have r: "app_reach (app_start True (initial_app_model store1 None lang_tw))"
    using init app_start_step by (rule app_reach_step)
  have "accounts (hook (app_start True (initial_app_model store1 None lang_tw))) = [validated_acc ''1'' ''1001'' 1001]"
    by (simp add: app_start_def app_init_def initial_app_model_def initial_app_def store1_def
        loadAccounts_def storage_get_def)
  moreover have "initial_delayMs (delay_item (app_start True (initial_app_model store1 None lang_tw))) = Some 2000"
    by (simp add: app_start_def app_save_def initial_app_model_def initial_delayMs_def split: prod.splits)
  ultimately show ?thesis using AppMain.app_reach_invariant [OF r] r by simp
qed

theorem formatFileSize_log_witness:
  "formatFileSize 1536 = ''1.5 KB'' \<and> size_index 1536 = nat \<lfloor>ln (real (1536 :: nat)) / ln 1024\<rfloor> \<and>
   1024 ^ size_index 1536 \<le> (1536 :: nat)"
proof -
  have p: "0 < (1536 :: nat)" by simp
  have "formatFileSize 1536 = ''1.5 KB''"
    by (simp add: formatFileSize_eval del: digits.simps size_index.simps)
  with FileUtils.formatFileSize_log [OF p] show ?thesis by (elim conjE) (intro conjI)
qed

theorem request_signature_verifies_witness:
  "verifySign (\<lambda>_. ''9a'') (received_params (req_body (giftCode_request (\<lambda>_. ''9a'') ''1001'' ''GIFT1'' 1700000000000))) None \<and>
   verifySign (\<lambda>_. ''9a'') (received_params (req_body (playerInfo_request (\<lambda>_. ''9a'') ''1001'' 1700000000000))) None"
  using Request.request_signature_verifies [of "''1001''" "''GIFT1''" "''1001''" "\<lambda>_. ''9a''" 1700000000000]
  by (simp add: form_safe_def)

theorem language_reload_roundtrip_witness:
  "i18n_language (i18n_init \<lparr>location_lang = None, navigator_languages = [''ko-KR'']\<rparr>
      (i18n_cache (switcher_click 1 lang_tw))) = ''en'' \<and>
   i18n_language (i18n_init \<lparr>location_lang = Some ''ko'', navigator_languages = [''en'']\<rparr> (Some ''zh'')) = ''ko''"
proof -
  have "i18n_language (i18n_init \<lparr>location_lang = None, navigator_languages = [''ko-KR'']\<rparr>
      (i18n_cache (switcher_click 1 lang_tw))) = ''en''"
    using Language.language_reload_roundtrip [of "\<lparr>location_lang = None, navigator_languages = [''ko-KR'']\<rparr>"
        _ 1 lang_tw]
    by (simp add: switcher_languages_def)
  moreover have "i18n_language (i18n_init \<lparr>location_lang = Some ''ko'', navigator_languages = [''en'']\<rparr> (Some ''zh'')) = ''ko''"
    using Language.language_reload_roundtrip [of "\<lparr>location_lang = Some ''ko'', navigator_languages = [''en'']\<rparr>"
        "Some ''zh''" _ _ "''ko''"]
    by (simp add: supportedLngs_def)
  ultimately show ?thesis by blast
qed

theorem stale_snapshot_duplicates_witness:
  "\<exists>e' w'. addAccount [] ''1001'' True ''t2'' envS worldS = Returned (True, e', w') \<and>
     2 \<le> count_list (map accountNumber (accounts w')) ''1001'' \<and> \<not> wf_accounts (accounts w')"
  using AddAccount.stale_snapshot_duplicates [where snapshot = "[]" and num = "''1001''" and w = worldS
      and tempId = "''t2''" and e = envS and t = "ok_reply 1001" and rest = "[]" and info = "pinfo 1001"
      and silent = True]
  by (simp add: worldS_def envS_def empty_env_def validated_acc_def ok_reply_def initial_world_def)

theorem createAutoSave_debounce_witness:
  "local_store (timers_advance 1000 True (snd (createAutoSave ''k'' [validated_acc ''2'' ''1002'' 1002] 1000
      (clearTimeout 0 (snd (createAutoSave ''k'' [validated_acc ''1'' ''1001'' 1001] 1000
        \<lparr>clock = 0, pending_timeouts = [], next_timeout = 0, local_store = Map.empty\<rparr>)))))) =
   [''k'' \<mapsto> JsonAccounts [validated_acc ''2'' ''1002'' 1002]]"
proof -
  let ?env = "\<lparr>clock = 0, pending_timeouts = [], next_timeout = 0, local_store = Map.empty\<rparr>"
  obtain tid1 env1 where c1: "createAutoSave ''k'' [validated_acc ''1'' ''1001'' 1001] 1000 ?env = (tid1, env1)"
    by (cases "createAutoSave ''k'' [validated_acc ''1'' ''1001'' 1001] 1000 ?env")
  have t1: "tid1 = 0" using c1 by (simp add: createAutoSave_def)
  obtain tid2 env2 where c2: "createAutoSave ''k'' [validated_acc ''2'' ''1002'' 1002] 1000 (clearTimeout tid1 env1) = (tid2, env2)"
    by (cases "createAutoSave ''k'' [validated_acc ''2'' ''1002'' 1002] 1000 (clearTimeout tid1 env1)")
  have "local_store (timers_advance 1000 True env2) = storage_set ''k'' [validated_acc ''2'' ''1002'' 1002] True Map.empty"
    using Persistence.createAutoSave_debounce [of ?env 0 "''k''" "[validated_acc ''1'' ''1001'' 1001]" 1000 tid1 env1
        "[validated_acc ''2'' ''1002'' 1002]" tid2 env2 1000 True] c1 c2
    by simp
  then show ?thesis using c1 c2 t1 by (simp add: storage_set_def)
qed

theorem reset_statuses_clean_witness:
  "status (reset_statuses [(validated_acc ''1'' ''1001'' 1001)\<lparr>status := Success, lastResult := Some (MText ''ok'')\<rparr>,
                           (validated_acc ''2'' ''1002'' 1002)\<lparr>status := Processing, lastResult := Some (MText ''busy'')\<rparr>] ! 0) = Idle \<and>
   lastResult (reset_statuses [(validated_acc ''1'' ''1001'' 1001)\<lparr>status := Success, lastResult := Some (MText ''ok'')\<rparr>,
                           (validated_acc ''2'' ''1002'' 1002)\<lparr>status := Processing, lastResult := Some (MText ''busy'')\<rparr>] ! 1) = Some (MText ''busy'') \<and>
   status (reset_statuses [(validated_acc ''1'' ''1001'' 1001)\<lparr>status := Success, lastResult := Some (MText ''ok'')\<rparr>,
                           (validated_acc ''2'' ''1002'' 1002)\<lparr>status := Processing, lastResult := Some (MText ''busy'')\<rparr>] ! 1) = Processing"
  using Redemption.reset_statuses_clean [of "[(validated_acc ''1'' ''1001'' 1001)\<lparr>status := Success, lastResult := Some (MText ''ok'')\<rparr>,
                           (validated_acc ''2'' ''1002'' 1002)\<lparr>status := Processing, lastResult := Some (MText ''busy'')\<rparr>]"]
  by simp

end
